(* ===== verification/Prelude.thy ===== *)
theory Prelude
  imports Main "HOL-Library.Word"
begin

text \<open>
  Shared vocabulary of the development. Python values that the workflow keeps in its
  session state are the datatype \<open>pyval\<close> (bytes as lists of \<open>8 word\<close>); Python's truth test \<open>bool(v)\<close> is
  \<open>truthy\<close>; the session state (a Python dict from string keys) is a map
  \<open>string \<rightharpoonup> pyval\<close> read with \<open>dict.get(key, default)\<close>, i.e. \<open>state_get\<close>.
  Python exceptions are values of \<open>py_error\<close>, and a block of statements that may raise
  is a value of \<open>py_error + 'a\<close> built with \<open>py_bind\<close>, \<open>py_assert\<close> and \<open>py_for\<close>
  (the collection \<open>py_return_iff\<close> says when it completes). The collection \<open>state_simps\<close>
  gathers the read-after-write equations the component proofs share.
\<close>

named_theorems state_simps "read-after-write equations of the session state"
named_theorems py_return_iff "when a sequence of Python statements completes without raising"

section \<open>Python values and exceptions\<close>

datatype pyval =
    PStr string
  | PNone
  | PInt int
  | PBool bool
  | PList "pyval list"
  | PDict "(string \<times> pyval) list"
  | PBytes "8 word list"

datatype py_error =
    ValueError string
  | TypeError string
  | ServiceError string
  | UnicodeEncodeError string
  | KeyError string
  | AssertionError string
  | ImportError string

text \<open>Python's \<open>bool(v)\<close>: empty strings, containers, zero, \<open>False\<close> and \<open>None\<close> are false.\<close>

fun truthy :: "pyval \<Rightarrow> bool" where
  "truthy (PStr s) = (s \<noteq> [])"
| "truthy PNone = False"
| "truthy (PInt i) = (i \<noteq> 0)"
| "truthy (PBool b) = b"
| "truthy (PList xs) = (xs \<noteq> [])"
| "truthy (PDict d) = (d \<noteq> [])"
| "truthy (PBytes bs) = (bs \<noteq> [])"

text \<open>Python's \<open>len(v)\<close>: defined on strings and containers, a \<open>TypeError\<close> otherwise.\<close>

fun py_len :: "pyval \<Rightarrow> py_error + nat" where
  "py_len (PStr s) = Inr (length s)"
| "py_len (PList xs) = Inr (length xs)"
| "py_len (PDict d) = Inr (length d)"
| "py_len (PBytes bs) = Inr (length bs)"
| "py_len PNone = Inl (TypeError ''object of type 'NoneType' has no len()'')"
| "py_len (PInt _) = Inl (TypeError ''object of type 'int' has no len()'')"
| "py_len (PBool _) = Inl (TypeError ''object of type 'bool' has no len()'')"

abbreviation empty_str :: pyval where
  "empty_str \<equiv> PStr []"

section \<open>The session state\<close>

type_synonym sstate = "string \<rightharpoonup> pyval"

text \<open>\<open>state.get(key, default)\<close>.\<close>

definition state_get :: "sstate \<Rightarrow> string \<Rightarrow> pyval \<Rightarrow> pyval" where
  "state_get st k d = (case st k of None \<Rightarrow> d | Some v \<Rightarrow> v)"

text \<open>The orchestrator's test \<open>not state.get(key, '')\<close>: the key holds no usable output.\<close>

definition blank :: "sstate \<Rightarrow> string \<Rightarrow> bool" where
  "blank st k = (\<not> truthy (state_get st k empty_str))"

lemma state_get_upd_same [simp, state_simps]: "state_get (st(k \<mapsto> v)) k d = v"
  by (simp add: state_get_def)

lemma state_get_upd_other [simp, state_simps]:
  "k' \<noteq> k \<Longrightarrow> state_get (st(k' \<mapsto> v)) k d = state_get st k d"
  by (simp add: state_get_def)

lemma blank_upd_same [simp, state_simps]: "blank (st(k \<mapsto> v)) k = (\<not> truthy v)"
  by (simp add: blank_def)

lemma blank_upd_other [simp, state_simps]:
  "k' \<noteq> k \<Longrightarrow> blank (st(k' \<mapsto> v)) k = blank st k"
  by (simp add: blank_def)

lemma blank_None [simp]: "st k = None \<Longrightarrow> blank st k"
  by (simp add: blank_def state_get_def)

lemma blank_Some [simp]: "st k = Some v \<Longrightarrow> blank st k = (\<not> truthy v)"
  by (simp add: blank_def state_get_def)

lemma truthy_PStr_iff [simp]: "truthy (PStr s) \<longleftrightarrow> s \<noteq> []"
  by simp

section \<open>Statements that may raise\<close>

text \<open>A block of Python statements, each of which may raise, as a value of
  \<open>py_error + 'a\<close>: \<open>py_bind\<close> runs the rest of the block on the value of a statement
  that completed and passes an exception on; \<open>assert b, msg\<close> raises
  \<open>AssertionError(msg)\<close>; a \<open>for\<close> loop over statements stops at the first exception;
  \<open>try: ... return True except Exception: return False\<close> is \<open>except_false\<close>.\<close>

fun py_bind :: "py_error + 'a \<Rightarrow> ('a \<Rightarrow> py_error + 'b) \<Rightarrow> py_error + 'b" where
  "py_bind (Inl e) f = Inl e"
| "py_bind (Inr x) f = f x"

definition py_assert :: "bool \<Rightarrow> string \<Rightarrow> py_error + unit" where
  "py_assert b msg = (if b then Inr () else Inl (AssertionError msg))"

fun py_for :: "('a \<Rightarrow> py_error + unit) \<Rightarrow> 'a list \<Rightarrow> py_error + unit" where
  "py_for f [] = Inr ()"
| "py_for f (x # xs) = py_bind (f x) (\<lambda>_. py_for f xs)"

definition except_false :: "py_error + unit \<Rightarrow> bool" where
  "except_false r = (case r of Inl _ \<Rightarrow> False | Inr _ \<Rightarrow> True)"

lemma py_bind_Inr_iff [py_return_iff]: "py_bind m f = Inr y \<longleftrightarrow> (\<exists>x. m = Inr x \<and> f x = Inr y)"
  by (cases m) simp_all

lemma py_assert_Inr_iff [py_return_iff]: "py_assert b msg = Inr u \<longleftrightarrow> b"
  by (simp add: py_assert_def)

lemma py_for_Inr_iff [py_return_iff]: "py_for f xs = Inr u \<longleftrightarrow> (\<forall>x \<in> set xs. f x = Inr ())"
  by (induction xs) (auto simp: py_bind_Inr_iff)

lemma except_false_iff [py_return_iff]: "except_false r \<longleftrightarrow> r = Inr ()"
  by (simp add: except_false_def split: sum.splits)

lemma py_assert_True [simp]: "py_assert True msg = Inr ()"
  by (simp add: py_assert_def)

section \<open>Decimal digits\<close>

text \<open>Python's \<open>str(n)\<close> for a natural number, also the unpadded \<open>strftime\<close> year.\<close>

definition digit_char :: "nat \<Rightarrow> char" where
  "digit_char d = char_of (48 + d)"

fun dec_nat :: "nat \<Rightarrow> string" where
  "dec_nat n = (if n < 10 then [digit_char n] else dec_nat (n div 10) @ [digit_char (n mod 10)])"

declare dec_nat.simps [simp del]

definition is_digit :: "char \<Rightarrow> bool" where
  "is_digit c = ((48::nat) \<le> of_char c \<and> of_char c \<le> (57::nat))"

lemma is_digit_digit_char [simp]: "d < 10 \<Longrightarrow> is_digit (digit_char d)"
  by (simp add: is_digit_def digit_char_def)

lemma dec_nat_digits: "\<forall>c \<in> set (dec_nat n). is_digit c"
proof (induction n rule: dec_nat.induct)
  case (1 n)
  then show ?case by (subst dec_nat.simps) auto
qed

lemma dec_nat_nonempty [simp]: "dec_nat n \<noteq> []"
  by (subst dec_nat.simps) simp

lemma dec_nat_less10 [simp]: "n < 10 \<Longrightarrow> dec_nat n = [digit_char n]"
  by (subst dec_nat.simps) simp

lemma digit_char_values [simp]:
  "digit_char 0 = CHR ''0''" "digit_char 1 = CHR ''1''" "digit_char 2 = CHR ''2''"
  "digit_char 3 = CHR ''3''" "digit_char 4 = CHR ''4''" "digit_char 5 = CHR ''5''"
  "digit_char 6 = CHR ''6''" "digit_char 7 = CHR ''7''" "digit_char 8 = CHR ''8''"
  "digit_char 9 = CHR ''9''"
  by (simp_all add: digit_char_def) code_simp+

section \<open>Python dicts built from key/value pairs\<close>

text \<open>A Python dict as the list of its items in insertion order. Setting a present key
  replaces its value in place; a new key goes to the end. \<open>dict(items)\<close> is the fold.\<close>

fun dict_set :: "('k \<times> 'v) list \<Rightarrow> 'k \<Rightarrow> 'v \<Rightarrow> ('k \<times> 'v) list" where
  "dict_set [] k v = [(k, v)]"
| "dict_set ((k', v') # d) k v = (if k' = k then (k, v) # d else (k', v') # dict_set d k v)"

definition py_dict :: "('k \<times> 'v) list \<Rightarrow> ('k \<times> 'v) list" where
  "py_dict items = foldl (\<lambda>d (k, v). dict_set d k v) [] items"

lemma map_fst_dict_set: "map fst (dict_set d k v) = (if k \<in> set (map fst d) then map fst d else map fst d @ [k])"
  by (induction d) force+

lemma distinct_dict_set: "distinct (map fst d) \<Longrightarrow> distinct (map fst (dict_set d k v))"
  by (simp add: map_fst_dict_set)

lemma dict_set_fresh: "k \<notin> set (map fst d) \<Longrightarrow> dict_set d k v = d @ [(k, v)]"
  by (induction d) auto

lemma distinct_foldl_dict_set:
  "distinct (map fst d) \<Longrightarrow> distinct (map fst (foldl (\<lambda>d (k, v). dict_set d k v) d items))"
  by (induction items arbitrary: d) (auto simp: distinct_dict_set)

lemma distinct_py_dict [simp]: "distinct (map fst (py_dict items))"
  by (simp add: py_dict_def distinct_foldl_dict_set)

lemma foldl_dict_set_fresh:
  "distinct (map fst (d @ items)) \<Longrightarrow> foldl (\<lambda>d (k, v). dict_set d k v) d items = d @ items"
  by (induction items arbitrary: d) (auto simp: dict_set_fresh)

lemma fst_set_dict_set: "fst ` set (dict_set d k v) = insert k (fst ` set d)"
proof (induction d)
  case Nil
  then show ?case by simp
next
  case (Cons p d)
  obtain a b where p: "p = (a, b)" by fastforce
  show ?case
  proof (cases "a = k")
    case True
    with p show ?thesis by simp
  next
    case False
    with p Cons.IH show ?thesis by (simp add: insert_commute)
  qed
qed

lemma set_map_fst_foldl_dict_set:
  "set (map fst (foldl (\<lambda>d (k, v). dict_set d k v) d items)) = set (map fst d) \<union> set (map fst items)"
proof (induction items arbitrary: d)
  case Nil
  then show ?case by simp
next
  case (Cons p items)
  obtain a b where p: "p = (a, b)" by fastforce
  with Cons.IH [of "dict_set d a b"] show ?case by (simp add: fst_set_dict_set)
qed

lemma set_map_fst_py_dict [simp]: "fst ` set (py_dict items) = fst ` set items"
  using set_map_fst_foldl_dict_set [of "[]" items] by (simp add: py_dict_def)

lemma py_dict_distinct [simp]: "distinct (map fst items) \<Longrightarrow> py_dict items = items"
  using foldl_dict_set_fresh [of "[]" items] by (simp add: py_dict_def)

section \<open>Joining strings\<close>

text \<open>Python's \<open>sep.join(parts)\<close>.\<close>

fun py_join :: "string \<Rightarrow> string list \<Rightarrow> string" where
  "py_join sep [] = []"
| "py_join sep [x] = x"
| "py_join sep (x # y # ys) = x @ sep @ py_join sep (y # ys)"

lemma py_join_Cons: "xs \<noteq> [] \<Longrightarrow> py_join sep (x # xs) = x @ sep @ py_join sep xs"
  by (cases xs) simp_all

lemma py_join_empty_iff: "py_join sep xs = [] \<longleftrightarrow> (\<forall>x \<in> set xs. x = []) \<and> (sep = [] \<or> length xs \<le> 1)"
  by (induction sep xs rule: py_join.induct) auto

section \<open>Lists\<close>

lemma last_filter_append_match [simp]:
  "P x \<Longrightarrow> last (filter P (xs @ [x])) = x"
  by simp

lemma map_of_distinct_in: "distinct (map fst r) \<Longrightarrow> (k, v) \<in> set r \<Longrightarrow> map_of r k = Some v"
  by simp

end
