(* ===== verification/PyRepr.thy ===== *)
theory PyRepr
  imports Prelude
begin

text \<open>
  Python's \<open>str()\<close> and \<open>repr()\<close> of the values \<open>pyval\<close> can hold, as
  \<open>csv.writer\<close> applies \<open>str()\<close> to every field that is not a string. Characters are
  HOL's 256 \<open>char\<close>s read as the code points U+0000..U+00FF; \<open>repr\<close> of a string
  picks single quotes unless the string has a single and no double quote, escapes the
  backslash and the chosen quote, writes \<open>\t\<close>, \<open>\n\<close>, \<open>\r\<close>, and writes the
  other non-printable characters (the C0 and C1 controls, DEL, U+00A0 and U+00AD) as
  \<open>\xNN\<close> with lower-case hex digits, as CPython's \<open>unicode_repr\<close> does.
\<close>

definition hex_digit :: "nat \<Rightarrow> char" where
  "hex_digit d = (if d < 10 then char_of (48 + d) else char_of (87 + d))"

definition py_printable :: "char \<Rightarrow> bool" where
  "py_printable c =
     (let n = (of_char c :: nat)
      in (32 \<le> n \<and> n < 127) \<or> (161 \<le> n \<and> n \<noteq> 173))"

definition repr_char :: "char \<Rightarrow> char \<Rightarrow> string" where
  "repr_char q c =
     (if c = q \<or> c = CHR 0x5C then [CHR 0x5C, c]
      else if c = CHR 0x09 then [CHR 0x5C, CHR ''t'']
      else if c = CHR 0x0A then [CHR 0x5C, CHR ''n'']
      else if c = CHR 0x0D then [CHR 0x5C, CHR ''r'']
      else if py_printable c then [c]
      else [CHR 0x5C, CHR ''x'', hex_digit (of_char c div 16), hex_digit (of_char c mod 16)])"

definition repr_str :: "string \<Rightarrow> string" where
  "repr_str s =
     (let q = (if CHR 0x27 \<in> set s \<and> CHR 0x22 \<notin> set s then CHR 0x22 else CHR 0x27)
      in q # concat (map (repr_char q) s) @ [q])"

text \<open>\<open>repr(b)\<close> of a bytes object: the same choice of quote, every byte outside
  the printable ASCII range as \<open>\xNN\<close>.\<close>

definition repr_byte :: "char \<Rightarrow> 8 word \<Rightarrow> string" where
  "repr_byte q b =
     (let n = unat b; c = char_of n
      in if c = q \<or> c = CHR 0x5C then [CHR 0x5C, c]
         else if n = 9 then [CHR 0x5C, CHR ''t'']
         else if n = 10 then [CHR 0x5C, CHR ''n'']
         else if n = 13 then [CHR 0x5C, CHR ''r'']
         else if n < 32 \<or> 127 \<le> n then [CHR 0x5C, CHR ''x'', hex_digit (n div 16), hex_digit (n mod 16)]
         else [c])"

definition repr_bytes :: "8 word list \<Rightarrow> string" where
  "repr_bytes bs =
     (let q = (if 39 \<in> set bs \<and> 34 \<notin> set bs then CHR 0x22 else CHR 0x27)
      in CHR ''b'' # q # concat (map (repr_byte q) bs) @ [q])"

definition repr_int :: "int \<Rightarrow> string" where
  "repr_int i = (if i < 0 then CHR ''-'' # dec_nat (nat (- i)) else dec_nat (nat i))"

fun py_repr :: "pyval \<Rightarrow> string" where
  "py_repr (PStr s) = repr_str s"
| "py_repr PNone = ''None''"
| "py_repr (PInt i) = repr_int i"
| "py_repr (PBool b) = (if b then ''True'' else ''False'')"
| "py_repr (PList xs) = ''['' @ py_join '', '' (map py_repr xs) @ '']''"
| "py_repr (PBytes bs) = repr_bytes bs"
| "py_repr (PDict d) =
     ''{'' @ py_join '', '' (map (\<lambda>kv. repr_str (fst kv) @ '': '' @ py_repr (snd kv)) d) @ ''}''"

definition py_str :: "pyval \<Rightarrow> string" where
  "py_str v = (case v of PStr s \<Rightarrow> s | _ \<Rightarrow> py_repr v)"

text \<open>\<open>str(e)\<close> of an exception: its message; for a \<open>KeyError\<close> the \<open>repr\<close> of it.\<close>

fun exc_str :: "py_error \<Rightarrow> string" where
  "exc_str (ValueError m) = m"
| "exc_str (TypeError m) = m"
| "exc_str (ServiceError m) = m"
| "exc_str (UnicodeEncodeError m) = m"
| "exc_str (KeyError m) = repr_str m"
| "exc_str (AssertionError m) = m"
| "exc_str (ImportError m) = m"

lemma py_str_PStr [simp]: "py_str (PStr s) = s"
  by (simp add: py_str_def)

lemma py_printable_ascii: "(32::nat) \<le> of_char c \<Longrightarrow> of_char c < (127::nat) \<Longrightarrow> py_printable c"
  by (simp add: py_printable_def)

end
