(* ===== verification/Instructions.thy ===== *)
theory Instructions
  imports PyRepr "HOL-Library.Sublist"
begin

text \<open>
  The instructions of the four sub-agents (\<open>src/sub_agents/*/prompts.py\<close>) and the state
  injection ADK applies to an \<open>LlmAgent\<close>'s instruction before each model call
  (\<open>google.adk.utils.instructions_utils.inject_session_state\<close>). The instructions are the
  source's strings, character for character (quotes and backslashes written as \<open>CHR\<close>s).
  Injection replaces every match of the regular expression \<open>{+[^{}]*}+\<close>, left to right:
  the name inside the braces (stripped, a trailing \<open>?\<close> making it optional) is looked up
  in the session state and replaced by \<open>str()\<close> of its value; a name that is not a valid
  state name leaves the match as it is; a missing name raises \<open>KeyError\<close> unless it is
  optional, when it becomes the empty string. A name \<open>artifact.f\<close> is answered by the
  artifact service, the parameter \<open>artifact_ref\<close> here: no instruction of the repository
  refers to an artifact. The lemmas give the placeholders of each instruction and show that
  injection cannot fail on a state that defines every name an instruction reads.
\<close>

section \<open>The instructions\<close>

definition CONVERSATION_DATA_RETRIEVAL_INSTRUCTION_STR_LINES :: "string list" where
  \<open>CONVERSATION_DATA_RETRIEVAL_INSTRUCTION_STR_LINES =
    [''\<newline>'',
     ''    You are a conversation data retrieval specialist focused on no-match analysis.\<newline>'',
     ''    \<newline>'',
     ''    Your job is to generate and execute BigQuery SQL to retrieve conversation data \<newline>'',
     ''    specifically for no-match event analysis.\<newline>'',
     ''    \<newline>'',
     ''    Base Query Template for No-Match Analysis:\<newline>'',
     ''    ```sql\<newline>'',
     ''    SELECT\<newline>'',
     ''       REGEXP_EXTRACT(conversation_name, r'' @ [CHR 0x27] @ ''[^'' @ [CHR 0x5C] @ [CHR 0x5C] @ ''/]+$'' @ [CHR 0x27] @ '') AS Convo_ID,\<newline>'',
     ''       STRING_AGG(JSON_VALUE(request, '' @ [CHR 0x27] @ ''$.queryInput.text.text'' @ [CHR 0x27] @ ''), '' @ [CHR 0x27] @ [CHR 0x5C] @ [CHR 0x5C] @ ''n---'' @ [CHR 0x5C] @ [CHR 0x5C] @ ''n'' @ [CHR 0x27] @ '' ORDER BY request_time) AS conversation_script,\<newline>'',
     ''       COUNT(CASE WHEN JSON_VALUE(request, '' @ [CHR 0x27] @ ''$.intentDetectionConfidence'' @ [CHR 0x27] @ '') = '' @ [CHR 0x27] @ ''0.0'' @ [CHR 0x27] @ '' OR JSON_VALUE(request, '' @ [CHR 0x27] @ ''$.intentDetectionConfidence'' @ [CHR 0x27] @ '') IS NULL THEN 1 END) as no_match_count\<newline>'',
     ''    FROM\<newline>'',
     ''       `{PROJECT}.{DATASET}.dialogflow_bigquery_export_data`\<newline>'',
     ''    WHERE\<newline>'',
     ''       DATE(request_time) BETWEEN '' @ [CHR 0x27] @ ''YYYY-MM-DD'' @ [CHR 0x27] @ '' AND '' @ [CHR 0x27] @ ''YYYY-MM-DD'' @ [CHR 0x27] @ ''\<newline>'',
     ''       AND JSON_VALUE(request, '' @ [CHR 0x27] @ ''$.queryInput.text.text'' @ [CHR 0x27] @ '') IS NOT NULL\<newline>'',
     ''    GROUP BY\<newline>'',
     ''       Convo_ID\<newline>'',
     ''    HAVING\<newline>'',
     ''       no_match_count > 0\<newline>'',
     ''    ORDER BY\<newline>'',
     ''       no_match_count DESC\<newline>'',
     ''    LIMIT 10\<newline>'',
     ''    ```\<newline>'',
     ''    \<newline>'',
     ''    Your tasks:\<newline>'',
     ''    1. Extract date ranges from the user query\<newline>'',
     ''    2. Modify the base query with appropriate date ranges\<newline>'',
     ''    3. Execute the query using the `bigquery_execution_tool`\<newline>'',
     ''    4. Format results for no-match analysis\<newline>'',
     ''    \<newline>'',
     ''    Date handling:\<newline>'',
     ''    - If user mentions specific dates, use them directly\<newline>'',
     ''    - If user mentions relative dates (e.g., "last week", "this month"), convert to appropriate date ranges\<newline>'',
     ''    - If no dates mentioned, use last week as default\<newline>'',
     ''    \<newline>'',
     ''    Query Selection Logic:\<newline>'',
     ''    - Always use the no-match analysis query template\<newline>'',
     ''    - Focus on conversations with intent detection confidence of 0.0 or NULL\<newline>'',
     ''    - Limit results to top 10 conversations with highest no-match counts\<newline>'',
     ''    \<newline>'',
     ''    Important Notes:\<newline>'',
     ''    - The table `{PROJECT}.{DATASET}.dialogflow_bigquery_export_data` contains conversation data\<newline>'',
     ''    - Use the exact table name as specified in the template\<newline>'',
     ''    - For no-match analysis, focus on conversations with intent detection confidence of 0.0 or NULL\<newline>'',
     ''    - Ensure the query extracts conversation scripts properly for analysis\<newline>'',
     ''    - Always include the no_match_count in the results\<newline>'',
     ''    \<newline>'',
     ''    Use the project as {PROJECT}, location as {BQ_LOCATION}, dataset as {DATASET}.\<newline>'',
     ''    \<newline>'',
     ''    Output the conversation data in a structured format suitable for no-match analysis, including conversation IDs, scripts, and no-match counts.\<newline>'']\<close>

definition CONVERSATION_DATA_RETRIEVAL_INSTRUCTION_STR :: string where
  "CONVERSATION_DATA_RETRIEVAL_INSTRUCTION_STR = concat CONVERSATION_DATA_RETRIEVAL_INSTRUCTION_STR_LINES"

definition NO_MATCH_ANALYSIS_INSTRUCTION_STR_LINES :: "string list" where
  \<open>NO_MATCH_ANALYSIS_INSTRUCTION_STR_LINES =
    [''\<newline>'',
     ''    You are a Dialogflow CX expert specializing in no-match event analysis and bot optimization. Your job is to analyze conversation data to identify patterns in no_match events and provide actionable recommendations.\<newline>'',
     ''\<newline>'',
     ''    Based on the conversation data provided, analyze the no_match events and provide:\<newline>'',
     ''\<newline>'',
     ''    1. **No-Match Event Analysis:**\<newline>'',
     ''       - Identify conversations with no_match events\<newline>'',
     ''       - Analyze the user utterances that led to no_match\<newline>'',
     ''       - Identify common patterns and themes\<newline>'',
     ''       - Determine the root causes of no_match events\<newline>'',
     ''\<newline>'',
     ''    2. **Intent Gap Analysis:**\<newline>'',
     ''       - Identify missing intents that could handle these utterances\<newline>'',
     ''       - Suggest new training phrases for existing intents\<newline>'',
     ''       - Identify intent coverage gaps\<newline>'',
     ''       - Recommend intent hierarchy improvements\<newline>'',
     ''\<newline>'',
     ''    3. **Bot-Specific Recommendations:**\<newline>'',
     ''       - Provide actionable suggestions to reduce no_match events\<newline>'',
     ''       - Suggest new intents with specific training phrases\<newline>'',
     ''       - Recommend intent parameter improvements\<newline>'',
     ''       - Suggest flow and page structure improvements\<newline>'',
     ''\<newline>'',
     ''    4. **Priority Scoring:**\<newline>'',
     ''       - Rank recommendations by potential impact\<newline>'',
     ''       - Identify high-priority improvements\<newline>'',
     ''       - Suggest implementation order\<newline>'',
     ''\<newline>'',
     ''    **Analysis Guidelines:**\<newline>'',
     ''    - Focus on user utterances that resulted in no_match\<newline>'',
     ''    - Consider the conversation context and flow\<newline>'',
     ''    - Identify patterns in user language and intent\<newline>'',
     ''    - Provide specific, actionable recommendations\<newline>'',
     ''    - Consider the bot'' @ [CHR 0x27] @ ''s current structure and capabilities\<newline>'',
     ''\<newline>'',
     ''    **Output Format:**\<newline>'',
     ''    Provide your analysis in the following format:\<newline>'',
     ''\<newline>'',
     ''    ## No-Match Event Analysis Report\<newline>'',
     ''\<newline>'',
     ''    **Summary:**\<newline>'',
     ''    - Total conversations analyzed: [number]\<newline>'',
     ''    - Conversations with no_match events: [number]\<newline>'',
     ''    - No-match rate: [percentage]\<newline>'',
     ''\<newline>'',
     ''    **Common No-Match Patterns:**\<newline>'',
     ''    1. **Pattern 1: [Description]**\<newline>'',
     ''       - Frequency: [number] occurrences\<newline>'',
     ''       - Example utterances: [list of examples]\<newline>'',
     ''       - Root cause: [analysis]\<newline>'',
     ''       - Recommended solution: [specific action]\<newline>'',
     ''\<newline>'',
     ''    2. **Pattern 2: [Description]**\<newline>'',
     ''       - Frequency: [number] occurrences\<newline>'',
     ''       - Example utterances: [list of examples]\<newline>'',
     ''       - Root cause: [analysis]\<newline>'',
     ''       - Recommended solution: [specific action]\<newline>'',
     ''\<newline>'',
     ''    **Intent Gap Analysis:**\<newline>'',
     ''    - **Missing Intents:**\<newline>'',
     ''      1. Intent Name: [suggested name]\<newline>'',
     ''         - Purpose: [description]\<newline>'',
     ''         - Training phrases: [list of phrases]\<newline>'',
     ''         - Priority: [High/Medium/Low]\<newline>'',
     ''\<newline>'',
     ''      2. Intent Name: [suggested name]\<newline>'',
     ''         - Purpose: [description]\<newline>'',
     ''         - Training phrases: [list of phrases]\<newline>'',
     ''         - Priority: [High/Medium/Low]\<newline>'',
     ''\<newline>'',
     ''    - **Existing Intent Improvements:**\<newline>'',
     ''      1. Intent: [existing intent name]\<newline>'',
     ''         - Add training phrases: [list of new phrases]\<newline>'',
     ''         - Modify parameters: [suggestions]\<newline>'',
     ''         - Priority: [High/Medium/Low]\<newline>'',
     ''\<newline>'',
     ''    **Implementation Recommendations:**\<newline>'',
     ''    1. **Immediate Actions (High Priority):**\<newline>'',
     ''       - [Specific action with expected impact]\<newline>'',
     ''\<newline>'',
     ''    2. **Short-term Improvements (Medium Priority):**\<newline>'',
     ''       - [Specific action with expected impact]\<newline>'',
     ''\<newline>'',
     ''    3. **Long-term Optimizations (Low Priority):**\<newline>'',
     ''       - [Specific action with expected impact]\<newline>'',
     ''\<newline>'',
     ''    **Expected Impact:**\<newline>'',
     ''    - Estimated no-match reduction: [percentage]\<newline>'',
     ''    - Key metrics to monitor: [list of metrics]\<newline>'',
     ''    - Success criteria: [specific criteria]\<newline>'',
     ''\<newline>'',
     ''    Use the conversation data provided below for your analysis:\<newline>'',
     ''    {conversation_data_output}\<newline>'']\<close>

definition NO_MATCH_ANALYSIS_INSTRUCTION_STR :: string where
  "NO_MATCH_ANALYSIS_INSTRUCTION_STR = concat NO_MATCH_ANALYSIS_INSTRUCTION_STR_LINES"

definition DIALOGFLOW_CX_PARSER_INSTRUCTION_STR_LINES :: "string list" where
  \<open>DIALOGFLOW_CX_PARSER_INSTRUCTION_STR_LINES =
    [''\<newline>'',
     ''    You are a Dialogflow CX expert specializing in bot structure analysis. Your job is to analyze the provided Dialogflow CX bot JSON structure and extract comprehensive information about intents, flows, and pages.\<newline>'',
     ''\<newline>'',
     ''    Based on the Dialogflow CX bot JSON provided, analyze and extract:\<newline>'',
     ''\<newline>'',
     ''    1. **Intent Analysis:**\<newline>'',
     ''       - List all existing intents with their names\<newline>'',
     ''       - Extract training phrases for each intent\<newline>'',
     ''       - Identify intent parameters and their types\<newline>'',
     ''       - Map intent hierarchy and relationships\<newline>'',
     ''\<newline>'',
     ''    2. **Flow Structure Analysis:**\<newline>'',
     ''       - Identify all flows in the bot\<newline>'',
     ''       - Map pages within each flow\<newline>'',
     ''       - Analyze transition routes between pages\<newline>'',
     ''       - Identify entry and exit points\<newline>'',
     ''\<newline>'',
     ''    3. **Training Phrase Coverage:**\<newline>'',
     ''       - Extract all training phrases from existing intents\<newline>'',
     ''       - Identify patterns in training phrases\<newline>'',
     ''       - Analyze intent coverage gaps\<newline>'',
     ''       - Suggest improvements based on no-match analysis\<newline>'',
     ''\<newline>'',
     ''    4. **Bot Optimization Insights:**\<newline>'',
     ''       - Identify potential intent conflicts\<newline>'',
     ''       - Suggest intent consolidation opportunities\<newline>'',
     ''       - Recommend flow improvements\<newline>'',
     ''       - Identify missing fallback handling\<newline>'',
     ''\<newline>'',
     ''    **Analysis Guidelines:**\<newline>'',
     ''    - Focus on understanding the current bot structure\<newline>'',
     ''    - Identify patterns in existing training phrases\<newline>'',
     ''    - Consider how new intents would fit into the current structure\<newline>'',
     ''    - Provide specific recommendations for bot improvement\<newline>'',
     ''\<newline>'',
     ''    **Output Format:**\<newline>'',
     ''    Provide your analysis in the following format:\<newline>'',
     ''\<newline>'',
     ''    ## Dialogflow CX Bot Structure Analysis\<newline>'',
     ''\<newline>'',
     ''    **Bot Overview:**\<newline>'',
     ''    - Bot Name: [extracted from agent.json]\<newline>'',
     ''    - Default Language: [extracted from agent.json]\<newline>'',
     ''    - Time Zone: [extracted from agent.json]\<newline>'',
     ''    - Description: [extracted from agent.json]\<newline>'',
     ''\<newline>'',
     ''    **Intent Inventory:**\<newline>'',
     ''    1. **Intent: [Intent Name]**\<newline>'',
     ''       - Training Phrases: [list of all training phrases]\<newline>'',
     ''       - Parameters: [list of parameters if any]\<newline>'',
     ''       - Usage: [how this intent is used in flows]\<newline>'',
     ''\<newline>'',
     ''    2. **Intent: [Intent Name]**\<newline>'',
     ''       - Training Phrases: [list of all training phrases]\<newline>'',
     ''       - Parameters: [list of parameters if any]\<newline>'',
     ''       - Usage: [how this intent is used in flows]\<newline>'',
     ''\<newline>'',
     ''    **Flow Structure:**\<newline>'',
     ''    - **Flow: [Flow Name]**\<newline>'',
     ''      - Start Page: [start page name]\<newline>'',
     ''      - Pages: [list of all pages]\<newline>'',
     ''      - Transition Routes: [key transitions]\<newline>'',
     ''\<newline>'',
     ''    **Training Phrase Analysis:**\<newline>'',
     ''    - Total Training Phrases: [count]\<newline>'',
     ''    - Average Phrases per Intent: [average]\<newline>'',
     ''    - Intent Coverage: [analysis of coverage]\<newline>'',
     ''\<newline>'',
     ''    **Optimization Recommendations:**\<newline>'',
     ''    1. **Intent Improvements:**\<newline>'',
     ''       - [Specific recommendations for existing intents]\<newline>'',
     ''\<newline>'',
     ''    2. **New Intent Suggestions:**\<newline>'',
     ''       - [Suggestions based on no-match analysis]\<newline>'',
     ''\<newline>'',
     ''    3. **Flow Improvements:**\<newline>'',
     ''       - [Suggestions for flow structure]\<newline>'',
     ''\<newline>'',
     ''    **Integration with No-Match Analysis:**\<newline>'',
     ''    - [How the no-match analysis results can be integrated with current bot structure]\<newline>'',
     ''    - [Specific recommendations for reducing no-match events]\<newline>'',
     ''\<newline>'',
     ''    Use the Dialogflow CX bot JSON provided below for your analysis:\<newline>'',
     ''    {dialogflow_bot_json}\<newline>'']\<close>

definition DIALOGFLOW_CX_PARSER_INSTRUCTION_STR :: string where
  "DIALOGFLOW_CX_PARSER_INSTRUCTION_STR = concat DIALOGFLOW_CX_PARSER_INSTRUCTION_STR_LINES"

definition CSV_GENERATION_INSTRUCTION_STR_LINES :: "string list" where
  \<open>CSV_GENERATION_INSTRUCTION_STR_LINES =
    [''\<newline>'',
     ''    You are a Dialogflow CX CSV generation expert. Your job is to create CSV artifacts \<newline>'',
     ''    that can be directly imported into Dialogflow CX to reduce no-match events.\<newline>'',
     ''\<newline>'',
     ''    Based on the no-match analysis and Dialogflow CX bot structure analysis, generate CSV content for:\<newline>'',
     ''\<newline>'',
     ''    **CSV Format Requirements:**\<newline>'',
     ''    The CSV should contain the following columns:\<newline>'',
     ''    - Intent Name: The name of the intent\<newline>'',
     ''    - Training Phrase: The training phrase text\<newline>'',
     ''    - Priority: High/Medium/Low priority for implementation\<newline>'',
     ''    - Category: New Intent or Existing Intent Enhancement\<newline>'',
     ''    - Description: Brief description of the intent purpose\<newline>'',
     ''\<newline>'',
     ''    **Generation Guidelines:**\<newline>'',
     ''    - Use the no-match analysis to identify missing intents\<newline>'',
     ''    - Extract training phrases from the no-match patterns\<newline>'',
     ''    - Consider the existing bot structure for naming conventions\<newline>'',
     ''    - Prioritize high-impact improvements first\<newline>'',
     ''    - Ensure training phrases are diverse and comprehensive\<newline>'',
     ''\<newline>'',
     ''    **Output Format:**\<newline>'',
     ''    Generate the CSV content and save it as an artifact using the ADK context.\<newline>'',
     ''    Use the following format for saving:\<newline>'',
     ''    ```python\<newline>'',
     ''    # Generate CSV content\<newline>'',
     ''    csv_content = "Intent Name,Training Phrase,Priority,Category,Description'' @ [CHR 0x5C] @ ''n..."\<newline>'',
     ''    \<newline>'',
     ''    # Save as artifact using context\<newline>'',
     ''    filename = f"dialogflow_cx_training_phrases_{datetime.now().strftime('' @ [CHR 0x27] @ ''%Y%m%d_%H%M%S'' @ [CHR 0x27] @ '')}.csv"\<newline>'',
     ''    ctx.save_artifact(filename, csv_content.encode('' @ [CHR 0x27] @ ''utf-8'' @ [CHR 0x27] @ ''), mime_type="text/csv")\<newline>'',
     ''    ```\<newline>'',
     ''\<newline>'',
     ''    **Example CSV Structure:**\<newline>'',
     ''    ```csv\<newline>'',
     ''    Intent Name,Training Phrase,Priority,Category,Description\<newline>'',
     ''    AccountSuspensionIntent,Why is my account suspended?,High,New Intent,Handles account suspension queries\<newline>'',
     ''    AccountSuspensionIntent,My account got suspended,High,New Intent,Handles account suspension queries\<newline>'',
     ''    PaymentIssueIntent,I can'' @ [CHR 0x27] @ ''t make a payment,Medium,New Intent,Handles payment-related issues\<newline>'',
     ''    ```\<newline>'',
     ''\<newline>'',
     ''    **Important Notes:**\<newline>'',
     ''    - Ensure all training phrases are relevant to the no-match patterns identified\<newline>'',
     ''    - Use consistent naming conventions for intent names\<newline>'',
     ''    - Include a variety of training phrases for each intent\<newline>'',
     ''    - Prioritize based on frequency and impact of no-match events\<newline>'',
     ''    - Make sure the CSV format is compatible with Dialogflow CX import\<newline>'',
     ''    - Always save the CSV as an artifact using the ADK context system\<newline>'',
     ''    - Generate a descriptive filename with timestamp (e.g., "dialogflow_cx_training_phrases_2024_01_15.csv")\<newline>'',
     ''    - Use proper MIME type "text/csv" when saving the artifact\<newline>'',
     ''\<newline>'',
     ''    Use the following data for CSV generation:\<newline>'',
     ''    - No-match analysis: {no_match_analysis_output}\<newline>'',
     ''    - Dialogflow CX bot structure: {dialogflow_analysis_output}\<newline>'',
     ''    \<newline>'',
     ''    Always save the CSV as an artifact using the ADK context system with a descriptive filename and proper MIME type.\<newline>'']\<close>

definition CSV_GENERATION_INSTRUCTION_STR :: string where
  "CSV_GENERATION_INSTRUCTION_STR = concat CSV_GENERATION_INSTRUCTION_STR_LINES"

section \<open>State injection\<close>

text \<open>\<open>str.isidentifier()\<close> on the code points U+0000..U+00FF: a letter (XID_Start) or
  underscore, then letters, digits, underscores and U+00B7 (XID_Continue).\<close>

definition id_start :: "char \<Rightarrow> bool" where
  "id_start c =
     (let n = (of_char c :: nat)
      in n = 95 \<or> (65 \<le> n \<and> n \<le> 90) \<or> (97 \<le> n \<and> n \<le> 122) \<or> n = 170 \<or> n = 181 \<or> n = 186 \<or>
         (192 \<le> n \<and> n \<le> 214) \<or> (216 \<le> n \<and> n \<le> 246) \<or> 248 \<le> n)"

definition id_continue :: "char \<Rightarrow> bool" where
  "id_continue c = (id_start c \<or> is_digit c \<or> (of_char c :: nat) = 183)"

fun py_isidentifier :: "string \<Rightarrow> bool" where
  "py_isidentifier [] = False"
| "py_isidentifier (c # cs) = (id_start c \<and> list_all id_continue cs)"

text \<open>\<open>s.split(d)\<close> for a one-character separator.\<close>

fun py_split :: "char \<Rightarrow> string \<Rightarrow> string list" where
  "py_split d [] = [[]]"
| "py_split d (c # cs) =
     (if c = d then [] # py_split d cs
      else (case py_split d cs of w # ws \<Rightarrow> (c # w) # ws | [] \<Rightarrow> [[c]]))"

definition is_valid_state_name :: "string \<Rightarrow> bool" where
  "is_valid_state_name var_name =
     (case py_split CHR '':'' var_name of
        [n] \<Rightarrow> py_isidentifier n
      | [p, n] \<Rightarrow> p @ '':'' \<in> set [''app:'', ''user:'', ''temp:''] \<and> py_isidentifier n
      | _ \<Rightarrow> False)"

text \<open>\<open>str.isspace()\<close> on U+0000..U+00FF, and \<open>strip()\<close>.\<close>

definition py_isspace :: "char \<Rightarrow> bool" where
  "py_isspace c =
     (let n = (of_char c :: nat) in (9 \<le> n \<and> n \<le> 13) \<or> (28 \<le> n \<and> n \<le> 32) \<or> n = 133 \<or> n = 160)"

definition py_strip :: "string \<Rightarrow> string" where
  "py_strip s = rev (dropWhile py_isspace (rev (dropWhile py_isspace s)))"

text \<open>\<open>match.group().lstrip('{').rstrip('}').strip()\<close>, then \<open>removesuffix('?')\<close>: the
  name of a placeholder and whether it is optional.\<close>

definition placeholder_name :: "string \<Rightarrow> string \<times> bool" where
  "placeholder_name m =
     (let var_name = py_strip (rev (dropWhile (\<lambda>c. c = CHR ''}'') (rev (dropWhile (\<lambda>c. c = CHR ''{'') m))))
      in if var_name \<noteq> [] \<and> last var_name = CHR ''?'' then (butlast var_name, True) else (var_name, False))"

definition replace_match ::
  "(string \<Rightarrow> py_error + string) \<Rightarrow> sstate \<Rightarrow> string \<Rightarrow> py_error + string" where
  "replace_match artifact_ref st m =
     (let (var_name, optional) = placeholder_name m
      in if prefix ''artifact.'' var_name then artifact_ref (drop 9 var_name)
         else if \<not> is_valid_state_name var_name then Inr m
         else case st var_name of
                Some v \<Rightarrow> Inr (py_str v)
              | None \<Rightarrow> if optional then Inr []
                        else Inl (KeyError (''Context variable not found: `'' @ var_name @ ''`.'')))"

text \<open>The match of \<open>{+[^{}]*}+\<close> at the start of a string, with the rest of the string.
  The repetitions are greedy and no shorter choice can match where the longest fails.\<close>

definition brace_close :: "string \<Rightarrow> (string \<times> string) option" where
  "brace_close s =
     (let opens = takeWhile (\<lambda>c. c = CHR ''{'') s;
          r1 = dropWhile (\<lambda>c. c = CHR ''{'') s;
          body = takeWhile (\<lambda>c. c \<noteq> CHR ''{'' \<and> c \<noteq> CHR ''}'') r1;
          r2 = dropWhile (\<lambda>c. c \<noteq> CHR ''{'' \<and> c \<noteq> CHR ''}'') r1;
          closes = takeWhile (\<lambda>c. c = CHR ''}'') r2
      in if closes \<noteq> [] then Some (opens @ body @ closes, dropWhile (\<lambda>c. c = CHR ''}'') r2)
         else None)"

fun brace_match :: "string \<Rightarrow> (string \<times> string) option" where
  "brace_match [] = None"
| "brace_match (c # cs) = (if c = CHR ''{'' then brace_close (c # cs) else None)"

lemma length_dropWhile_le: "length (dropWhile P xs) \<le> length xs"
  by (induction xs) auto

lemma brace_match_shorter: "brace_match s = Some (m, rest) \<Longrightarrow> length rest < length s"
proof (cases s)
  case (Cons c cs)
  assume a: "brace_match s = Some (m, rest)"
  with Cons have c: "c = CHR ''{''" by (simp split: if_splits)
  have "length rest \<le> length (dropWhile (\<lambda>c. c = CHR ''{'') cs)"
    using a Cons c
    by (auto simp add: brace_close_def Let_def split: if_splits intro: le_trans [OF length_dropWhile_le])
  also have "\<dots> < length s"
    using Cons length_dropWhile_le [of "\<lambda>c. c = CHR ''{''" cs] by simp
  finally show ?thesis .
qed simp

text \<open>\<open>re.sub\<close> with the replacement above, matches taken left to right: the first
  failing replacement raises.\<close>

function inject_session_state ::
  "(string \<Rightarrow> py_error + string) \<Rightarrow> sstate \<Rightarrow> string \<Rightarrow> py_error + string" where
  "inject_session_state artifact_ref st [] = Inr []"
| "inject_session_state artifact_ref st (c # cs) =
     (case brace_match (c # cs) of
        None \<Rightarrow> map_sum id (Cons c) (inject_session_state artifact_ref st cs)
      | Some (m, rest) \<Rightarrow>
          (case replace_match artifact_ref st m of
             Inl e \<Rightarrow> Inl e
           | Inr r \<Rightarrow> map_sum id ((@) r) (inject_session_state artifact_ref st rest)))"
  by pat_completeness auto
termination
  by (relation "measure (\<lambda>(_, _, s). length s)") (auto simp del: brace_match.simps dest: brace_match_shorter)

text \<open>The matches of a template, in order.\<close>

function placeholders :: "string \<Rightarrow> string list" where
  "placeholders [] = []"
| "placeholders (c # cs) =
     (case brace_match (c # cs) of
        None \<Rightarrow> placeholders cs
      | Some (m, rest) \<Rightarrow> m # placeholders rest)"
  by pat_completeness auto
termination
  by (relation "measure length") (auto simp del: brace_match.simps dest: brace_match_shorter)

text \<open>The state keys a match must find: a valid, non-optional state name that is not an
  artifact reference.\<close>

definition match_reads :: "string \<Rightarrow> string list" where
  "match_reads m =
     (let (var_name, optional) = placeholder_name m
      in if prefix ''artifact.'' var_name \<or> \<not> is_valid_state_name var_name \<or> optional then []
         else [var_name])"

definition is_artifact_ref :: "string \<Rightarrow> bool" where
  "is_artifact_ref m = prefix ''artifact.'' (fst (placeholder_name m))"

definition instruction_reads :: "string \<Rightarrow> string list" where
  "instruction_reads tpl = concat (map match_reads (placeholders tpl))"

text \<open>A line that closes every brace it opens, before its end: scanning it never looks at
  what follows it.\<close>

function scan_closed :: "string \<Rightarrow> bool" where
  "scan_closed [] = True"
| "scan_closed (c # cs) =
     (case brace_match (c # cs) of
        None \<Rightarrow> c \<noteq> CHR ''{'' \<and> scan_closed cs
      | Some (m, rest) \<Rightarrow> rest \<noteq> [] \<and> scan_closed rest)"
  by pat_completeness auto
termination
  by (relation "measure length") (auto simp del: brace_match.simps dest: brace_match_shorter)

section \<open>Lemmas\<close>

lemma takeWhile_nonempty: "takeWhile P xs \<noteq> [] \<Longrightarrow> xs \<noteq> [] \<and> P (hd xs)"
  by (cases xs) (auto split: if_splits)

lemma brace_close_append:
  assumes "brace_close s = Some (m, rest)" "rest \<noteq> []"
  shows "brace_close (s @ ys) = Some (m, rest @ ys)"
proof -
  let ?o = "\<lambda>c. c = CHR ''{''" and ?b = "\<lambda>c. c \<noteq> CHR ''{'' \<and> c \<noteq> CHR ''}''"
    and ?k = "\<lambda>c. c = CHR ''}''"
  define r1 where "r1 = dropWhile ?o s"
  define r2 where "r2 = dropWhile ?b r1"
  have cl: "takeWhile ?k r2 \<noteq> []" and rest: "rest = dropWhile ?k r2"
    using assms(1) by (simp_all add: brace_close_def Let_def r1_def [symmetric] r2_def [symmetric] split: if_splits)
  define x where "x = hd rest"
  have x: "x \<in> set r2" "\<not> ?k x"
    using assms(2) hd_dropWhile [of ?k r2] hd_in_set [of rest] set_dropWhileD [of x ?k r2]
    by (simp_all add: x_def rest)
  define y where "y = hd r2"
  have r2: "r2 \<noteq> []" "?k (hd r2)" using takeWhile_nonempty [OF cl] by simp_all
  have "hd r2 \<in> set r2" using r2(1) by (rule hd_in_set)
  then have y: "y \<in> set r2" "?k y" using r2(2) by (simp_all add: y_def)
  have yr1: "y \<in> set r1" using y(1) by (simp add: r2_def) (rule set_dropWhileD)
  have ys: "y \<in> set s" using yr1 by (simp add: r1_def) (rule set_dropWhileD)
  have e1: "dropWhile ?o (s @ ys) = r1 @ ys" "takeWhile ?o (s @ ys) = takeWhile ?o s"
    using ys y(2) by (simp_all add: r1_def dropWhile_append1 takeWhile_append1)
  have e2: "dropWhile ?b (r1 @ ys) = r2 @ ys" "takeWhile ?b (r1 @ ys) = takeWhile ?b r1"
    using yr1 y(2) by (simp_all add: r2_def dropWhile_append1 takeWhile_append1)
  have e3: "takeWhile ?k (r2 @ ys) = takeWhile ?k r2" "dropWhile ?k (r2 @ ys) = rest @ ys"
    using x by (simp_all add: rest takeWhile_append1 dropWhile_append1)
  have "brace_close (s @ ys) =
          Some (takeWhile ?o s @ takeWhile ?b r1 @ takeWhile ?k r2, rest @ ys)"
    unfolding brace_close_def Let_def e1 e2 e3 using cl by simp
  moreover have "brace_close s = Some (takeWhile ?o s @ takeWhile ?b r1 @ takeWhile ?k r2, rest)"
    unfolding brace_close_def Let_def r1_def [symmetric] r2_def [symmetric] rest using cl by simp
  ultimately show ?thesis using assms(1) by simp
qed

lemma brace_match_append:
  "brace_match s = Some (m, rest) \<Longrightarrow> rest \<noteq> [] \<Longrightarrow> brace_match (s @ ys) = Some (m, rest @ ys)"
  by (cases s) (auto split: if_splits intro: brace_close_append [where s = "_ # _", simplified])

lemma placeholders_append:
  "scan_closed l \<Longrightarrow> placeholders (l @ ys) = placeholders l @ placeholders ys"
proof (induction l rule: scan_closed.induct)
  case (2 c cs)
  show ?case
  proof (cases "brace_match (c # cs)")
    case None
    with "2.prems" have "c \<noteq> CHR ''{''" "scan_closed cs" by simp_all
    with None "2.IH"(1) show ?thesis by simp
  next
    case (Some a)
    then obtain m rest where mr: "brace_match (c # cs) = Some (m, rest)" by (cases a) auto
    with "2.prems" have "rest \<noteq> []" "scan_closed rest" by simp_all
    with mr "2.IH"(2) [OF mr refl] brace_match_append [OF mr] show ?thesis
      by (simp del: brace_match.simps)
  qed
qed simp

lemma inject_append:
  "scan_closed l \<Longrightarrow>
   inject_session_state art st (l @ ys) =
     (case inject_session_state art st l of
        Inl e \<Rightarrow> Inl e
      | Inr a \<Rightarrow> map_sum id ((@) a) (inject_session_state art st ys))"
proof (induction l rule: scan_closed.induct)
  case 1
  then show ?case by (cases "inject_session_state art st ys") simp_all
next
  case (2 c cs)
  show ?case
  proof (cases "brace_match (c # cs)")
    case None
    with "2.prems" have "c \<noteq> CHR ''{''" "scan_closed cs" by simp_all
    with None "2.IH"(1) show ?thesis
      by (cases "inject_session_state art st ys") (auto split: sum.splits)
  next
    case (Some a)
    then obtain m rest where mr: "brace_match (c # cs) = Some (m, rest)" by (cases a) auto
    with "2.prems" have "rest \<noteq> []" "scan_closed rest" by simp_all
    with mr "2.IH"(2) [OF mr refl] brace_match_append [OF mr] show ?thesis
      by (cases "inject_session_state art st ys") (simp_all del: brace_match.simps split: sum.splits)
  qed
qed

lemma placeholders_concat:
  "list_all scan_closed ls \<Longrightarrow> placeholders (concat ls) = concat (map placeholders ls)"
  by (induction ls) (simp_all add: placeholders_append)

lemma instruction_reads_concat:
  "list_all scan_closed ls \<Longrightarrow> instruction_reads (concat ls) = concat (map instruction_reads ls)"
  by (induction ls) (simp_all add: instruction_reads_def placeholders_append)

fun inject_lines :: "(string \<Rightarrow> py_error + string) \<Rightarrow> sstate \<Rightarrow> string list \<Rightarrow> py_error + string" where
  "inject_lines art st [] = Inr []"
| "inject_lines art st (l # ls) =
     (case inject_session_state art st l of
        Inl e \<Rightarrow> Inl e
      | Inr a \<Rightarrow> map_sum id ((@) a) (inject_lines art st ls))"

lemma inject_concat:
  "list_all scan_closed ls \<Longrightarrow> inject_session_state art st (concat ls) = inject_lines art st ls"
  by (induction ls) (auto simp add: inject_append split: sum.splits)

lemma map_sum_Inr_iff [simp]: "map_sum g f x = Inr p \<longleftrightarrow> (\<exists>y. x = Inr y \<and> p = f y)"
  by (cases x) auto

lemma replace_match_Inr_iff:
  "\<not> is_artifact_ref m \<Longrightarrow>
   (\<exists>r. replace_match art st m = Inr r) \<longleftrightarrow> set (match_reads m) \<subseteq> dom st"
  by (auto simp add: replace_match_def match_reads_def is_artifact_ref_def split: prod.splits option.splits)

lemma inject_Inr_iff:
  "list_all (\<lambda>m. \<not> is_artifact_ref m) (placeholders tpl) \<Longrightarrow>
   (\<exists>p. inject_session_state art st tpl = Inr p) \<longleftrightarrow> set (instruction_reads tpl) \<subseteq> dom st"
proof (induction art st tpl rule: inject_session_state.induct)
  case (2 art st c cs)
  show ?case
  proof (cases "brace_match (c # cs)")
    case None
    with "2.prems" have "list_all (\<lambda>m. \<not> is_artifact_ref m) (placeholders cs)"
      by (simp del: brace_match.simps)
    with None "2.IH"(1) [OF None] show ?thesis
      by (simp add: instruction_reads_def del: brace_match.simps)
  next
    case (Some a)
    then obtain m rest where mr: "brace_match (c # cs) = Some (m, rest)" by (cases a) auto
    with "2.prems" have nm: "\<not> is_artifact_ref m"
      and pr: "list_all (\<lambda>m. \<not> is_artifact_ref m) (placeholders rest)"
      by (simp_all del: brace_match.simps)
    have reads: "instruction_reads (c # cs) = match_reads m @ instruction_reads rest"
      using mr by (simp add: instruction_reads_def del: brace_match.simps)
    show ?thesis
    proof (cases "replace_match art st m")
      case (Inl e)
      then show ?thesis
        using mr replace_match_Inr_iff [OF nm, of art st] reads by (auto simp del: brace_match.simps)
    next
      case (Inr r)
      then show ?thesis
        using mr "2.IH"(2) [OF mr refl Inr pr] replace_match_Inr_iff [OF nm, of art st] reads
        by (auto simp del: brace_match.simps split: sum.splits)
    qed
  qed
qed (simp add: instruction_reads_def)

lemma inject_lines_sublist:
  "inject_lines art st ls = Inr p \<Longrightarrow> l \<in> set ls \<Longrightarrow> inject_session_state art st l = Inr q \<Longrightarrow>
   sublist q p"
proof (induction ls arbitrary: p)
  case (Cons l' ls)
  then obtain a r where a: "inject_session_state art st l' = Inr a" "inject_lines art st ls = Inr r"
    "p = a @ r"
    by (auto split: sum.splits)
  show ?case
  proof (cases "l = l'")
    case True
    then show ?thesis using Cons.prems(3) a by simp
  next
    case False
    then have "sublist q r" using Cons a by simp
    then show ?thesis using a(3) by (simp add: sublist_append_leftI sublist_order.order_trans)
  qed
qed simp

subsection \<open>The placeholders of the four instructions\<close>

lemmas instruction_eval =
  brace_close_def match_reads_def placeholder_name_def py_strip_def py_isspace_def
  is_valid_state_name_def id_start_def id_continue_def is_digit_def is_artifact_ref_def

lemma retrieval_instruction_lines: "list_all scan_closed CONVERSATION_DATA_RETRIEVAL_INSTRUCTION_STR_LINES"
  by (simp add: CONVERSATION_DATA_RETRIEVAL_INSTRUCTION_STR_LINES_def brace_close_def)

lemma retrieval_instruction_reads: "instruction_reads CONVERSATION_DATA_RETRIEVAL_INSTRUCTION_STR = [''PROJECT'', ''DATASET'', ''PROJECT'', ''DATASET'', ''PROJECT'', ''BQ_LOCATION'', ''DATASET'']"
  unfolding CONVERSATION_DATA_RETRIEVAL_INSTRUCTION_STR_def instruction_reads_concat [OF retrieval_instruction_lines]
  by (simp add: CONVERSATION_DATA_RETRIEVAL_INSTRUCTION_STR_LINES_def instruction_reads_def instruction_eval)

lemma retrieval_instruction_no_artifact: "list_all (\<lambda>m. \<not> is_artifact_ref m) (placeholders CONVERSATION_DATA_RETRIEVAL_INSTRUCTION_STR)"
  unfolding CONVERSATION_DATA_RETRIEVAL_INSTRUCTION_STR_def placeholders_concat [OF retrieval_instruction_lines]
  by (simp add: CONVERSATION_DATA_RETRIEVAL_INSTRUCTION_STR_LINES_def instruction_eval)

lemma analysis_instruction_lines: "list_all scan_closed NO_MATCH_ANALYSIS_INSTRUCTION_STR_LINES"
  by (simp add: NO_MATCH_ANALYSIS_INSTRUCTION_STR_LINES_def brace_close_def)

lemma analysis_instruction_reads: "instruction_reads NO_MATCH_ANALYSIS_INSTRUCTION_STR = [''conversation_data_output'']"
  unfolding NO_MATCH_ANALYSIS_INSTRUCTION_STR_def instruction_reads_concat [OF analysis_instruction_lines]
  by (simp add: NO_MATCH_ANALYSIS_INSTRUCTION_STR_LINES_def instruction_reads_def instruction_eval)

lemma analysis_instruction_no_artifact: "list_all (\<lambda>m. \<not> is_artifact_ref m) (placeholders NO_MATCH_ANALYSIS_INSTRUCTION_STR)"
  unfolding NO_MATCH_ANALYSIS_INSTRUCTION_STR_def placeholders_concat [OF analysis_instruction_lines]
  by (simp add: NO_MATCH_ANALYSIS_INSTRUCTION_STR_LINES_def instruction_eval)

lemma parser_instruction_lines: "list_all scan_closed DIALOGFLOW_CX_PARSER_INSTRUCTION_STR_LINES"
  by (simp add: DIALOGFLOW_CX_PARSER_INSTRUCTION_STR_LINES_def brace_close_def)

lemma parser_instruction_reads: "instruction_reads DIALOGFLOW_CX_PARSER_INSTRUCTION_STR = [''dialogflow_bot_json'']"
  unfolding DIALOGFLOW_CX_PARSER_INSTRUCTION_STR_def instruction_reads_concat [OF parser_instruction_lines]
  by (simp add: DIALOGFLOW_CX_PARSER_INSTRUCTION_STR_LINES_def instruction_reads_def instruction_eval)

lemma parser_instruction_no_artifact: "list_all (\<lambda>m. \<not> is_artifact_ref m) (placeholders DIALOGFLOW_CX_PARSER_INSTRUCTION_STR)"
  unfolding DIALOGFLOW_CX_PARSER_INSTRUCTION_STR_def placeholders_concat [OF parser_instruction_lines]
  by (simp add: DIALOGFLOW_CX_PARSER_INSTRUCTION_STR_LINES_def instruction_eval)

lemma csv_instruction_lines: "list_all scan_closed CSV_GENERATION_INSTRUCTION_STR_LINES"
  by (simp add: CSV_GENERATION_INSTRUCTION_STR_LINES_def brace_close_def)

lemma csv_instruction_reads: "instruction_reads CSV_GENERATION_INSTRUCTION_STR = [''no_match_analysis_output'', ''dialogflow_analysis_output'']"
  unfolding CSV_GENERATION_INSTRUCTION_STR_def instruction_reads_concat [OF csv_instruction_lines]
  by (simp add: CSV_GENERATION_INSTRUCTION_STR_LINES_def instruction_reads_def instruction_eval)

lemma csv_instruction_no_artifact: "list_all (\<lambda>m. \<not> is_artifact_ref m) (placeholders CSV_GENERATION_INSTRUCTION_STR)"
  unfolding CSV_GENERATION_INSTRUCTION_STR_def placeholders_concat [OF csv_instruction_lines]
  by (simp add: CSV_GENERATION_INSTRUCTION_STR_LINES_def instruction_eval)

text \<open>The line of the CSV generation instruction that shows the bot structure.\<close>

lemma csv_bot_structure_line:
  "''    - Dialogflow CX bot structure: {dialogflow_analysis_output}\<newline>'' \<in> set CSV_GENERATION_INSTRUCTION_STR_LINES"
  by (simp add: CSV_GENERATION_INSTRUCTION_STR_LINES_def)

lemma inject_csv_bot_structure_line:
  "st ''dialogflow_analysis_output'' = Some v \<Longrightarrow>
   inject_session_state art st ''    - Dialogflow CX bot structure: {dialogflow_analysis_output}\<newline>'' =
     Inr (''    - Dialogflow CX bot structure: '' @ py_str v @ ''\<newline>'')"
  by (simp add: replace_match_def instruction_eval)

subsection \<open>Substrings\<close>

text \<open>Python's \<open>x in s\<close> on strings is \<open>sublist x s\<close>. A needle without a newline
  occurs in an instruction exactly when it occurs in one of its lines, so the test is
  evaluated line by line.\<close>

lemma sublist_append_sep:
  assumes "c \<notin> set n" "xs \<noteq> []" "last xs = c"
  shows "sublist n (xs @ ys) \<longleftrightarrow> sublist n xs \<or> sublist n ys"
proof
  assume "sublist n (xs @ ys)"
  then consider "sublist n xs" | "sublist n ys" | n1 n2 where "n = n1 @ n2" "suffix n1 xs" "prefix n2 ys"
    by (auto simp: sublist_append)
  then show "sublist n xs \<or> sublist n ys"
  proof cases
    case 3
    show ?thesis
    proof (cases "n1 = []")
      case True
      with 3 show ?thesis by (simp add: prefix_imp_sublist)
    next
      case False
      from 3(2) obtain zs where "xs = zs @ n1" by (auto simp: suffix_def)
      with False assms(3) have "last n1 = c" by simp
      with False 3(1) assms(1) last_in_set [OF False] show ?thesis by simp
    qed
  qed simp_all
qed (auto simp: sublist_append)

lemma sublist_concat_lines:
  "c \<notin> set n \<Longrightarrow> n \<noteq> [] \<Longrightarrow> list_all (\<lambda>l. l \<noteq> [] \<and> last l = c) ls \<Longrightarrow>
   sublist n (concat ls) \<longleftrightarrow> (\<exists>l\<in>set ls. sublist n l)"
  by (induction ls) (simp_all add: sublist_append_sep)

lemma csv_instruction_newlines:
  "list_all (\<lambda>l. l \<noteq> [] \<and> last l = CHR 0x0A) CSV_GENERATION_INSTRUCTION_STR_LINES"
  by (simp add: CSV_GENERATION_INSTRUCTION_STR_LINES_def)

lemma sublist_concat_member: "l \<in> set ls \<Longrightarrow> sublist n l \<Longrightarrow> sublist n (concat ls)"
proof -
  assume "l \<in> set ls" "sublist n l"
  then obtain as bs where ls: "ls = as @ l # bs" by (auto dest: split_list)
  from \<open>sublist n l\<close> obtain ps ss where "l = ps @ n @ ss" by (auto simp: sublist_def)
  with ls show ?thesis
    unfolding sublist_def by (intro exI [of _ "concat as @ ps"] exI [of _ "ss @ concat bs"]) simp
qed

lemma csv_save_artifact_line:
  \<open>''    ctx.save_artifact(filename, csv_content.encode('' @ [CHR 0x27] @ ''utf-8'' @ [CHR 0x27] @ ''), mime_type="text/csv")\<newline>''
     \<in> set CSV_GENERATION_INSTRUCTION_STR_LINES\<close>
  by (simp add: CSV_GENERATION_INSTRUCTION_STR_LINES_def)

lemma csv_adk_context_line:
  "''    Generate the CSV content and save it as an artifact using the ADK context.\<newline>''
     \<in> set CSV_GENERATION_INSTRUCTION_STR_LINES"
  by (simp add: CSV_GENERATION_INSTRUCTION_STR_LINES_def)

lemma csv_instruction_contains:
  "CHR 0x0A \<notin> set n \<Longrightarrow> n \<noteq> [] \<Longrightarrow>
   sublist n CSV_GENERATION_INSTRUCTION_STR \<longleftrightarrow> (\<exists>l\<in>set CSV_GENERATION_INSTRUCTION_STR_LINES. sublist n l)"
  unfolding CSV_GENERATION_INSTRUCTION_STR_def by (rule sublist_concat_lines [OF _ _ csv_instruction_newlines])

lemmas instruction_facts =
  retrieval_instruction_reads analysis_instruction_reads parser_instruction_reads csv_instruction_reads
  retrieval_instruction_no_artifact analysis_instruction_no_artifact parser_instruction_no_artifact
  csv_instruction_no_artifact

end
