(* ===== verification/SubAgents.thy ===== *)
theory SubAgents
  imports Instructions
begin

text \<open>
  The four sub-agents of \<open>src/sub_agents/*/agent.py\<close> are ADK \<open>LlmAgent\<close>s: a name, a
  model, a description, an instruction (theory \<open>Instructions\<close>), a tool list and an
  \<open>output_key\<close>. Running one hands the session state to the
  language model, relays the events the model produces and, when the model gives a final
  text response, stores that text under the agent's \<open>output_key\<close>. The language model
  itself is not part of the repository: it is the parameter \<open>'ev llm\<close>, any function from
  the session state to the events it yields and its optional final text. An agent, seen
  from the orchestrator, is a function from the state to its events and the new state
  (\<open>'ev agent\<close>).
\<close>

type_synonym 'ev agent = "sstate \<Rightarrow> 'ev list \<times> sstate"
type_synonym 'ev llm = "sstate \<Rightarrow> 'ev list \<times> string option"

record llm_agent_cfg =
  agent_name :: string
  agent_model :: string
  agent_description :: string
  instruction :: string
  agent_tools :: "string list"
  output_key :: string

text \<open>ADK's \<open>LlmAgent.run_async\<close> with an \<open>output_key\<close>: the final response text is saved
  into the state under that key; without a final text the state is left as it was.\<close>

definition run_llm_agent :: "llm_agent_cfg \<Rightarrow> 'ev llm \<Rightarrow> 'ev agent" where
  "run_llm_agent cfg m st =
     (case m st of
        (evs, None) \<Rightarrow> (evs, st)
      | (evs, Some txt) \<Rightarrow> (evs, st(output_key cfg \<mapsto> PStr txt)))"

text \<open>Before each model call ADK injects the session state into the agent's instruction
  (\<open>inject_session_state\<close>); the model is given the injected instruction, and a failed
  injection raises out of the agent. \<open>run_llm_agent\<close> is this run once the injection has
  succeeded, with the model \<open>M\<close> applied to the injected text.\<close>

definition run_instructed_agent ::
  "llm_agent_cfg \<Rightarrow> (string \<Rightarrow> 'ev llm) \<Rightarrow> (string \<Rightarrow> py_error + string) \<Rightarrow> sstate \<Rightarrow>
   py_error + 'ev list \<times> sstate" where
  "run_instructed_agent cfg M artifact_ref st =
     (case inject_session_state artifact_ref st (instruction cfg) of
        Inl e \<Rightarrow> Inl e
      | Inr prompt \<Rightarrow> Inr (run_llm_agent cfg (M prompt) st))"

definition conversation_data_retrieval_agent_cfg :: llm_agent_cfg where
  "conversation_data_retrieval_agent_cfg =
     \<lparr>agent_name = ''conversation_data_retrieval_agent'', agent_model = ''gemini-2.5-flash'',
      agent_description = ''Retrieves conversation data with no-match events from BigQuery for analysis'',
      instruction = CONVERSATION_DATA_RETRIEVAL_INSTRUCTION_STR,
      agent_tools = [''bigquery_execution_tool''], output_key = ''conversation_data_output''\<rparr>"

definition no_match_analysis_agent_cfg :: llm_agent_cfg where
  "no_match_analysis_agent_cfg =
     \<lparr>agent_name = ''no_match_analysis_agent'', agent_model = ''gemini-2.5-flash'',
      agent_description = ''Analyzes no-match events in conversation data and provides bot optimization recommendations'',
      instruction = NO_MATCH_ANALYSIS_INSTRUCTION_STR,
      agent_tools = [], output_key = ''no_match_analysis_output''\<rparr>"

definition dialogflow_cx_parser_agent_cfg :: llm_agent_cfg where
  "dialogflow_cx_parser_agent_cfg =
     \<lparr>agent_name = ''dialogflow_cx_parser_agent'', agent_model = ''gemini-2.5-flash'',
      agent_description = ''Analyzes Dialogflow CX bot JSON structure and extracts intent information for optimization'',
      instruction = DIALOGFLOW_CX_PARSER_INSTRUCTION_STR,
      agent_tools = [], output_key = ''dialogflow_analysis_output''\<rparr>"

definition csv_generation_agent_cfg :: llm_agent_cfg where
  "csv_generation_agent_cfg =
     \<lparr>agent_name = ''csv_generation_agent'', agent_model = ''gemini-2.5-flash'',
      agent_description = ''Generates CSV artifacts with training phrases that can be imported into Dialogflow CX to reduce no-match events'',
      instruction = CSV_GENERATION_INSTRUCTION_STR,
      agent_tools = [], output_key = ''csv_generation_output''\<rparr>"

lemmas agent_cfg_defs =
  conversation_data_retrieval_agent_cfg_def no_match_analysis_agent_cfg_def
  dialogflow_cx_parser_agent_cfg_def csv_generation_agent_cfg_def

lemma agent_instructions:
  "instruction conversation_data_retrieval_agent_cfg = CONVERSATION_DATA_RETRIEVAL_INSTRUCTION_STR"
  "instruction no_match_analysis_agent_cfg = NO_MATCH_ANALYSIS_INSTRUCTION_STR"
  "instruction dialogflow_cx_parser_agent_cfg = DIALOGFLOW_CX_PARSER_INSTRUCTION_STR"
  "instruction csv_generation_agent_cfg = CSV_GENERATION_INSTRUCTION_STR"
  by (simp_all add: agent_cfg_defs)

section \<open>The agent contract\<close>

text \<open>An agent that writes at most the key \<open>k\<close> of the session state.\<close>

definition writes_only :: "string \<Rightarrow> 'ev agent \<Rightarrow> bool" where
  "writes_only k ag \<longleftrightarrow> (\<forall>st k'. k' \<noteq> k \<longrightarrow> snd (ag st) k' = st k')"

text \<open>An agent that leaves a string under \<open>k\<close> whenever it found one there.\<close>

definition keeps_str :: "string \<Rightarrow> 'ev agent \<Rightarrow> bool" where
  "keeps_str k ag \<longleftrightarrow> (\<forall>st s. st k = Some (PStr s) \<longrightarrow> (\<exists>s'. snd (ag st) k = Some (PStr s')))"

lemma run_llm_agent_state:
  "snd (run_llm_agent cfg m st) =
     (case snd (m st) of None \<Rightarrow> st | Some txt \<Rightarrow> st(output_key cfg \<mapsto> PStr txt))"
  by (simp add: run_llm_agent_def split: prod.splits option.splits)

lemma run_llm_agent_events: "fst (run_llm_agent cfg m st) = fst (m st)"
  by (simp add: run_llm_agent_def split: prod.splits option.splits)

lemma run_llm_agent_writes_only: "writes_only (output_key cfg) (run_llm_agent cfg m)"
  by (simp add: writes_only_def run_llm_agent_state split: option.splits)

lemma run_llm_agent_keeps_str: "keeps_str (output_key cfg) (run_llm_agent cfg m)"
  by (auto simp add: keeps_str_def run_llm_agent_state split: option.splits)

lemma run_llm_agent_dom: "dom st \<subseteq> dom (snd (run_llm_agent cfg m st))"
  by (auto simp add: run_llm_agent_state split: option.splits)

lemma run_llm_agent_other_key:
  "k \<noteq> output_key cfg \<Longrightarrow> snd (run_llm_agent cfg m st) k = st k"
  by (simp add: run_llm_agent_state split: option.splits)

lemma writes_onlyD: "writes_only k ag \<Longrightarrow> k' \<noteq> k \<Longrightarrow> snd (ag st) k' = st k'"
  by (simp add: writes_only_def)

lemma keeps_strD:
  "keeps_str k ag \<Longrightarrow> st k = Some (PStr s) \<Longrightarrow> \<exists>s'. snd (ag st) k = Some (PStr s')"
  by (simp add: keeps_str_def)

end
