(* ===== verification/Orchestrator.thy ===== *)
theory Orchestrator
  imports SubAgents
begin

text \<open>
  \<open>src/agent.py\<close>, \<open>NoMatchAnalysisAgent._run_async_impl\<close>: the four-step workflow.
  The class's four agent fields are the record \<open>'ev agents\<close>; the events are the type
  variable \<open>'ev\<close>, since the orchestrator never looks into them. The async generator is
  modelled by what it does observably, in order: a trace of \<open>'ev obs\<close> (a yielded
  event, a logger call, or the exception that ends the generator) and the final session
  state. A logger call is recorded as which call it was and its numeric argument, not as
  its text. After each sub-agent the code reads the agent's output key with
  \<open>state.get(key, '')\<close>, logs its \<open>len\<close> (a \<open>TypeError\<close> for a value without a
  length) and returns early when the value is falsy.
\<close>

datatype agent_id = Retrieval | Analysis | Parser | CsvGen

datatype log_entry =
    LogStart
  | LogStep nat
  | LogEvent agent_id
  | LogOutputLen agent_id nat
  | LogSkipParser
  | WarnNoData
  | WarnNoAnalysis
  | WarnNoCsv
  | LogCompleted

datatype 'ev obs = Yield 'ev | Log log_entry | Raise py_error

record 'ev agents =
  conversation_data_retrieval_agent :: "'ev agent"
  no_match_analysis_agent :: "'ev agent"
  dialogflow_cx_parser_agent :: "'ev agent"
  csv_generation_agent :: "'ev agent"

text \<open>\<open>async for event in agent.run_async(ctx): logger.info(...); yield event\<close>.\<close>

definition relay :: "agent_id \<Rightarrow> 'ev list \<Rightarrow> 'ev obs list" where
  "relay a evs = concat (map (\<lambda>e. [Log (LogEvent a), Yield e]) evs)"

text \<open>Run one sub-agent, relay its events, read its output key and log the length.
  The third component is the exception of \<open>len\<close> or the value read.\<close>

definition step_and_read ::
  "agent_id \<Rightarrow> 'ev agent \<Rightarrow> string \<Rightarrow> sstate \<Rightarrow> 'ev obs list \<times> sstate \<times> (py_error + pyval)" where
  "step_and_read a ag k st =
     (let (evs, st') = ag st;
          out = state_get st' k empty_str
      in (case py_len out of
            Inl e \<Rightarrow> (relay a evs, st', Inl e)
          | Inr n \<Rightarrow> (relay a evs @ [Log (LogOutputLen a n)], st', Inr out)))"

definition run_async_impl :: "'ev agents \<Rightarrow> sstate \<Rightarrow> 'ev obs list \<times> sstate" where
  "run_async_impl A st0 =
    (let (o1, st1, r1) = step_and_read Retrieval (conversation_data_retrieval_agent A)
                           ''conversation_data_output'' st0;
         h1 = [Log LogStart, Log (LogStep 1)] @ o1
     in case r1 of Inl e \<Rightarrow> (h1 @ [Raise e], st1)
      | Inr out1 \<Rightarrow> if \<not> truthy out1 then (h1 @ [Log WarnNoData], st1) else
    let (o2, st2, r2) = step_and_read Analysis (no_match_analysis_agent A)
                          ''no_match_analysis_output'' st1;
        h2 = h1 @ [Log (LogStep 2)] @ o2
    in case r2 of Inl e \<Rightarrow> (h2 @ [Raise e], st2)
     | Inr out2 \<Rightarrow> if \<not> truthy out2 then (h2 @ [Log WarnNoAnalysis], st2) else
    let (o3, st3, r3) =
          (if truthy (state_get st2 ''dialogflow_bot_json'' empty_str)
           then (let (os, st, r) = step_and_read Parser (dialogflow_cx_parser_agent A)
                                    ''dialogflow_analysis_output'' st2
                 in (Log (LogStep 3) # os, st, r))
           else ([Log LogSkipParser], st2, Inr empty_str));
        h3 = h2 @ o3
    in case r3 of Inl e \<Rightarrow> (h3 @ [Raise e], st3)
     | Inr _ \<Rightarrow>
    let (o4, st4, r4) = step_and_read CsvGen (csv_generation_agent A) ''csv_generation_output'' st3;
        h4 = h3 @ [Log (LogStep 4)] @ o4
    in case r4 of Inl e \<Rightarrow> (h4 @ [Raise e], st4)
     | Inr out4 \<Rightarrow> if \<not> truthy out4 then (h4 @ [Log WarnNoCsv], st4) else (h4 @ [Log LogCompleted], st4))"

text \<open>The events the caller receives: the yields of the trace.\<close>

fun yields :: "'ev obs list \<Rightarrow> 'ev list" where
  "yields [] = []"
| "yields (Yield e # os) = e # yields os"
| "yields (Log _ # os) = yields os"
| "yields (Raise _ # os) = yields os"

text \<open>Sample agents for the examples: each writes a fixed string under its key and
  yields one event, the string's length.\<close>

definition demo_agent :: "string \<Rightarrow> string \<Rightarrow> nat agent" where
  "demo_agent k s st = ([length s], st(k \<mapsto> PStr s))"

definition demo_agents :: "string \<Rightarrow> string \<Rightarrow> string \<Rightarrow> string \<Rightarrow> nat agents" where
  "demo_agents a b c d =
     \<lparr>conversation_data_retrieval_agent = demo_agent ''conversation_data_output'' a,
      no_match_analysis_agent = demo_agent ''no_match_analysis_output'' b,
      dialogflow_cx_parser_agent = demo_agent ''dialogflow_analysis_output'' c,
      csv_generation_agent = demo_agent ''csv_generation_output'' d\<rparr>"

lemmas demo_simps = demo_agents_def demo_agent_def

text \<open>Probes: \<open>probe a ag\<close> changes the state as \<open>ag\<close> does and yields one event, its
  own name. Running the orchestrator on the probes of its agents makes every call of a
  sub-agent visible in the yields, in the order of the calls.\<close>

definition probe :: "agent_id \<Rightarrow> 'ev agent \<Rightarrow> agent_id agent" where
  "probe a ag st = ([a], snd (ag st))"

definition probes :: "'ev agents \<Rightarrow> agent_id agents" where
  "probes A =
     \<lparr>conversation_data_retrieval_agent = probe Retrieval (conversation_data_retrieval_agent A),
      no_match_analysis_agent = probe Analysis (no_match_analysis_agent A),
      dialogflow_cx_parser_agent = probe Parser (dialogflow_cx_parser_agent A),
      csv_generation_agent = probe CsvGen (csv_generation_agent A)\<rparr>"

section \<open>Lemmas on the pieces\<close>

lemma yields_append [simp]: "yields (xs @ ys) = yields xs @ yields ys"
  by (induction xs rule: yields.induct) auto

lemma yields_relay [simp]: "yields (relay a evs) = evs"
  by (induction evs) (simp_all add: relay_def)

lemma yields_Log [simp]: "yields [Log l] = []"
  and yields_Raise [simp]: "yields [Raise e] = []"
  by simp_all

text \<open>An output that is a string: \<open>len\<close> succeeds and the value is what was read.\<close>

definition str_at :: "sstate \<Rightarrow> string \<Rightarrow> string \<Rightarrow> bool" where
  "str_at st k s \<longleftrightarrow> state_get st k empty_str = PStr s"

lemma step_and_read_str:
  assumes "ag st = (evs, st')" and "str_at st' k s"
  shows "step_and_read a ag k st = (relay a evs @ [Log (LogOutputLen a (length s))], st', Inr (PStr s))"
  using assms by (simp add: step_and_read_def str_at_def)

lemma step_and_read_err:
  assumes "ag st = (evs, st')" and "py_len (state_get st' k empty_str) = Inl e"
  shows "step_and_read a ag k st = (relay a evs, st', Inl e)"
  using assms by (simp add: step_and_read_def)

lemma step_and_read_state: "fst (snd (step_and_read a ag k st)) = snd (ag st)"
  by (simp add: step_and_read_def Let_def split: prod.splits sum.splits)

lemma step_and_read_yields: "yields (fst (step_and_read a ag k st)) = fst (ag st)"
  by (simp add: step_and_read_def Let_def split: prod.splits sum.splits)

lemma step_and_read_ok:
  assumes "ag st = (evs, st')" and "py_len (state_get st' k empty_str) = Inr n"
  shows "step_and_read a ag k st =
           (relay a evs @ [Log (LogOutputLen a n)], st', Inr (state_get st' k empty_str))"
  using assms by (simp add: step_and_read_def)

lemma str_at_py_len: "str_at st k s \<Longrightarrow> py_len (state_get st k empty_str) = Inr (length s)"
  by (simp add: str_at_def)

section \<open>The workflow, branch by branch\<close>

text \<open>The abbreviations name the four output keys as the code spells them.\<close>

abbreviation conv_key :: string where "conv_key \<equiv> ''conversation_data_output''"
abbreviation analysis_key :: string where "analysis_key \<equiv> ''no_match_analysis_output''"
abbreviation bot_json_key :: string where "bot_json_key \<equiv> ''dialogflow_bot_json''"
abbreviation parser_key :: string where "parser_key \<equiv> ''dialogflow_analysis_output''"
abbreviation csv_key :: string where "csv_key \<equiv> ''csv_generation_output''"

lemma run_async_impl_retrieval_raises:
  assumes "conversation_data_retrieval_agent A st = (evs1, st1)"
    and "py_len (state_get st1 conv_key empty_str) = Inl e"
  shows "run_async_impl A st = ([Log LogStart, Log (LogStep 1)] @ relay Retrieval evs1 @ [Raise e], st1)"
  using assms by (simp add: run_async_impl_def step_and_read_err)

text \<open>C3: When the retrieval agent leaves no usable conversation data (its output key reads as a falsy value with a length), the workflow logs the warning and ends: the trace is the start and step-1 logs, the relayed retrieval events, the length log and the warning, and the state is the one the retrieval agent left. No other agent runs.\<close>

lemma run_async_impl_retrieval_empty:
  assumes "conversation_data_retrieval_agent A st = (evs1, st1)"
    and "py_len (state_get st1 conv_key empty_str) = Inr n1"
    and "\<not> truthy (state_get st1 conv_key empty_str)"
  shows "run_async_impl A st =
           ([Log LogStart, Log (LogStep 1)] @ relay Retrieval evs1 @
            [Log (LogOutputLen Retrieval n1), Log WarnNoData], st1)"
  using assms by (simp add: run_async_impl_def step_and_read_ok)

theorem run_async_impl_retrieval_empty_witness:
  "conversation_data_retrieval_agent (demo_agents [] ''a'' ''b'' ''c'') Map.empty = ([0], [conv_key \<mapsto> PStr []]) \<and>
   run_async_impl (demo_agents [] ''a'' ''b'' ''c'') Map.empty =
     ([Log LogStart, Log (LogStep 1)] @ relay Retrieval [0] @
      [Log (LogOutputLen Retrieval 0), Log WarnNoData], [conv_key \<mapsto> PStr []])"
proof -
  have h1: "conversation_data_retrieval_agent (demo_agents [] ''a'' ''b'' ''c'') Map.empty =
              ([0], [conv_key \<mapsto> PStr []])" by (simp add: demo_simps)
  have h2: "py_len (state_get [conv_key \<mapsto> PStr []] conv_key empty_str) = Inr 0" by simp
  have h3: "\<not> truthy (state_get [conv_key \<mapsto> PStr []] conv_key empty_str)" by simp
  show ?thesis using h1 run_async_impl_retrieval_empty [OF h1 h2 h3] by simp
qed

text \<open>The prefix of the trace once retrieval produced a usable output.\<close>

definition retrieval_prefix :: "'ev list \<Rightarrow> nat \<Rightarrow> 'ev obs list" where
  "retrieval_prefix evs1 n1 =
     [Log LogStart, Log (LogStep 1)] @ relay Retrieval evs1 @ [Log (LogOutputLen Retrieval n1)]"

definition analysis_prefix :: "'ev list \<Rightarrow> nat \<Rightarrow> 'ev list \<Rightarrow> nat \<Rightarrow> 'ev obs list" where
  "analysis_prefix evs1 n1 evs2 n2 =
     retrieval_prefix evs1 n1 @ [Log (LogStep 2)] @ relay Analysis evs2 @ [Log (LogOutputLen Analysis n2)]"

definition csv_suffix :: "'ev list \<Rightarrow> nat \<Rightarrow> pyval \<Rightarrow> 'ev obs list" where
  "csv_suffix evs4 n4 out4 =
     [Log (LogStep 4)] @ relay CsvGen evs4 @
     [Log (LogOutputLen CsvGen n4), Log (if truthy out4 then LogCompleted else WarnNoCsv)]"

text \<open>C4: When retrieval succeeds but the analysis agent leaves an empty analysis, the workflow ends after step 2 with the warning; the parser and CSV agents never run and the state is the one the analysis agent left.\<close>

lemma run_async_impl_analysis_empty:
  assumes "conversation_data_retrieval_agent A st = (evs1, st1)"
    and "py_len (state_get st1 conv_key empty_str) = Inr n1"
    and "truthy (state_get st1 conv_key empty_str)"
    and "no_match_analysis_agent A st1 = (evs2, st2)"
    and "py_len (state_get st2 analysis_key empty_str) = Inr n2"
    and "\<not> truthy (state_get st2 analysis_key empty_str)"
  shows "run_async_impl A st = (analysis_prefix evs1 n1 evs2 n2 @ [Log WarnNoAnalysis], st2)"
  using assms
  by (simp add: run_async_impl_def step_and_read_ok analysis_prefix_def retrieval_prefix_def)

theorem run_async_impl_analysis_empty_witness:
  "run_async_impl (demo_agents ''rows'' [] ''p'' ''c'') Map.empty =
     (analysis_prefix [4] 4 [0] 0 @ [Log WarnNoAnalysis],
      [conv_key \<mapsto> PStr ''rows'', analysis_key \<mapsto> PStr []])"
proof -
  let ?A = "demo_agents ''rows'' [] ''p'' ''c''"
  let ?st1 = "[conv_key \<mapsto> PStr ''rows'']"
  have h1: "conversation_data_retrieval_agent ?A Map.empty = ([4], ?st1)" by (simp add: demo_simps)
  have h2: "py_len (state_get ?st1 conv_key empty_str) = Inr 4" by simp
  have h3: "truthy (state_get ?st1 conv_key empty_str)" by simp
  have h4: "no_match_analysis_agent ?A ?st1 = ([0], ?st1(analysis_key \<mapsto> PStr []))"
    by (simp add: demo_simps)
  have h5: "py_len (state_get (?st1(analysis_key \<mapsto> PStr [])) analysis_key empty_str) = Inr 0" by simp
  have h6: "\<not> truthy (state_get (?st1(analysis_key \<mapsto> PStr [])) analysis_key empty_str)" by simp
  show ?thesis using run_async_impl_analysis_empty [OF h1 h2 h3 h4 h5 h6] by simp
qed

text \<open>C5: When the bot-configuration key is falsy after a successful analysis, step 3 is skipped (one skip log, the parser agent is not called) and the CSV agent runs on the analysis state; the run ends with the completion log when the CSV output is truthy and with the warning otherwise.\<close>

lemma run_async_impl_skip_parser:
  assumes "conversation_data_retrieval_agent A st = (evs1, st1)"
    and "py_len (state_get st1 conv_key empty_str) = Inr n1"
    and "truthy (state_get st1 conv_key empty_str)"
    and "no_match_analysis_agent A st1 = (evs2, st2)"
    and "py_len (state_get st2 analysis_key empty_str) = Inr n2"
    and "truthy (state_get st2 analysis_key empty_str)"
    and "\<not> truthy (state_get st2 bot_json_key empty_str)"
    and "csv_generation_agent A st2 = (evs4, st4)"
    and "py_len (state_get st4 csv_key empty_str) = Inr n4"
  shows "run_async_impl A st =
           (analysis_prefix evs1 n1 evs2 n2 @ [Log LogSkipParser] @
            csv_suffix evs4 n4 (state_get st4 csv_key empty_str), st4)"
  using assms
  by (simp add: run_async_impl_def step_and_read_ok analysis_prefix_def retrieval_prefix_def
      csv_suffix_def)

theorem run_async_impl_skip_parser_witness:
  "run_async_impl (demo_agents ''rows'' ''gaps'' ''p'' ''csv'') Map.empty =
     (analysis_prefix [4] 4 [4] 4 @ [Log LogSkipParser] @ csv_suffix [3] 3 (PStr ''csv''),
      [conv_key \<mapsto> PStr ''rows'', analysis_key \<mapsto> PStr ''gaps'', csv_key \<mapsto> PStr ''csv''])"
proof -
  let ?A = "demo_agents ''rows'' ''gaps'' ''p'' ''csv''"
  let ?st1 = "[conv_key \<mapsto> PStr ''rows'']"
  let ?st2 = "?st1(analysis_key \<mapsto> PStr ''gaps'')"
  have h1: "conversation_data_retrieval_agent ?A Map.empty = ([4], ?st1)" by (simp add: demo_simps)
  have h2: "py_len (state_get ?st1 conv_key empty_str) = Inr 4" by simp
  have h3: "truthy (state_get ?st1 conv_key empty_str)" by simp
  have h4: "no_match_analysis_agent ?A ?st1 = ([4], ?st2)" by (simp add: demo_simps)
  have h5: "py_len (state_get ?st2 analysis_key empty_str) = Inr 4" by simp
  have h6: "truthy (state_get ?st2 analysis_key empty_str)" by simp
  have h7: "\<not> truthy (state_get ?st2 bot_json_key empty_str)" by (simp add: state_get_def)
  have h8: "csv_generation_agent ?A ?st2 = ([3], ?st2(csv_key \<mapsto> PStr ''csv''))"
    by (simp add: demo_simps)
  have h9: "py_len (state_get (?st2(csv_key \<mapsto> PStr ''csv'')) csv_key empty_str) = Inr 3" by simp
  show ?thesis using run_async_impl_skip_parser [OF h1 h2 h3 h4 h5 h6 h7 h8 h9] by simp
qed

text \<open>C6: When the bot-configuration key is truthy after a successful analysis, the parser agent runs, its events are relayed, and the CSV agent runs on the state the parser left, whatever the parser produced.\<close>

lemma run_async_impl_with_parser:
  assumes "conversation_data_retrieval_agent A st = (evs1, st1)"
    and "py_len (state_get st1 conv_key empty_str) = Inr n1"
    and "truthy (state_get st1 conv_key empty_str)"
    and "no_match_analysis_agent A st1 = (evs2, st2)"
    and "py_len (state_get st2 analysis_key empty_str) = Inr n2"
    and "truthy (state_get st2 analysis_key empty_str)"
    and "truthy (state_get st2 bot_json_key empty_str)"
    and "dialogflow_cx_parser_agent A st2 = (evs3, st3)"
    and "py_len (state_get st3 parser_key empty_str) = Inr n3"
    and "csv_generation_agent A st3 = (evs4, st4)"
    and "py_len (state_get st4 csv_key empty_str) = Inr n4"
  shows "run_async_impl A st =
           (analysis_prefix evs1 n1 evs2 n2 @
            [Log (LogStep 3)] @ relay Parser evs3 @ [Log (LogOutputLen Parser n3)] @
            csv_suffix evs4 n4 (state_get st4 csv_key empty_str), st4)"
  using assms
  by (simp add: run_async_impl_def step_and_read_ok analysis_prefix_def retrieval_prefix_def
      csv_suffix_def)

theorem run_async_impl_with_parser_witness:
  "run_async_impl (demo_agents ''rows'' ''gaps'' ''flows'' ''csv'') [bot_json_key \<mapsto> PStr ''{}''] =
     (analysis_prefix [4] 4 [4] 4 @ [Log (LogStep 3)] @ relay Parser [5] @
      [Log (LogOutputLen Parser 5)] @ csv_suffix [3] 3 (PStr ''csv''),
      [bot_json_key \<mapsto> PStr ''{}'', conv_key \<mapsto> PStr ''rows'', analysis_key \<mapsto> PStr ''gaps'',
       parser_key \<mapsto> PStr ''flows'', csv_key \<mapsto> PStr ''csv''])"
proof -
  let ?A = "demo_agents ''rows'' ''gaps'' ''flows'' ''csv''"
  let ?st0 = "[bot_json_key \<mapsto> PStr ''{}'']"
  let ?st1 = "?st0(conv_key \<mapsto> PStr ''rows'')"
  let ?st2 = "?st1(analysis_key \<mapsto> PStr ''gaps'')"
  let ?st3 = "?st2(parser_key \<mapsto> PStr ''flows'')"
  have h1: "conversation_data_retrieval_agent ?A ?st0 = ([4], ?st1)" by (simp add: demo_simps)
  have h2: "py_len (state_get ?st1 conv_key empty_str) = Inr 4" by simp
  have h3: "truthy (state_get ?st1 conv_key empty_str)" by simp
  have h4: "no_match_analysis_agent ?A ?st1 = ([4], ?st2)" by (simp add: demo_simps)
  have h5: "py_len (state_get ?st2 analysis_key empty_str) = Inr 4" by simp
  have h6: "truthy (state_get ?st2 analysis_key empty_str)" by simp
  have h7: "truthy (state_get ?st2 bot_json_key empty_str)" by simp
  have h8: "dialogflow_cx_parser_agent ?A ?st2 = ([5], ?st3)" by (simp add: demo_simps)
  have h9: "py_len (state_get ?st3 parser_key empty_str) = Inr 5" by simp
  have h10: "csv_generation_agent ?A ?st3 = ([3], ?st3(csv_key \<mapsto> PStr ''csv''))"
    by (simp add: demo_simps)
  have h11: "py_len (state_get (?st3(csv_key \<mapsto> PStr ''csv'')) csv_key empty_str) = Inr 3" by simp
  show ?thesis using run_async_impl_with_parser [OF h1 h2 h3 h4 h5 h6 h7 h8 h9 h10 h11] by simp
qed

section \<open>Interfaces the deployed agents satisfy\<close>

text \<open>The four output keys hold strings.\<close>

definition out_keys :: "string list" where
  "out_keys = [conv_key, analysis_key, parser_key, csv_key]"

definition str_keys :: "string list \<Rightarrow> sstate \<Rightarrow> bool" where
  "str_keys ks st \<longleftrightarrow> (\<forall>k \<in> set ks. \<exists>s. st k = Some (PStr s))"

definition preserves_strs :: "string list \<Rightarrow> 'ev agent \<Rightarrow> bool" where
  "preserves_strs ks ag \<longleftrightarrow> (\<forall>st. str_keys ks st \<longrightarrow> str_keys ks (snd (ag st)))"

lemma str_keys_len [simp]:
  "str_keys ks st \<Longrightarrow> k \<in> set ks \<Longrightarrow> py_len (state_get st k empty_str) = Inl e \<longleftrightarrow> False"
  by (auto simp: str_keys_def state_get_def)

lemma preserves_strsD:
  "preserves_strs ks ag \<Longrightarrow> ag st = (evs, st') \<Longrightarrow> str_keys ks st \<Longrightarrow> str_keys ks st'"
  unfolding preserves_strs_def by (metis snd_conv)

lemma run_async_impl_parser_irrelevant:
  assumes "conversation_data_retrieval_agent A st = (evs1, st1)"
    and "no_match_analysis_agent A st1 = (evs2, st2)"
    and "\<not> truthy (state_get st2 bot_json_key empty_str)"
  shows "run_async_impl (A\<lparr>dialogflow_cx_parser_agent := P\<rparr>) st = run_async_impl A st"
  using assms by (simp add: run_async_impl_def step_and_read_def Let_def split: sum.splits)

lemma run_async_impl_strs:
  assumes "preserves_strs out_keys (conversation_data_retrieval_agent A)"
    and "preserves_strs out_keys (no_match_analysis_agent A)"
    and "preserves_strs out_keys (dialogflow_cx_parser_agent A)"
    and "preserves_strs out_keys (csv_generation_agent A)"
    and "str_keys out_keys st"
  shows "(\<forall>e. Raise e \<notin> set (fst (run_async_impl A st))) \<and> str_keys out_keys (snd (run_async_impl A st))"
proof -
  obtain evs1 st1 where 1: "conversation_data_retrieval_agent A st = (evs1, st1)" by fastforce
  obtain evs2 st2 where 2: "no_match_analysis_agent A st1 = (evs2, st2)" by fastforce
  obtain evs3 st3 where 3: "dialogflow_cx_parser_agent A st2 = (evs3, st3)" by fastforce
  obtain evs4 st4 where 4: "csv_generation_agent A st2 = (evs4, st4)" by fastforce
  obtain evs5 st5 where 5: "csv_generation_agent A st3 = (evs5, st5)" by fastforce
  have s1: "str_keys out_keys st1" using assms(1) 1 assms(5) by (rule preserves_strsD)
  have s2: "str_keys out_keys st2" using assms(2) 2 s1 by (rule preserves_strsD)
  have s3: "str_keys out_keys st3" using assms(3) 3 s2 by (rule preserves_strsD)
  have s4: "str_keys out_keys st4" using assms(4) 4 s2 by (rule preserves_strsD)
  have s5: "str_keys out_keys st5" using assms(4) 5 s3 by (rule preserves_strsD)
  have k: "conv_key \<in> set out_keys" "analysis_key \<in> set out_keys" "parser_key \<in> set out_keys"
    "csv_key \<in> set out_keys" by (simp_all add: out_keys_def)
  show ?thesis
    using 1 2 3 4 5 s1 s2 s3 s4 s5 k
    by (auto simp add: run_async_impl_def step_and_read_def Let_def relay_def split: sum.splits)
qed

text \<open>Any property of the state that every agent preserves holds of the final state.\<close>

lemma run_async_impl_invariant:
  assumes "\<And>s. P s \<Longrightarrow> P (snd (conversation_data_retrieval_agent A s))"
    and "\<And>s. P s \<Longrightarrow> P (snd (no_match_analysis_agent A s))"
    and "\<And>s. P s \<Longrightarrow> P (snd (dialogflow_cx_parser_agent A s))"
    and "\<And>s. P s \<Longrightarrow> P (snd (csv_generation_agent A s))"
    and "P st"
  shows "P (snd (run_async_impl A st))"
proof -
  obtain evs1 st1 where 1: "conversation_data_retrieval_agent A st = (evs1, st1)" by fastforce
  obtain evs2 st2 where 2: "no_match_analysis_agent A st1 = (evs2, st2)" by fastforce
  obtain evs3 st3 where 3: "dialogflow_cx_parser_agent A st2 = (evs3, st3)" by fastforce
  obtain evs4 st4 where 4: "csv_generation_agent A st2 = (evs4, st4)" by fastforce
  obtain evs5 st5 where 5: "csv_generation_agent A st3 = (evs5, st5)" by fastforce
  have p1: "P st1" using assms(1) [OF assms(5)] 1 by simp
  have p2: "P st2" using assms(2) [OF p1] 2 by simp
  have p3: "P st3" using assms(3) [OF p2] 3 by simp
  have p4: "P st4" using assms(4) [OF p2] 4 by simp
  have p5: "P st5" using assms(4) [OF p3] 5 by simp
  show ?thesis
    using 1 2 3 4 5 p1 p2 p3 p4 p5
    by (auto simp add: run_async_impl_def step_and_read_def Let_def relay_def split: sum.splits)
qed

section \<open>Which agents run\<close>

text \<open>C7: \<open>_run_async_impl\<close> calls its sub-agents at most once each, in the order retrieval,
  analysis, parser, CSV generation, always starting with retrieval: run on the probes of any
  agents, the calls it makes are one of the five sequences the early returns and the
  step-3 branch allow (no retry, no reordering), and the probes leave the state as the
  agents do.\<close>

theorem run_async_impl_invocations:
  "yields (fst (run_async_impl (probes A) st)) \<in>
     {[Retrieval], [Retrieval, Analysis], [Retrieval, Analysis, Parser],
      [Retrieval, Analysis, CsvGen], [Retrieval, Analysis, Parser, CsvGen]} \<and>
   snd (run_async_impl (probes A) st) = snd (run_async_impl A st)"
proof -
  obtain evs1 st1 where 1: "conversation_data_retrieval_agent A st = (evs1, st1)" by fastforce
  obtain evs2 st2 where 2: "no_match_analysis_agent A st1 = (evs2, st2)" by fastforce
  obtain evs3 st3 where 3: "dialogflow_cx_parser_agent A st2 = (evs3, st3)" by fastforce
  obtain evs4 st4 where 4: "csv_generation_agent A st2 = (evs4, st4)" by fastforce
  obtain evs5 st5 where 5: "csv_generation_agent A st3 = (evs5, st5)" by fastforce
  show ?thesis
    using 1 2 3 4 5
    by (simp add: run_async_impl_def step_and_read_def probes_def probe_def Let_def split: sum.splits)
qed

end
