(* ===== verification/Workflow.thy ===== *)
theory Workflow
  imports Orchestrator "HOL-Library.Sublist"
begin

text \<open>
  The abstract specification of the orchestrator (spec section 4.1): a machine with the
  phases INIT, RETRIEVING, ANALYZING, STRUCTURE\_PARSING or SKIP\_STRUCTURE, GENERATING
  and the two terminal phases DONE and ABORTED. A configuration holds the phase, the
  session state, the events relayed so far and, as a ghost, the list of sub-agents
  invoked. \<open>orch_step\<close> is the step relation, one rule per transition; the guard of a
  transition is the code's condition on the output key (\<open>output_ok\<close>: \<open>len\<close> succeeds
  and the value is truthy; \<open>len_ok\<close>: \<open>len\<close> succeeds). The machine drops the log; the
  refinement theorem relates it to \<open>run_async_impl\<close> through the yields of the trace.
\<close>

datatype phase = INIT | RETRIEVING | ANALYZING | STRUCTURE_PARSING | SKIP_STRUCTURE
  | GENERATING | DONE | ABORTED

record 'ev wcfg =
  phase :: phase
  wstate :: sstate
  yielded :: "'ev list"
  invoked :: "agent_id list"

definition len_ok :: "sstate \<Rightarrow> string \<Rightarrow> bool" where
  "len_ok st k \<longleftrightarrow> (case py_len (state_get st k empty_str) of Inl _ \<Rightarrow> False | Inr _ \<Rightarrow> True)"

definition output_ok :: "sstate \<Rightarrow> string \<Rightarrow> bool" where
  "output_ok st k \<longleftrightarrow> len_ok st k \<and> truthy (state_get st k empty_str)"

definition init_cfg :: "sstate \<Rightarrow> 'ev wcfg" where
  "init_cfg st = \<lparr>phase = INIT, wstate = st, yielded = [], invoked = []\<rparr>"

text \<open>Invoking one sub-agent from a configuration.\<close>

definition run_in :: "agent_id \<Rightarrow> 'ev agent \<Rightarrow> 'ev wcfg \<Rightarrow> 'ev wcfg" where
  "run_in a ag c =
     (let (evs, st') = ag (wstate c)
      in c\<lparr>wstate := st', yielded := yielded c @ evs, invoked := invoked c @ [a]\<rparr>)"

inductive orch_step :: "'ev agents \<Rightarrow> 'ev wcfg \<Rightarrow> 'ev wcfg \<Rightarrow> bool" for A where
  start: "phase c = INIT \<Longrightarrow> orch_step A c (c\<lparr>phase := RETRIEVING\<rparr>)"
| retrieve_ok: "phase c = RETRIEVING \<Longrightarrow> c' = run_in Retrieval (conversation_data_retrieval_agent A) c \<Longrightarrow>
    output_ok (wstate c') conv_key \<Longrightarrow> orch_step A c (c'\<lparr>phase := ANALYZING\<rparr>)"
| retrieve_abort: "phase c = RETRIEVING \<Longrightarrow> c' = run_in Retrieval (conversation_data_retrieval_agent A) c \<Longrightarrow>
    \<not> output_ok (wstate c') conv_key \<Longrightarrow> orch_step A c (c'\<lparr>phase := ABORTED\<rparr>)"
| analyse_parse: "phase c = ANALYZING \<Longrightarrow> c' = run_in Analysis (no_match_analysis_agent A) c \<Longrightarrow>
    output_ok (wstate c') analysis_key \<Longrightarrow> truthy (state_get (wstate c') bot_json_key empty_str) \<Longrightarrow>
    orch_step A c (c'\<lparr>phase := STRUCTURE_PARSING\<rparr>)"
| analyse_skip: "phase c = ANALYZING \<Longrightarrow> c' = run_in Analysis (no_match_analysis_agent A) c \<Longrightarrow>
    output_ok (wstate c') analysis_key \<Longrightarrow> \<not> truthy (state_get (wstate c') bot_json_key empty_str) \<Longrightarrow>
    orch_step A c (c'\<lparr>phase := SKIP_STRUCTURE\<rparr>)"
| analyse_abort: "phase c = ANALYZING \<Longrightarrow> c' = run_in Analysis (no_match_analysis_agent A) c \<Longrightarrow>
    \<not> output_ok (wstate c') analysis_key \<Longrightarrow> orch_step A c (c'\<lparr>phase := ABORTED\<rparr>)"
| parse_ok: "phase c = STRUCTURE_PARSING \<Longrightarrow> c' = run_in Parser (dialogflow_cx_parser_agent A) c \<Longrightarrow>
    len_ok (wstate c') parser_key \<Longrightarrow> orch_step A c (c'\<lparr>phase := GENERATING\<rparr>)"
| parse_abort: "phase c = STRUCTURE_PARSING \<Longrightarrow> c' = run_in Parser (dialogflow_cx_parser_agent A) c \<Longrightarrow>
    \<not> len_ok (wstate c') parser_key \<Longrightarrow> orch_step A c (c'\<lparr>phase := ABORTED\<rparr>)"
| skip: "phase c = SKIP_STRUCTURE \<Longrightarrow> orch_step A c (c\<lparr>phase := GENERATING\<rparr>)"
| generate_done: "phase c = GENERATING \<Longrightarrow> c' = run_in CsvGen (csv_generation_agent A) c \<Longrightarrow>
    len_ok (wstate c') csv_key \<Longrightarrow> orch_step A c (c'\<lparr>phase := DONE\<rparr>)"
| generate_abort: "phase c = GENERATING \<Longrightarrow> c' = run_in CsvGen (csv_generation_agent A) c \<Longrightarrow>
    \<not> len_ok (wstate c') csv_key \<Longrightarrow> orch_step A c (c'\<lparr>phase := ABORTED\<rparr>)"

inductive orch_steps :: "'ev agents \<Rightarrow> 'ev wcfg \<Rightarrow> 'ev wcfg \<Rightarrow> bool" for A where
  refl: "orch_steps A c c"
| step: "orch_step A c c' \<Longrightarrow> orch_steps A c' c'' \<Longrightarrow> orch_steps A c c''"

definition terminal :: "'ev wcfg \<Rightarrow> bool" where
  "terminal c \<longleftrightarrow> phase c = DONE \<or> phase c = ABORTED"

inductive_cases orch_step_from: "orch_step A c c'"

text \<open>The same machine as a step function, and its run with fuel.\<close>

definition orch_next :: "'ev agents \<Rightarrow> 'ev wcfg \<Rightarrow> 'ev wcfg option" where
  "orch_next A c =
     (case phase c of
        INIT \<Rightarrow> Some (c\<lparr>phase := RETRIEVING\<rparr>)
      | RETRIEVING \<Rightarrow>
          (let c' = run_in Retrieval (conversation_data_retrieval_agent A) c
           in Some (c'\<lparr>phase := if output_ok (wstate c') conv_key then ANALYZING else ABORTED\<rparr>))
      | ANALYZING \<Rightarrow>
          (let c' = run_in Analysis (no_match_analysis_agent A) c
           in Some (c'\<lparr>phase := if \<not> output_ok (wstate c') analysis_key then ABORTED
                               else if truthy (state_get (wstate c') bot_json_key empty_str)
                               then STRUCTURE_PARSING else SKIP_STRUCTURE\<rparr>))
      | STRUCTURE_PARSING \<Rightarrow>
          (let c' = run_in Parser (dialogflow_cx_parser_agent A) c
           in Some (c'\<lparr>phase := if len_ok (wstate c') parser_key then GENERATING else ABORTED\<rparr>))
      | SKIP_STRUCTURE \<Rightarrow> Some (c\<lparr>phase := GENERATING\<rparr>)
      | GENERATING \<Rightarrow>
          (let c' = run_in CsvGen (csv_generation_agent A) c
           in Some (c'\<lparr>phase := if len_ok (wstate c') csv_key then DONE else ABORTED\<rparr>))
      | DONE \<Rightarrow> None
      | ABORTED \<Rightarrow> None)"

fun orch_run :: "'ev agents \<Rightarrow> nat \<Rightarrow> 'ev wcfg \<Rightarrow> 'ev wcfg" where
  "orch_run A 0 c = c"
| "orch_run A (Suc n) c = (case orch_next A c of None \<Rightarrow> c | Some c' \<Rightarrow> orch_run A n c')"

text \<open>How many transitions a phase is at most away from a terminal phase.\<close>

fun phase_rank :: "phase \<Rightarrow> nat" where
  "phase_rank INIT = 5"
| "phase_rank RETRIEVING = 4"
| "phase_rank ANALYZING = 3"
| "phase_rank STRUCTURE_PARSING = 2"
| "phase_rank SKIP_STRUCTURE = 2"
| "phase_rank GENERATING = 1"
| "phase_rank DONE = 0"
| "phase_rank ABORTED = 0"

section \<open>The machine\<close>

lemma run_in_simps [simp]:
  "phase (run_in a ag c) = phase c"
  "invoked (run_in a ag c) = invoked c @ [a]"
  "yielded (run_in a ag c) = yielded c @ fst (ag (wstate c))"
  "wstate (run_in a ag c) = snd (ag (wstate c))"
  by (simp_all add: run_in_def split: prod.splits)

lemma orch_step_next: "orch_step A c c' \<Longrightarrow> orch_next A c = Some c'"
  by (induction rule: orch_step.induct) (simp_all add: orch_next_def Let_def)

lemma orch_next_step: "orch_next A c = Some c' \<Longrightarrow> orch_step A c c'"
  by (cases "phase c") (auto simp: orch_next_def Let_def intro: orch_step.intros split: if_splits)

lemma orch_step_iff: "orch_step A c c' \<longleftrightarrow> orch_next A c = Some c'"
  using orch_step_next orch_next_step by blast

lemma orch_next_None_iff: "orch_next A c = None \<longleftrightarrow> terminal c"
  by (cases "phase c") (simp_all add: orch_next_def terminal_def Let_def)

lemma orch_step_deterministic: "orch_step A c c1 \<Longrightarrow> orch_step A c c2 \<Longrightarrow> c1 = c2"
  by (simp add: orch_step_iff)

lemma terminal_no_step: "terminal c \<Longrightarrow> \<not> orch_step A c c'"
  using orch_next_None_iff [of A c] by (simp add: orch_step_iff)

lemma orch_next_rank: "orch_next A c = Some c' \<Longrightarrow> phase_rank (phase c') < phase_rank (phase c)"
  by (cases "phase c") (auto simp: orch_next_def Let_def)

lemma orch_steps_run: "orch_steps A c (orch_run A n c)"
proof (induction n arbitrary: c)
  case 0
  then show ?case by (simp add: orch_steps.refl)
next
  case (Suc n)
  then show ?case
    by (auto simp: orch_steps.refl split: option.splits intro: orch_steps.step orch_next_step)
qed

lemma orch_run_terminal: "phase_rank (phase c) \<le> n \<Longrightarrow> terminal (orch_run A n c)"
proof (induction n arbitrary: c)
  case 0
  then show ?case by (cases "phase c") (simp_all add: terminal_def)
next
  case (Suc n)
  show ?case
  proof (cases "orch_next A c")
    case None
    then have "terminal c" by (simp add: orch_next_None_iff)
    with None show ?thesis by simp
  next
    case (Some c')
    with Suc.prems have "phase_rank (phase c') \<le> n" using orch_next_rank by fastforce
    with Some Suc.IH show ?thesis by simp
  qed
qed

lemma orch_steps_terminal_unique:
  "orch_steps A c c1 \<Longrightarrow> terminal c1 \<Longrightarrow> orch_steps A c c2 \<Longrightarrow> terminal c2 \<Longrightarrow> c1 = c2"
proof (induction arbitrary: c2 rule: orch_steps.induct)
  case (refl c)
  from refl.prems(2) show ?case
    by (cases rule: orch_steps.cases) (use refl.prems(1) terminal_no_step in blast)+
next
  case (step c c' c'')
  from step.prems(2) show ?case
  proof (cases rule: orch_steps.cases)
    case refl
    with step.hyps(1) step.prems(3) terminal_no_step show ?thesis by blast
  next
    case (step d)
    with \<open>orch_step A c c'\<close> have "d = c'" using orch_step_deterministic by blast
    with step.IH step.prems(1,3) \<open>orch_steps A d c2\<close> show ?thesis by blast
  qed
qed

section \<open>The code refines the machine\<close>

lemma run_async_impl_orch_run:
  "yields (fst (run_async_impl A st)) = yielded (orch_run A 5 (init_cfg st)) \<and>
   snd (run_async_impl A st) = wstate (orch_run A 5 (init_cfg st))"
proof -
  obtain evs1 st1 where 1: "conversation_data_retrieval_agent A st = (evs1, st1)" by fastforce
  obtain evs2 st2 where 2: "no_match_analysis_agent A st1 = (evs2, st2)" by fastforce
  obtain evs3 st3 where 3: "dialogflow_cx_parser_agent A st2 = (evs3, st3)" by fastforce
  obtain evs4 st4 where 4: "csv_generation_agent A st2 = (evs4, st4)" by fastforce
  obtain evs5 st5 where 5: "csv_generation_agent A st3 = (evs5, st5)" by fastforce
  show ?thesis
    using 1 2 3 4 5
    by (simp add: run_async_impl_def step_and_read_def eval_nat_numeral orch_next_def init_cfg_def
       run_in_def output_ok_def len_ok_def Let_def split: sum.splits)
qed

lemma init_cfg_terminates: "terminal (orch_run A 5 (init_cfg st))"
  by (rule orch_run_terminal) (simp add: init_cfg_def)

section \<open>Properties of the workflow\<close>

text \<open>C1: The code refines the abstract machine of the specification: for every terminal
  configuration the machine reaches from the initial one, the events the code's generator
  yields are exactly the events the machine relayed, in the same order, and the session
  state the code leaves is the machine's final state.\<close>

theorem run_async_impl_refines:
  assumes "orch_steps A (init_cfg st) c" and "terminal c"
  shows "yields (fst (run_async_impl A st)) = yielded c \<and> snd (run_async_impl A st) = wstate c"
proof -
  have "orch_steps A (init_cfg st) (orch_run A 5 (init_cfg st))" by (rule orch_steps_run)
  with init_cfg_terminates assms have "orch_run A 5 (init_cfg st) = c"
    using orch_steps_terminal_unique by blast
  with run_async_impl_orch_run [of A st] show ?thesis by simp
qed

theorem run_async_impl_refines_witness:
  "orch_steps (demo_agents ''rows'' ''gaps'' ''p'' ''csv'') (init_cfg Map.empty)
     (orch_run (demo_agents ''rows'' ''gaps'' ''p'' ''csv'') 5 (init_cfg Map.empty)) \<and>
   terminal (orch_run (demo_agents ''rows'' ''gaps'' ''p'' ''csv'') 5 (init_cfg Map.empty)) \<and>
   yields (fst (run_async_impl (demo_agents ''rows'' ''gaps'' ''p'' ''csv'') Map.empty)) = [4, 4, 3]"
proof -
  let ?A = "demo_agents ''rows'' ''gaps'' ''p'' ''csv''"
  let ?c = "orch_run ?A 5 (init_cfg Map.empty)"
  have h1: "orch_steps ?A (init_cfg Map.empty) ?c" by (rule orch_steps_run)
  have h2: "terminal ?c" by (rule init_cfg_terminates)
  have y: "yielded ?c = [4, 4, 3]"
    by (simp add: eval_nat_numeral orch_next_def init_cfg_def demo_simps output_ok_def len_ok_def
        state_get_def Let_def)
  show ?thesis using h1 h2 y run_async_impl_refines [OF h1 h2] by simp
qed

section \<open>Progress\<close>

text \<open>C24: If the retrieval, analysis and CSV generation agents always answer with a
  non-empty text and the parser with some text, every run completes: the machine reaches
  \<open>DONE\<close> from the initial configuration, and the code's trace ends with the completion
  log, whether or not a bot configuration is present.\<close>

theorem orch_completes:
  assumes r: "\<forall>s. \<exists>t. t \<noteq> [] \<and> snd (conversation_data_retrieval_agent A s) conv_key = Some (PStr t)"
    and n: "\<forall>s. \<exists>t. t \<noteq> [] \<and> snd (no_match_analysis_agent A s) analysis_key = Some (PStr t)"
    and p: "\<forall>s. \<exists>t. snd (dialogflow_cx_parser_agent A s) parser_key = Some (PStr t)"
    and g: "\<forall>s. \<exists>t. t \<noteq> [] \<and> snd (csv_generation_agent A s) csv_key = Some (PStr t)"
  shows "(\<exists>c. orch_steps A (init_cfg st) c \<and> phase c = DONE) \<and>
         last (fst (run_async_impl A st)) = Log LogCompleted"
proof -
  obtain evs1 st1 where 1: "conversation_data_retrieval_agent A st = (evs1, st1)" by fastforce
  obtain evs2 st2 where 2: "no_match_analysis_agent A st1 = (evs2, st2)" by fastforce
  obtain evs3 st3 where 3: "dialogflow_cx_parser_agent A st2 = (evs3, st3)" by fastforce
  obtain evs4 st4 where 4: "csv_generation_agent A st2 = (evs4, st4)" by fastforce
  obtain evs5 st5 where 5: "csv_generation_agent A st3 = (evs5, st5)" by fastforce
  obtain t1 where t1: "t1 \<noteq> []" "st1 conv_key = Some (PStr t1)" using r 1 by (metis snd_conv)
  obtain t2 where t2: "t2 \<noteq> []" "st2 analysis_key = Some (PStr t2)" using n 2 by (metis snd_conv)
  obtain t3 where t3: "st3 parser_key = Some (PStr t3)" using p 3 by (metis snd_conv)
  obtain t4 where t4: "t4 \<noteq> []" "st4 csv_key = Some (PStr t4)" using g 4 by (metis snd_conv)
  obtain t5 where t5: "t5 \<noteq> []" "st5 csv_key = Some (PStr t5)" using g 5 by (metis snd_conv)
  have "phase (orch_run A 5 (init_cfg st)) = DONE"
    using 1 2 3 4 5 t1 t2 t3 t4 t5
    by (simp add: eval_nat_numeral orch_next_def init_cfg_def run_in_def output_ok_def len_ok_def
        state_get_def Let_def)
  moreover have "last (fst (run_async_impl A st)) = Log LogCompleted"
    using 1 2 3 4 5 t1 t2 t3 t4 t5
    by (simp add: run_async_impl_def step_and_read_def state_get_def Let_def)
  ultimately show ?thesis using orch_steps_run by blast
qed

theorem orch_completes_witness:
  "(\<exists>c. orch_steps (demo_agents ''rows'' ''gaps'' [] ''csv'') (init_cfg Map.empty) c \<and> phase c = DONE) \<and>
   last (fst (run_async_impl (demo_agents ''rows'' ''gaps'' [] ''csv'') Map.empty)) = Log LogCompleted"
  by (rule orch_completes) (simp_all add: demo_simps)

end
