(* ===== verification/BigQuery.thy ===== *)
theory BigQuery
  imports Prelude
begin

text \<open>
  \<open>src/tools/bigquery_tools.py\<close>: two thin tools over the BigQuery client. The client
  (\<open>bigquery.Client(project=P).query(q)\<close>, iterated) is outside the repository and is the
  parameter \<open>bq_client\<close>: given the project (Python \<open>None\<close> when the environment
  variable is unset) and the SQL text, it fails with an exception or returns the rows, each
  row as its \<open>items()\<close>. Each row becomes \<open>dict(row.items())\<close>. The metadata tool builds
  its SQL with an f-string in which the three parameters are pasted verbatim.
\<close>

type_synonym row = "(string \<times> pyval) list"
type_synonym bq_client = "string option \<Rightarrow> string \<Rightarrow> py_error + row list"

text \<open>f-string formatting of a value that is a string or \<open>None\<close>.\<close>

definition py_fmt :: "string option \<Rightarrow> string" where
  "py_fmt v = (case v of None \<Rightarrow> ''None'' | Some s \<Rightarrow> s)"

definition nl :: string where "nl = [CHR 0x0A]"
definition dq :: string where "dq = [CHR 0x22]"
definition backtick :: string where "backtick = [CHR 0x60]"

definition metadata_query :: "string option \<Rightarrow> string option \<Rightarrow> string option \<Rightarrow> string" where
  "metadata_query PROJECT BQ_LOCATION DATASET =
     nl @ replicate 8 CHR '' '' @ ''select table_name, column_name, data_type, description'' @
     nl @ replicate 8 CHR '' '' @ ''from '' @ backtick @ ''region-'' @ py_fmt BQ_LOCATION @
       ''.INFORMATION_SCHEMA.COLUMN_FIELD_PATHS'' @ backtick @
     nl @ replicate 8 CHR '' '' @ ''where table_catalog = '' @ dq @ py_fmt PROJECT @ dq @
     nl @ replicate 8 CHR '' '' @ ''and table_schema = '' @ dq @ py_fmt DATASET @ dq @
     nl @ replicate 4 CHR '' ''"

definition rows_to_dicts :: "row list \<Rightarrow> pyval list" where
  "rows_to_dicts rows = map (\<lambda>r. PDict (py_dict r)) rows"

definition bigquery_metdata_extraction_tool ::
  "bq_client \<Rightarrow> string option \<Rightarrow> string option \<Rightarrow> string option \<Rightarrow> py_error + pyval list" where
  "bigquery_metdata_extraction_tool client PROJECT BQ_LOCATION DATASET =
     (case client PROJECT (metadata_query PROJECT BQ_LOCATION DATASET) of
        Inl e \<Rightarrow> Inl e
      | Inr rows \<Rightarrow> Inr (rows_to_dicts rows))"

definition bigquery_execution_tool :: "bq_client \<Rightarrow> string option \<Rightarrow> string \<Rightarrow> py_error + pyval list" where
  "bigquery_execution_tool client PROJECT query =
     (case client PROJECT query of
        Inl e \<Rightarrow> Inl e
      | Inr rows \<Rightarrow> Inr (rows_to_dicts rows))"

section \<open>Lemmas\<close>

lemma rows_to_dicts_length [simp]: "length (rows_to_dicts rows) = length rows"
  by (simp add: rows_to_dicts_def)

lemma rows_to_dicts_distinct_keys:
  "v \<in> set (rows_to_dicts rows) \<Longrightarrow> \<exists>d. v = PDict d \<and> distinct (map fst d)"
  by (auto simp add: rows_to_dicts_def)

lemma rows_to_dicts_distinct_rows [simp]:
  "(\<forall>r \<in> set rows. distinct (map fst r)) \<Longrightarrow> rows_to_dicts rows = map PDict rows"
  by (simp add: rows_to_dicts_def)

lemma metadata_tool_error:
  "client P (metadata_query P L D) = Inl e \<Longrightarrow> bigquery_metdata_extraction_tool client P L D = Inl e"
  by (simp add: bigquery_metdata_extraction_tool_def)

lemma metadata_tool_rows:
  "client P (metadata_query P L D) = Inr rows \<Longrightarrow>
   bigquery_metdata_extraction_tool client P L D = Inr (rows_to_dicts rows)"
  by (simp add: bigquery_metdata_extraction_tool_def)

end
