(* ===== verification/Init.thy ===== *)
theory Init
  imports BigQuery
begin

text \<open>
  \<open>src/tools/initialize_state.py\<close>, \<open>initialize_state_var\<close>: the orchestrator's
  \<open>before_agent_callback\<close>. It copies four environment variables into the session state
  (Python \<open>None\<close> for an unset variable), seeds \<open>bigquery_metadata\<close> with the metadata
  tool's rows or, when the tool raises, with the empty list, and then sets the six workflow
  keys to the empty string. The environment (\<open>os.environ\<close>) is a map from names to
  strings.
\<close>

type_synonym env = "string \<rightharpoonup> string"

definition opt_val :: "string option \<Rightarrow> pyval" where
  "opt_val v = (case v of None \<Rightarrow> PNone | Some s \<Rightarrow> PStr s)"

text \<open>The keys the callback resets, in the order the source writes them.\<close>

definition workflow_keys :: "string list" where
  "workflow_keys =
     [''conversation_data_output'', ''no_match_analysis_output'', ''dialogflow_bot_json'',
      ''dialogflow_analysis_output'', ''csv_generation_output'', ''user_query'']"

definition initialize_state_var :: "bq_client \<Rightarrow> env \<Rightarrow> sstate \<Rightarrow> sstate" where
  "initialize_state_var client environ st =
     (let PROJECT = environ ''PROJECT'';
          BQ_LOCATION = environ ''BQ_LOCATION'';
          DATASET = environ ''DATASET'';
          GCS_BUCKET_NAME = environ ''GCS_BUCKET_NAME'';
          st1 = st(''PROJECT'' \<mapsto> opt_val PROJECT, ''BQ_LOCATION'' \<mapsto> opt_val BQ_LOCATION,
                   ''DATASET'' \<mapsto> opt_val DATASET, ''GCS_BUCKET_NAME'' \<mapsto> opt_val GCS_BUCKET_NAME);
          metadata = (case bigquery_metdata_extraction_tool client PROJECT BQ_LOCATION DATASET of
                        Inl _ \<Rightarrow> PList []
                      | Inr rows \<Rightarrow> PList rows);
          st2 = st1(''bigquery_metadata'' \<mapsto> metadata)
      in st2(''conversation_data_output'' \<mapsto> empty_str, ''no_match_analysis_output'' \<mapsto> empty_str,
             ''dialogflow_bot_json'' \<mapsto> empty_str, ''dialogflow_analysis_output'' \<mapsto> empty_str,
             ''csv_generation_output'' \<mapsto> empty_str, ''user_query'' \<mapsto> empty_str))"

section \<open>Lemmas\<close>

lemma initialize_state_var_workflow_keys:
  "list_all (\<lambda>k. initialize_state_var client environ st k = Some empty_str) workflow_keys"
  by (simp add: initialize_state_var_def workflow_keys_def Let_def)

lemma initialize_state_var_workflow_key:
  "k \<in> set workflow_keys \<Longrightarrow> initialize_state_var client environ st k = Some empty_str"
  using initialize_state_var_workflow_keys [of client environ st] by (simp add: list_all_iff)

lemma initialize_state_var_env_key:
  "k \<in> {''PROJECT'', ''BQ_LOCATION'', ''DATASET'', ''GCS_BUCKET_NAME''} \<Longrightarrow>
   initialize_state_var client environ st k = Some (opt_val (environ k))"
  by (auto simp add: initialize_state_var_def Let_def)

lemma initialize_state_var_metadata:
  "initialize_state_var client environ st ''bigquery_metadata'' =
     Some (case bigquery_metdata_extraction_tool client (environ ''PROJECT'') (environ ''BQ_LOCATION'')
                  (environ ''DATASET'') of Inl _ \<Rightarrow> PList [] | Inr rows \<Rightarrow> PList rows)"
  by (simp add: initialize_state_var_def Let_def)

lemma initialize_state_var_other:
  "k \<notin> set workflow_keys \<Longrightarrow>
   k \<notin> {''PROJECT'', ''BQ_LOCATION'', ''DATASET'', ''GCS_BUCKET_NAME'', ''bigquery_metadata''} \<Longrightarrow>
   initialize_state_var client environ st k = st k"
  by (simp add: initialize_state_var_def workflow_keys_def Let_def)

lemma initialize_state_var_dom:
  "k \<in> {''PROJECT'', ''BQ_LOCATION'', ''DATASET'', ''GCS_BUCKET_NAME'', ''bigquery_metadata''} \<union>
       set workflow_keys \<Longrightarrow> k \<in> dom (initialize_state_var client environ st)"
  by (auto simp add: initialize_state_var_workflow_key initialize_state_var_env_key
      initialize_state_var_metadata)

lemma initialize_state_var_bot_json [simp]:
  "initialize_state_var client environ st ''dialogflow_bot_json'' = Some empty_str"
  by (simp add: initialize_state_var_workflow_key workflow_keys_def)

text \<open>C9: When the metadata query fails (the client raises), \<open>initialize_state_var\<close>
  does not propagate the exception: \<open>bigquery_metadata\<close> becomes the empty list, the
  four environment keys are copied, and every workflow key is reset to the empty string.\<close>

theorem initialize_state_var_tool_error:
  assumes "client (environ ''PROJECT'') (metadata_query (environ ''PROJECT'') (environ ''BQ_LOCATION'')
             (environ ''DATASET'')) = Inl e"
  shows "initialize_state_var client environ st ''bigquery_metadata'' = Some (PList []) \<and>
         initialize_state_var client environ st ''PROJECT'' = Some (opt_val (environ ''PROJECT'')) \<and>
         initialize_state_var client environ st ''GCS_BUCKET_NAME'' = Some (opt_val (environ ''GCS_BUCKET_NAME'')) \<and>
         (\<forall>k \<in> set workflow_keys. initialize_state_var client environ st k = Some empty_str)"
  using assms
  by (simp add: initialize_state_var_metadata metadata_tool_error initialize_state_var_env_key
      initialize_state_var_workflow_key)

theorem initialize_state_var_tool_error_witness:
  "initialize_state_var (\<lambda>p q. Inl (ServiceError ''403 Forbidden'')) [''PROJECT'' \<mapsto> ''proj''] Map.empty
     ''bigquery_metadata'' = Some (PList []) \<and>
   initialize_state_var (\<lambda>p q. Inl (ServiceError ''403 Forbidden'')) [''PROJECT'' \<mapsto> ''proj''] Map.empty
     ''PROJECT'' = Some (PStr ''proj'')"
  using initialize_state_var_tool_error [of "\<lambda>p q. Inl (ServiceError ''403 Forbidden'')"
      "[''PROJECT'' \<mapsto> ''proj'']" "ServiceError ''403 Forbidden''" Map.empty]
  by (simp add: opt_val_def)

end
