(* ===== verification/Config.thy ===== *)
theory Config
  imports Init
begin

text \<open>
  \<open>src/artifact_config.py\<close>: choosing the artifact store. \<open>get_artifact_service\<close>
  reads \<open>GCS_BUCKET_NAME\<close> from the environment; a set, non-empty bucket name that is
  not the template's placeholder selects the Cloud Storage service, whose constructor may
  raise (the parameter \<open>gcs_ctor\<close>: \<open>None\<close> when construction succeeds), and any
  exception falls back to the in-memory service; every other case is the in-memory
  service. \<open>configure_artifact_service_for_runner\<close> stores the choice in the runner, a
  record of which only the artifact service field is modelled (the rest is the record
  extension). \<open>print\<close> output is not modelled.
\<close>

datatype artifact_service = GcsArtifactService string | InMemoryArtifactService

type_synonym gcs_ctor = "string \<Rightarrow> py_error option"

definition placeholder_bucket :: string where
  "placeholder_bucket = ''your-no-match-analysis-artifacts''"

definition get_artifact_service :: "env \<Rightarrow> gcs_ctor \<Rightarrow> artifact_service" where
  "get_artifact_service environ gcs =
     (let bucket_name = environ ''GCS_BUCKET_NAME''
      in if truthy (opt_val bucket_name) \<and> opt_val bucket_name \<noteq> PStr placeholder_bucket
         then (case gcs (the bucket_name) of
                 None \<Rightarrow> GcsArtifactService (the bucket_name)
               | Some _ \<Rightarrow> InMemoryArtifactService)
         else InMemoryArtifactService)"

record runner =
  artifact_service :: "artifact_service option"

definition configure_artifact_service_for_runner ::
  "env \<Rightarrow> gcs_ctor \<Rightarrow> 'a runner_scheme \<Rightarrow> 'a runner_scheme" where
  "configure_artifact_service_for_runner environ gcs r =
     (let svc = get_artifact_service environ gcs in r\<lparr>artifact_service := Some svc\<rparr>)"

section \<open>Lemmas\<close>

lemma truthy_opt_val [simp]: "truthy (opt_val v) \<longleftrightarrow> (\<exists>b. v = Some b \<and> b \<noteq> [])"
  by (cases v) (simp_all add: opt_val_def)

lemma opt_val_Some [simp]: "opt_val (Some b) = PStr b"
  by (simp add: opt_val_def)

lemma get_artifact_service_unset: "environ ''GCS_BUCKET_NAME'' = None \<Longrightarrow>
  get_artifact_service environ gcs = InMemoryArtifactService"
  by (simp add: get_artifact_service_def)

lemma get_artifact_service_cases:
  "get_artifact_service environ gcs =
     (case environ ''GCS_BUCKET_NAME'' of
        None \<Rightarrow> InMemoryArtifactService
      | Some b \<Rightarrow> if b \<noteq> [] \<and> b \<noteq> placeholder_bucket
                  then (case gcs b of None \<Rightarrow> GcsArtifactService b | Some _ \<Rightarrow> InMemoryArtifactService)
                  else InMemoryArtifactService)"
  by (cases "environ ''GCS_BUCKET_NAME''") (simp_all add: get_artifact_service_def split: option.splits)

text \<open>C10: The durable Cloud Storage service is selected exactly when
  \<open>GCS_BUCKET_NAME\<close> is set to a non-empty name other than the template placeholder and
  the service's constructor does not raise; the service then uses that bucket.\<close>

theorem get_artifact_service_gcs_iff:
  "get_artifact_service environ gcs = GcsArtifactService b \<longleftrightarrow>
   environ ''GCS_BUCKET_NAME'' = Some b \<and> b \<noteq> [] \<and> b \<noteq> placeholder_bucket \<and> gcs b = None"
  by (auto simp: get_artifact_service_cases split: option.splits if_splits)

theorem get_artifact_service_gcs_iff_witness:
  "get_artifact_service [''GCS_BUCKET_NAME'' \<mapsto> ''prod-artifacts''] (\<lambda>b. None) =
     GcsArtifactService ''prod-artifacts''"
  using get_artifact_service_gcs_iff [of "[''GCS_BUCKET_NAME'' \<mapsto> ''prod-artifacts'']" "\<lambda>b. None"
      "''prod-artifacts''"]
  by (simp add: placeholder_bucket_def)

text \<open>C11: The non-durable in-memory service is selected when the bucket variable is
  unset, when it holds the template placeholder \<open>your-no-match-analysis-artifacts\<close>
  (although it is set), and when the Cloud Storage constructor raises (the fallback of
  the \<open>except\<close> branch).\<close>

theorem get_artifact_service_in_memory:
  assumes "environ ''GCS_BUCKET_NAME'' = None \<or> environ ''GCS_BUCKET_NAME'' = Some placeholder_bucket \<or>
           (\<exists>b e. environ ''GCS_BUCKET_NAME'' = Some b \<and> gcs b = Some e)"
  shows "get_artifact_service environ gcs = InMemoryArtifactService"
  using assms by (auto simp: get_artifact_service_cases split: option.splits)

theorem get_artifact_service_in_memory_witness:
  "get_artifact_service [''GCS_BUCKET_NAME'' \<mapsto> ''your-no-match-analysis-artifacts''] (\<lambda>b. None) =
     InMemoryArtifactService \<and>
   get_artifact_service [''GCS_BUCKET_NAME'' \<mapsto> ''prod''] (\<lambda>b. Some (ServiceError ''no credentials'')) =
     InMemoryArtifactService"
  using get_artifact_service_in_memory [of "[''GCS_BUCKET_NAME'' \<mapsto> ''your-no-match-analysis-artifacts'']"
      "\<lambda>b. None"]
    get_artifact_service_in_memory [of "[''GCS_BUCKET_NAME'' \<mapsto> ''prod'']"
      "\<lambda>b. Some (ServiceError ''no credentials'')"]
  by (simp_all add: placeholder_bucket_def)

lemma configure_artifact_service_for_runner_sets:
  "artifact_service (configure_artifact_service_for_runner environ gcs r) =
     Some (get_artifact_service environ gcs) \<and>
   runner.more (configure_artifact_service_for_runner environ gcs r) = runner.more r"
  by (simp add: configure_artifact_service_for_runner_def)

end
