(* ===== verification/Csv.thy ===== *)
theory Csv
  imports PyRepr
begin

text \<open>
  \<open>src/artifact_utils.py\<close>, \<open>create_csv_content_from_data\<close> and
  \<open>generate_sample_csv\<close>. The function writes its records with Python's
  \<open>csv.DictWriter\<close> (dialect \<open>excel\<close>): fields separated by commas, every row ended by
  CR LF, a field quoted only when it contains a comma, a double quote, CR or LF, a double
  quote inside a quoted field doubled, a row whose only field is empty written as
  \<open>""\<close>, \<open>None\<close> written as the empty field and any other non-string through
  \<open>str()\<close>. The field names are the first record's keys in order; a later record with a
  key outside them makes \<open>DictWriter\<close> raise \<open>ValueError\<close> (its message, which lists
  a set in hash order, is abstracted); a missing key is written as \<open>restval\<close>, the empty
  string. A record is a Python dict, the list of its items (keys distinct).
\<close>

type_synonym rowdict = "(string \<times> pyval) list"

definition comma :: char where "comma = CHR '',''"
definition quote :: char where "quote = CHR 0x22"
definition crlf :: string where "crlf = [CHR 0x0D, CHR 0x0A]"

definition csv_special :: "char \<Rightarrow> bool" where
  "csv_special c \<longleftrightarrow> c = comma \<or> c = quote \<or> c = CHR 0x0D \<or> c = CHR 0x0A"

fun csv_escape :: "string \<Rightarrow> string" where
  "csv_escape [] = []"
| "csv_escape (c # cs) = (if c = quote then [quote, quote] else [c]) @ csv_escape cs"

text \<open>One field as \<open>join_append\<close> writes it under \<open>QUOTE_MINIMAL\<close>.\<close>

definition csv_field :: "string \<Rightarrow> string" where
  "csv_field s = (if list_ex csv_special s then quote # csv_escape s @ [quote] else s)"

text \<open>\<open>writer.writerow(fields)\<close>: the joined fields, \<open>""\<close> for a record that joined to
  nothing although it has a field, then the line terminator.\<close>

definition csv_writerow :: "string list \<Rightarrow> string" where
  "csv_writerow fs =
     (let line = py_join [comma] (map csv_field fs)
      in (if fs \<noteq> [] \<and> line = [] then [quote, quote] else line) @ crlf)"

text \<open>The text \<open>csv.writer\<close> writes for a value: \<open>None\<close> is the empty field.\<close>

definition csv_str :: "pyval \<Rightarrow> string" where
  "csv_str v = (case v of PNone \<Rightarrow> [] | _ \<Rightarrow> py_str v)"

text \<open>\<open>DictWriter._dict_to_list\<close> with \<open>extrasaction='raise'\<close>, \<open>restval=''\<close>.\<close>

definition dict_to_list :: "string list \<Rightarrow> rowdict \<Rightarrow> py_error + pyval list" where
  "dict_to_list fieldnames rowdict =
     (if list_ex (\<lambda>k. k \<notin> set fieldnames) (map fst rowdict)
      then Inl (ValueError ''dict contains fields not in fieldnames'')
      else Inr (map (\<lambda>k. case map_of rowdict k of None \<Rightarrow> PStr [] | Some v \<Rightarrow> v) fieldnames))"

definition dict_writerow :: "string list \<Rightarrow> rowdict \<Rightarrow> py_error + string" where
  "dict_writerow fieldnames rowdict =
     (case dict_to_list fieldnames rowdict of
        Inl e \<Rightarrow> Inl e
      | Inr vals \<Rightarrow> Inr (csv_writerow (map csv_str vals)))"

text \<open>\<open>DictWriter.writerows\<close>: the rows in order; the first failing row raises.\<close>

fun dict_writerows :: "string list \<Rightarrow> rowdict list \<Rightarrow> py_error + string" where
  "dict_writerows fieldnames [] = Inr []"
| "dict_writerows fieldnames (r # rs) =
     (case dict_writerow fieldnames r of
        Inl e \<Rightarrow> Inl e
      | Inr line \<Rightarrow> (case dict_writerows fieldnames rs of
                      Inl e \<Rightarrow> Inl e
                    | Inr rest \<Rightarrow> Inr (line @ rest)))"

text \<open>\<open>DictWriter.writeheader\<close>: the row \<open>dict(zip(fieldnames, fieldnames))\<close>.\<close>

definition dict_writeheader :: "string list \<Rightarrow> py_error + string" where
  "dict_writeheader fieldnames = dict_writerow fieldnames (py_dict (zip fieldnames (map PStr fieldnames)))"

definition create_csv_content_from_data :: "rowdict list \<Rightarrow> py_error + string" where
  "create_csv_content_from_data data =
     (if data = [] then Inr []
      else
        let fieldnames = map fst (hd data)
        in (case dict_writeheader fieldnames of
              Inl e \<Rightarrow> Inl e
            | Inr header \<Rightarrow>
                (case dict_writerows fieldnames data of
                   Inl e \<Rightarrow> Inl e
                 | Inr body \<Rightarrow> Inr (header @ body))))"

definition sample_data :: "rowdict list" where
  "sample_data =
     [[(''Intent Name'', PStr ''AccountSuspensionIntent''),
       (''Training Phrase'', PStr ''Why is my account suspended?''),
       (''Priority'', PStr ''High''), (''Category'', PStr ''New Intent''),
       (''Description'', PStr ''Handles account suspension queries'')],
      [(''Intent Name'', PStr ''AccountSuspensionIntent''),
       (''Training Phrase'', PStr ''My account got suspended''),
       (''Priority'', PStr ''High''), (''Category'', PStr ''New Intent''),
       (''Description'', PStr ''Handles account suspension queries'')],
      [(''Intent Name'', PStr ''PaymentIssueIntent''),
       (''Training Phrase'', PStr (''I can'' @ [CHR 0x27] @ ''t make a payment'')),
       (''Priority'', PStr ''Medium''), (''Category'', PStr ''New Intent''),
       (''Description'', PStr ''Handles payment-related issues'')]]"

definition generate_sample_csv :: "py_error + string" where
  "generate_sample_csv = create_csv_content_from_data sample_data"

section \<open>A reference reader\<close>

text \<open>The reading side of the specification's round trip (spec section 8, property 1): a
  strict reader of the text \<open>csv.writer\<close> produces. A field is either plain (up to the
  next comma, CR or LF, as Python's reader ends an unquoted field at either line
  break) or quoted (a doubled quote stands for one quote); a record ends at CR
  LF or at the end of the text. It is not code of the repository; it states what the
  written text means.\<close>

fun parse_quoted :: "string \<Rightarrow> (string \<times> string) option" where
  "parse_quoted [] = None"
| "parse_quoted [c] = (if c = quote then Some ([], []) else None)"
| "parse_quoted (c # d # cs) =
     (if c = quote then (if d = quote then map_option (\<lambda>(f, r). (quote # f, r)) (parse_quoted cs)
                         else Some ([], d # cs))
      else map_option (\<lambda>(f, r). (c # f, r)) (parse_quoted (d # cs)))"

fun parse_plain :: "string \<Rightarrow> string \<times> string" where
  "parse_plain [] = ([], [])"
| "parse_plain (c # cs) =
     (if c = comma \<or> c = CHR 0x0D \<or> c = CHR 0x0A then ([], c # cs)
      else (let (f, r) = parse_plain cs in (c # f, r)))"

definition parse_field :: "string \<Rightarrow> (string \<times> string) option" where
  "parse_field s = (case s of [] \<Rightarrow> Some ([], []) | c # cs \<Rightarrow> if c = quote then parse_quoted cs else Some (parse_plain s))"

lemma parse_quoted_length: "parse_quoted s = Some (f, r) \<Longrightarrow> length r < length s"
  by (induction s arbitrary: f rule: parse_quoted.induct) (auto split: if_splits)

lemma parse_plain_length: "parse_plain s = (f, r) \<Longrightarrow> length r \<le> length s"
  by (induction s arbitrary: f rule: parse_plain.induct) (auto split: if_splits prod.splits)

lemma parse_field_length:
  assumes "parse_field s = Some (f, r)"
  shows "length r \<le> length s"
proof (cases s)
  case Nil
  with assms show ?thesis by (simp add: parse_field_def)
next
  case (Cons c cs)
  show ?thesis
  proof (cases "c = quote")
    case True
    with assms Cons have "parse_quoted cs = Some (f, r)" by (simp add: parse_field_def)
    with Cons show ?thesis by (auto dest: parse_quoted_length)
  next
    case False
    with assms Cons have "parse_plain s = (f, r)"
      by (simp add: parse_field_def del: parse_plain.simps)
    then show ?thesis by (rule parse_plain_length)
  qed
qed

function parse_record :: "string \<Rightarrow> (string list \<times> string) option" where
  "parse_record s =
     (case parse_field s of
        None \<Rightarrow> None
      | Some (f, r) \<Rightarrow>
          (case r of
             [] \<Rightarrow> Some ([f], [])
           | c # r' \<Rightarrow>
               if c = comma then map_option (\<lambda>(fs, rest). (f # fs, rest)) (parse_record r')
               else if c = CHR 0x0D \<and> r' \<noteq> [] \<and> hd r' = CHR 0x0A then Some ([f], tl r')
               else None))"
  by pat_completeness auto
termination
  by (relation "measure length") (auto dest: parse_field_length)

lemma parse_record_length: "parse_record s = Some (fs, r) \<Longrightarrow> r = [] \<or> length r < length s"
proof (induction s arbitrary: fs r rule: parse_record.induct)
  case (1 s)
  show ?case
  proof (cases "parse_field s")
    case None
    with "1.prems" show ?thesis by (subst (asm) parse_record.simps) simp
  next
    case (Some a)
    obtain f r0 where a: "a = (f, r0)" by fastforce
    with Some have len: "length r0 \<le> length s" by (auto dest: parse_field_length)
    show ?thesis
    proof (cases r0)
      case Nil
      with "1.prems" Some a show ?thesis by (subst (asm) parse_record.simps) simp
    next
      case (Cons c r')
      show ?thesis
      proof (cases "c = comma")
        case True
        with "1.prems" Some a Cons obtain fs' where
          rec: "parse_record r' = Some (fs', r)"
          by (subst (asm) parse_record.simps) (auto split: prod.splits)
        from "1.IH" [OF Some a [symmetric] Cons True rec] len Cons show ?thesis by auto
      next
        case False
        with "1.prems" Some a Cons len show ?thesis
          by (subst (asm) parse_record.simps) (auto split: if_splits)
      qed
    qed
  qed
qed

declare parse_record.simps [simp del]

function parse_csv :: "string \<Rightarrow> string list list option" where
  "parse_csv s =
     (if s = [] then Some []
      else (case parse_record s of
              None \<Rightarrow> None
            | Some (fs, r) \<Rightarrow> map_option (Cons fs) (parse_csv r)))"
  by pat_completeness auto
termination
proof (relation "measure length")
  show "wf (measure length)" by simp
next
  fix s x2 x y
  assume "s \<noteq> []" "parse_record s = Some x2" "(x, y) = x2"
  then have "parse_record s = Some (x, y)" by simp
  then have "y = [] \<or> length y < length s" by (rule parse_record_length)
  with \<open>s \<noteq> []\<close> show "(y, s) \<in> measure length" by auto
qed

declare parse_csv.simps [simp del]

section \<open>Round trip\<close>

lemma quote_not_special [simp]: "quote \<noteq> comma" "quote \<noteq> CHR 0x0D" "comma \<noteq> CHR 0x0D"
  "comma \<noteq> quote" "CHR 0x0D \<noteq> quote" "CHR 0x0D \<noteq> comma"
  by (simp_all add: quote_def comma_def)

lemma csv_special_simps [simp]:
  "csv_special comma" "csv_special quote" "csv_special (CHR 0x0D)" "csv_special (CHR 0x0A)"
  by (simp_all add: csv_special_def)

lemma parse_plain_field:
  "\<not> list_ex csv_special s \<Longrightarrow> t = [] \<or> hd t = comma \<or> hd t = CHR 0x0D \<Longrightarrow> parse_plain (s @ t) = (s, t)"
proof (induction s)
  case Nil
  then show ?case by (cases t) auto
next
  case (Cons c s)
  then have "c \<noteq> comma" "c \<noteq> CHR 0x0D" "c \<noteq> CHR 0x0A" by auto
  with Cons show ?case by simp
qed

lemma parse_quoted_Cons: "c \<noteq> quote \<Longrightarrow> rest \<noteq> [] \<Longrightarrow>
  parse_quoted (c # rest) = map_option (\<lambda>(f, r). (c # f, r)) (parse_quoted rest)"
  by (cases rest) simp_all

lemma parse_quoted_escape:
  "t = [] \<or> hd t \<noteq> quote \<Longrightarrow> parse_quoted (csv_escape s @ quote # t) = Some (s, t)"
proof (induction s)
  case Nil
  then show ?case by (cases t) auto
next
  case (Cons c s)
  show ?case
  proof (cases "c = quote")
    case True
    with Cons show ?thesis by simp
  next
    case False
    with Cons show ?thesis by (simp add: parse_quoted_Cons)
  qed
qed

lemma parse_field_csv_field:
  assumes "t = [] \<or> hd t = comma \<or> hd t = CHR 0x0D"
  shows "parse_field (csv_field s @ t) = Some (s, t)"
proof (cases "list_ex csv_special s")
  case True
  from assms have "t = [] \<or> hd t \<noteq> quote" by auto
  with True show ?thesis by (simp add: csv_field_def parse_field_def parse_quoted_escape)
next
  case False
  show ?thesis
  proof (cases s)
    case Nil
    with assms show ?thesis
      by (cases t) (auto simp: csv_field_def parse_field_def)
  next
    case (Cons c cs)
    with False have "c \<noteq> quote" by auto
    have "parse_plain (s @ t) = (s, t)" using False assms by (rule parse_plain_field)
    with False Cons \<open>c \<noteq> quote\<close> show ?thesis
      by (simp add: csv_field_def parse_field_def del: parse_plain.simps)
  qed
qed

lemma crlf_simps [simp]: "crlf @ rest = CHR 0x0D # CHR 0x0A # rest"
  by (simp add: crlf_def)

lemma parse_record_line:
  "fs \<noteq> [] \<Longrightarrow> parse_record (py_join [comma] (map csv_field fs) @ crlf @ rest) = Some (fs, rest)"
proof (induction fs)
  case Nil
  then show ?case by simp
next
  case (Cons f fs)
  show ?case
  proof (cases "fs = []")
    case True
    have "parse_field (csv_field f @ CHR 0x0D # CHR 0x0A # rest) = Some (f, CHR 0x0D # CHR 0x0A # rest)"
      by (rule parse_field_csv_field) simp
    with True show ?thesis by (subst parse_record.simps) simp
  next
    case False
    have "parse_field (csv_field f @ comma # (py_join [comma] (map csv_field fs) @ crlf @ rest)) =
          Some (f, comma # (py_join [comma] (map csv_field fs) @ crlf @ rest))"
      by (rule parse_field_csv_field) simp
    with False Cons.IH show ?thesis
      by (subst parse_record.simps) (simp add: py_join_Cons del: crlf_simps)
  qed
qed

lemma csv_field_empty_iff [simp]: "csv_field f = [] \<longleftrightarrow> f = []"
  by (cases f) (auto simp: csv_field_def)

lemma parse_record_writerow:
  assumes "fs \<noteq> []"
  shows "parse_record (csv_writerow fs @ rest) = Some (fs, rest)"
proof (cases "py_join [comma] (map csv_field fs) = []")
  case True
  with assms have "fs = [[]]"
    by (cases fs) (auto simp: py_join_empty_iff)
  moreover have "parse_record (quote # quote # crlf @ rest) = Some ([[]], rest)"
    by (subst parse_record.simps) (simp add: parse_field_def)
  ultimately show ?thesis by (simp add: csv_writerow_def del: crlf_simps)
next
  case False
  then show ?thesis
    using parse_record_line [OF assms, of rest] by (simp add: csv_writerow_def del: crlf_simps)
qed

lemma csv_writerow_nonempty [simp]: "csv_writerow fs \<noteq> []"
  by (simp add: csv_writerow_def Let_def crlf_def)

lemma parse_csv_rows:
  "\<forall>fs \<in> set rows. fs \<noteq> [] \<Longrightarrow> parse_csv (concat (map csv_writerow rows)) = Some rows"
proof (induction rows)
  case Nil
  then show ?case by (subst parse_csv.simps) simp
next
  case (Cons fs rows)
  then show ?case
    by (subst parse_csv.simps) (simp add: parse_record_writerow)
qed

definition row_values :: "string list \<Rightarrow> rowdict \<Rightarrow> pyval list" where
  "row_values fieldnames r = map (\<lambda>k. case map_of r k of None \<Rightarrow> PStr [] | Some v \<Rightarrow> v) fieldnames"

lemma dict_writerows_Inr:
  "dict_writerows fieldnames data = Inr body \<Longrightarrow>
   body = concat (map (\<lambda>r. csv_writerow (map csv_str (row_values fieldnames r))) data)"
  by (induction data arbitrary: body)
     (auto simp: dict_writerow_def dict_to_list_def row_values_def split: sum.splits if_splits)

lemma dict_writerows_isl:
  "isl (dict_writerows fieldnames data) \<longleftrightarrow> (\<exists>r \<in> set data. \<not> set (map fst r) \<subseteq> set fieldnames)"
  by (induction data)
     (auto simp: dict_writerow_def dict_to_list_def list_ex_iff split: sum.splits if_splits)

lemma map_of_zip_map: "map_of (zip xs (map f xs)) k = (if k \<in> set xs then Some (f k) else None)"
  by (induction xs) auto

lemma dict_writeheader_distinct:
  "distinct fieldnames \<Longrightarrow> dict_writeheader fieldnames = Inr (csv_writerow fieldnames)"
  by (simp add: dict_writeheader_def dict_writerow_def dict_to_list_def map_of_zip_map csv_str_def
      list_ex_iff comp_def cong: map_cong)

lemma dict_writeheader_Inr: "\<not> isl (dict_writeheader fieldnames)"
proof -
  have "set (map fst (py_dict (zip fieldnames (map PStr fieldnames)))) \<subseteq> set fieldnames"
    by (auto dest: set_zip_leftD)
  then have "\<not> list_ex (\<lambda>k. k \<notin> set fieldnames) (map fst (py_dict (zip fieldnames (map PStr fieldnames))))"
    by (auto simp: list_ex_iff)
  then show ?thesis by (simp add: dict_writeheader_def dict_writerow_def dict_to_list_def)
qed

section \<open>Properties of the CSV writer\<close>

text \<open>C12: Round trip. Whenever \<open>create_csv_content_from_data\<close> succeeds on a non-empty
  list of records whose first record has at least one key, reading its text back gives
  the header row, i.e. the first record's keys in their order, followed by one row per
  record holding the text \<open>csv.writer\<close> wrote for each header key (\<open>str()\<close> of the
  value, the empty string for \<open>None\<close> and for a missing key), whatever commas, quotes
  and line breaks the values contain.\<close>

theorem create_csv_roundtrip:
  assumes "create_csv_content_from_data data = Inr out"
    and "data \<noteq> []" and "map fst (hd data) \<noteq> []" and "distinct (map fst (hd data))"
  shows "parse_csv out =
           Some (map fst (hd data) # map (\<lambda>r. map csv_str (row_values (map fst (hd data)) r)) data)"
proof -
  let ?fn = "map fst (hd data)"
  obtain body where body: "dict_writerows ?fn data = Inr body"
    using assms(1,2) dict_writeheader_distinct [OF assms(4)]
    by (auto simp: create_csv_content_from_data_def Let_def split: sum.splits)
  have out: "out = csv_writerow ?fn @ body"
    using assms(1,2) body dict_writeheader_distinct [OF assms(4)]
    by (simp add: create_csv_content_from_data_def Let_def)
  let ?rows = "?fn # map (\<lambda>r. map csv_str (row_values ?fn r)) data"
  have "\<forall>fs \<in> set ?rows. fs \<noteq> []"
    using assms(3) by (auto simp: row_values_def)
  then have p: "parse_csv (concat (map csv_writerow ?rows)) = Some ?rows"
    by (rule parse_csv_rows)
  have "out = concat (map csv_writerow ?rows)"
    using out dict_writerows_Inr [OF body] by (simp add: comp_def)
  then show ?thesis using p by (simp only:)
qed

theorem create_csv_roundtrip_witness:
  "create_csv_content_from_data [[(''a'', PStr ''x,y''), (''b'', PInt 3)], [(''b'', PNone)]] =
     Inr (''a,b'' @ crlf @ [quote] @ ''x,y'' @ [quote] @ '',3'' @ crlf @ '','' @ crlf) \<and>
   parse_csv (''a,b'' @ crlf @ [quote] @ ''x,y'' @ [quote] @ '',3'' @ crlf @ '','' @ crlf) =
     Some [[''a'', ''b''], [''x,y'', ''3''], [[], []]]"
proof -
  have h: "create_csv_content_from_data [[(''a'', PStr ''x,y''), (''b'', PInt 3)], [(''b'', PNone)]] =
     Inr (''a,b'' @ crlf @ [quote] @ ''x,y'' @ [quote] @ '',3'' @ crlf @ '','' @ crlf)"
    by code_simp
  from create_csv_roundtrip [OF h]
  show ?thesis using h by (simp add: row_values_def csv_str_def py_str_def repr_int_def)
qed

lemma create_csv_isl_iff:
  "isl (create_csv_content_from_data data) \<longleftrightarrow>
   (\<exists>r \<in> set data. \<not> set (map fst r) \<subseteq> set (map fst (hd data)))"
proof (cases "data = []")
  case True
  then show ?thesis by (simp add: create_csv_content_from_data_def)
next
  case False
  obtain header where hdr: "dict_writeheader (map fst (hd data)) = Inr header"
    using dict_writeheader_Inr [of "map fst (hd data)"] by (cases "dict_writeheader (map fst (hd data))") auto
  have "create_csv_content_from_data data =
          (case dict_writerows (map fst (hd data)) data of
             Inl e \<Rightarrow> Inl e | Inr body \<Rightarrow> Inr (header @ body))"
    using False hdr by (simp add: create_csv_content_from_data_def Let_def)
  then have "isl (create_csv_content_from_data data) = isl (dict_writerows (map fst (hd data)) data)"
    by (simp split: sum.splits)
  with dict_writerows_isl show ?thesis by simp
qed

text \<open>C13: \<open>create_csv_content_from_data\<close> raises (the \<open>ValueError\<close> of
  \<open>DictWriter\<close>) exactly when some record has a key that the first record does not
  have; missing keys never raise, and the empty list gives the empty text.\<close>

theorem create_csv_error_iff:
  "create_csv_content_from_data [] = Inr [] \<and>
   (isl (create_csv_content_from_data data) \<longleftrightarrow>
    (\<exists>r \<in> set data. \<not> set (map fst r) \<subseteq> set (map fst (hd data))))"
  by (simp add: create_csv_isl_iff) (simp add: create_csv_content_from_data_def)

theorem create_csv_error_iff_witness:
  "isl (create_csv_content_from_data [[(''a'', PStr ''1'')], [(''c'', PStr ''2'')]]) \<and>
   \<not> isl (create_csv_content_from_data [[(''a'', PStr ''1''), (''b'', PStr ''2'')], [(''b'', PStr ''3'')]])"
  using create_csv_error_iff [of "[[(''a'', PStr ''1'')], [(''c'', PStr ''2'')]]"]
    create_csv_error_iff [of "[[(''a'', PStr ''1''), (''b'', PStr ''2'')], [(''b'', PStr ''3'')]]"]
  by simp

end
