(* ===== verification/Timestamp.thy ===== *)
theory Timestamp
  imports Prelude "HOL-Library.List_Lexorder" "HOL-Library.Char_ord"
begin

text \<open>
  The readings of \<open>datetime.now()\<close> that \<open>src/artifact_utils.py\<close> formats: a
  \<open>datetime\<close> as the record of its fields, \<open>strftime("%Y%m%d_%H%M%S")\<close> (the stamp of a
  generated artifact name) and \<open>isoformat()\<close>. Every field is printed at a fixed width
  (\<open>zpad\<close>), which is what both formats print for the ranges a \<open>datetime\<close> admits
  (\<open>ts_valid\<close>, the year from 1000 on for \<open>%Y\<close>). The main lemma: on valid readings,
  generated names compare as strings exactly as the readings compare in time.
\<close>

record timestamp =
  ts_year :: nat
  ts_month :: nat
  ts_day :: nat
  ts_hour :: nat
  ts_minute :: nat
  ts_second :: nat
  ts_microsecond :: nat

definition ts_valid :: "timestamp \<Rightarrow> bool" where
  "ts_valid t =
     (1000 \<le> ts_year t \<and> ts_year t \<le> 9999 \<and> 1 \<le> ts_month t \<and> ts_month t \<le> 12 \<and>
      1 \<le> ts_day t \<and> ts_day t \<le> 31 \<and> ts_hour t < 24 \<and> ts_minute t < 60 \<and>
      ts_second t < 60 \<and> ts_microsecond t < 1000000)"

text \<open>\<open>%0wd\<close>: the last \<open>w\<close> decimal digits of \<open>n\<close>, most significant first.\<close>

fun zpad :: "nat \<Rightarrow> nat \<Rightarrow> string" where
  "zpad 0 n = []"
| "zpad (Suc w) n = zpad w (n div 10) @ [digit_char (n mod 10)]"

definition strftime_stamp :: "timestamp \<Rightarrow> string" where
  "strftime_stamp t =
     zpad 4 (ts_year t) @ zpad 2 (ts_month t) @ zpad 2 (ts_day t) @ ''_'' @
     zpad 2 (ts_hour t) @ zpad 2 (ts_minute t) @ zpad 2 (ts_second t)"

definition isoformat :: "timestamp \<Rightarrow> string" where
  "isoformat t =
     zpad 4 (ts_year t) @ ''-'' @ zpad 2 (ts_month t) @ ''-'' @ zpad 2 (ts_day t) @ ''T'' @
     zpad 2 (ts_hour t) @ '':'' @ zpad 2 (ts_minute t) @ '':'' @ zpad 2 (ts_second t) @
     (if ts_microsecond t = 0 then [] else ''.'' @ zpad 6 (ts_microsecond t))"

text \<open>Chronological order of readings to the second: lexicographic on the fields.\<close>

definition ts_fields :: "timestamp \<Rightarrow> nat list" where
  "ts_fields t = [ts_year t, ts_month t, ts_day t, ts_hour t, ts_minute t, ts_second t]"

section \<open>Lemmas\<close>

lemma zpad_length [simp]: "length (zpad w n) = w"
  by (induction w arbitrary: n) auto

lemma zpad_digits: "\<forall>c \<in> set (zpad w n). is_digit c"
  by (induction w arbitrary: n) auto

lemma digit_char_of [simp]: "d < 10 \<Longrightarrow> of_char (digit_char d) = 48 + d"
  by (simp add: digit_char_def)

lemma digit_char_eq_iff [simp]:
  "a < 10 \<Longrightarrow> b < 10 \<Longrightarrow> digit_char a = digit_char b \<longleftrightarrow> a = b"
  by (metis add_left_cancel digit_char_of)

lemma digit_char_less_iff [simp]:
  "a < 10 \<Longrightarrow> b < 10 \<Longrightarrow> digit_char a < digit_char b \<longleftrightarrow> a < b"
  by (simp add: less_char_def)

lemma less_append_same_length:
  "length p = length q \<Longrightarrow> (p @ s < q @ t) \<longleftrightarrow> p < q \<or> p = q \<and> s < t"
proof (induction p arbitrary: q)
  case Nil
  then show ?case by simp
next
  case (Cons a p)
  then obtain b q' where "q = b # q'" "length p = length q'" by (cases q) auto
  with Cons.IH show ?case by auto
qed

lemma div10_less: "(n::nat) < 10 ^ Suc w \<Longrightarrow> n div 10 < 10 ^ w"
  by (simp add: div_less_iff_less_mult mult.commute)

lemma decimal_less_iff:
  "r1 < 10 \<Longrightarrow> r2 < 10 \<Longrightarrow>
   (10 * q1 + r1 < 10 * q2 + (r2::nat)) \<longleftrightarrow> q1 < q2 \<or> q1 = q2 \<and> r1 < r2"
  by arith

lemma decimal_eq_iff:
  "r1 < 10 \<Longrightarrow> r2 < 10 \<Longrightarrow> (10 * q1 + r1 = 10 * q2 + (r2::nat)) \<longleftrightarrow> q1 = q2 \<and> r1 = r2"
  by arith

lemma div_mod_less_iff:
  "(a::nat) < b \<longleftrightarrow> a div 10 < b div 10 \<or> a div 10 = b div 10 \<and> a mod 10 < b mod 10"
  using decimal_less_iff [of "a mod 10" "b mod 10" "a div 10" "b div 10"] by simp

lemma div_mod_eq_iff:
  "(a::nat) = b \<longleftrightarrow> a div 10 = b div 10 \<and> a mod 10 = b mod 10"
  using decimal_eq_iff [of "a mod 10" "b mod 10" "a div 10" "b div 10"] by simp

lemma zpad_eq_iff:
  "a < 10 ^ w \<Longrightarrow> b < 10 ^ w \<Longrightarrow> zpad w a = zpad w b \<longleftrightarrow> a = b"
proof (induction w arbitrary: a b)
  case 0
  then show ?case by simp
next
  case (Suc w)
  with Suc.IH [OF div10_less div10_less] show ?case
    by (simp add: div_mod_eq_iff [of a b])
qed

lemma zpad_less_iff:
  "a < 10 ^ w \<Longrightarrow> b < 10 ^ w \<Longrightarrow> zpad w a < zpad w b \<longleftrightarrow> a < b"
proof (induction w arbitrary: a b)
  case 0
  then show ?case by simp
next
  case (Suc w)
  with Suc.IH [OF div10_less div10_less] show ?case
    by (simp add: less_append_same_length zpad_eq_iff [OF div10_less div10_less] div_mod_less_iff [of a b])
qed

text \<open>Evaluation of the formats on concrete readings by \<open>simp\<close>.\<close>

lemma zpad_numeral: "zpad (numeral k) n = zpad (pred_numeral k) (n div 10) @ [digit_char (n mod 10)]"
  by (simp only: numeral_eq_Suc zpad.simps)

lemma digit_char_Suc0: "digit_char (Suc 0) = CHR ''1''"
  using digit_char_values(2) by (simp only: One_nat_def)

lemmas ts_format_eval = zpad_numeral digit_char_Suc0 isoformat_def strftime_stamp_def

end
