(* ===== verification/Utf8.thy ===== *)
theory Utf8
  imports PyRepr
begin

text \<open>
  \<open>str.encode('utf-8')\<close>, which \<open>save_csv_artifact\<close> applies to the CSV text before it
  stores it and whose length it reports as the artifact's size. A Python \<open>str\<close> is the
  list of its code points (\<open>pystr\<close>, each below 0x110000); HOL's 8-bit \<open>char\<close> would
  only reach U+00FF. \<open>utf8_encode_cp\<close> is the encoder of one code point as CPython
  writes it (one to four bytes; \<open>None\<close> for a surrogate U+D800..U+DFFF, which a Python
  \<open>str\<close> may hold and which \<open>encode\<close> refuses); CPython computes the bytes as
  \<open>0xc0 | (ch >> 6)\<close>, \<open>0x80 | (ch & 0x3f)\<close> and so on, which on each branch's range
  are the sums written here. A refused string raises \<open>UnicodeEncodeError\<close> with
  CPython's message: the first run of consecutive surrogates, as one character
  (\<open>'\udXXX'\<close>) or as a range of positions. Bytes are \<open>8 word\<close>s; the lemmas show that
  no byte wraps around and bound the length of the encoding.
\<close>

type_synonym pystr = "nat list"

definition utf8_encode_cp :: "nat \<Rightarrow> 8 word list option" where
  "utf8_encode_cp n =
     (if n < 0x80 then Some [of_nat n]
      else if n < 0x800 then Some [of_nat (0xC0 + n div 64), of_nat (0x80 + n mod 64)]
      else if 0xD800 \<le> n \<and> n < 0xE000 then None
      else if n < 0x10000 then
        Some [of_nat (0xE0 + n div 4096), of_nat (0x80 + n div 64 mod 64), of_nat (0x80 + n mod 64)]
      else if n < 0x110000 then
        Some [of_nat (0xF0 + n div 262144), of_nat (0x80 + n div 4096 mod 64),
              of_nat (0x80 + n div 64 mod 64), of_nat (0x80 + n mod 64)]
      else None)"

definition is_surrogate :: "nat \<Rightarrow> bool" where
  "is_surrogate n \<longleftrightarrow> 0xD800 \<le> n \<and> n < 0xE000"

text \<open>\<open>UnicodeEncodeError.__str__\<close> for the run of surrogates that starts at position \<open>p\<close>
  of \<open>s\<close> (\<open>\\u%04x\<close> for a single one).\<close>

definition encode_error_msg :: "pystr \<Rightarrow> nat \<Rightarrow> string" where
  "encode_error_msg s p =
     (let run = length (takeWhile is_surrogate (drop p s)); n = s ! p
      in if run = 1
         then [CHR 0x27] @ ''utf-8'' @ [CHR 0x27] @ '' codec can'' @ [CHR 0x27] @ ''t encode character '' @
              [CHR 0x27, CHR 0x5C, CHR ''u'', hex_digit (n div 4096), hex_digit (n div 256 mod 16),
               hex_digit (n div 16 mod 16), hex_digit (n mod 16), CHR 0x27] @
              '' in position '' @ dec_nat p @ '': surrogates not allowed''
         else [CHR 0x27] @ ''utf-8'' @ [CHR 0x27] @ '' codec can'' @ [CHR 0x27] @ ''t encode characters in position '' @
              dec_nat p @ ''-'' @ dec_nat (p + run - 1) @ '': surrogates not allowed'')"

definition str_encode_utf8 :: "pystr \<Rightarrow> py_error + 8 word list" where
  "str_encode_utf8 s =
     (case those (map utf8_encode_cp s) of
        None \<Rightarrow> Inl (UnicodeEncodeError (encode_error_msg s (length (takeWhile (\<lambda>n. \<not> is_surrogate n) s))))
      | Some bss \<Rightarrow> Inr (concat bss))"

text \<open>A code point a Python \<open>str\<close> holds and UTF-8 encodes: below 0x110000, not a surrogate.\<close>

definition py_scalar :: "nat \<Rightarrow> bool" where
  "py_scalar n \<longleftrightarrow> n < 0x110000 \<and> \<not> is_surrogate n"

text \<open>The byte values of the encoding of a code point, as numbers.\<close>

definition utf8_cp_values :: "nat \<Rightarrow> nat list" where
  "utf8_cp_values n =
     (if n < 0x80 then [n]
      else if n < 0x800 then [0xC0 + n div 64, 0x80 + n mod 64]
      else if n < 0x10000 then [0xE0 + n div 4096, 0x80 + n div 64 mod 64, 0x80 + n mod 64]
      else [0xF0 + n div 262144, 0x80 + n div 4096 mod 64, 0x80 + n div 64 mod 64, 0x80 + n mod 64])"

definition utf8_bytes :: "pystr \<Rightarrow> 8 word list" where
  "utf8_bytes s = concat (map (\<lambda>n. map of_nat (utf8_cp_values n)) s)"

definition is_ascii :: "nat \<Rightarrow> bool" where
  "is_ascii n \<longleftrightarrow> n < 128"

text \<open>A HOL string literal as the Python \<open>str\<close> with the same (Latin-1) code points.\<close>

abbreviation pystr_of :: "string \<Rightarrow> pystr" where
  "pystr_of s \<equiv> map of_char s"

section \<open>Lemmas\<close>

lemma utf8_encode_cp_scalar: "py_scalar n \<Longrightarrow> utf8_encode_cp n = Some (map of_nat (utf8_cp_values n))"
  by (simp add: utf8_encode_cp_def utf8_cp_values_def py_scalar_def is_surrogate_def)

lemma utf8_encode_cp_None: "utf8_encode_cp n = None \<longleftrightarrow> \<not> py_scalar n"
  by (simp add: utf8_encode_cp_def py_scalar_def is_surrogate_def)

lemma those_map_None: "those (map f xs) = None \<longleftrightarrow> (\<exists>x \<in> set xs. f x = None)"
  by (induction xs) (auto split: option.splits)

lemma those_utf8_None: "those (map utf8_encode_cp s) = None \<longleftrightarrow> \<not> list_all py_scalar s"
  by (simp add: those_map_None utf8_encode_cp_None list_all_iff)

lemma str_encode_utf8_ok: "list_all py_scalar s \<Longrightarrow> str_encode_utf8 s = Inr (utf8_bytes s)"
proof -
  assume "list_all py_scalar s"
  then have "those (map utf8_encode_cp s) = Some (map (\<lambda>n. map of_nat (utf8_cp_values n)) s)"
    by (induction s) (simp_all add: utf8_encode_cp_scalar)
  then show ?thesis by (simp add: str_encode_utf8_def utf8_bytes_def)
qed

lemma str_encode_utf8_Inr_iff: "(\<exists>bs. str_encode_utf8 s = Inr bs) \<longleftrightarrow> list_all py_scalar s"
  using those_utf8_None [of s] str_encode_utf8_ok [of s]
  by (auto simp add: str_encode_utf8_def split: option.splits)

lemma str_encode_utf8_error:
  "\<not> list_all py_scalar s \<Longrightarrow>
   str_encode_utf8 s = Inl (UnicodeEncodeError (encode_error_msg s (length (takeWhile (\<lambda>n. \<not> is_surrogate n) s))))"
proof -
  assume "\<not> list_all py_scalar s"
  then have "those (map utf8_encode_cp s) = None" by (simp add: those_utf8_None)
  then show ?thesis by (simp add: str_encode_utf8_def)
qed

lemma utf8_cp_values_bound: "n < 0x110000 \<Longrightarrow> v \<in> set (utf8_cp_values n) \<Longrightarrow> v < 256"
  by (auto simp add: utf8_cp_values_def div_less_iff_less_mult split: if_splits)

lemma unat_utf8_bytes:
  "list_all (\<lambda>n. n < 0x110000) s \<Longrightarrow> map unat (utf8_bytes s) = concat (map utf8_cp_values s)"
proof -
  have h: "n < 0x110000 \<Longrightarrow> map (unat \<circ> (of_nat :: nat \<Rightarrow> 8 word)) (utf8_cp_values n) = utf8_cp_values n" for n
    by (auto intro!: map_idI simp add: unat_of_nat dest: utf8_cp_values_bound)
  show "list_all (\<lambda>n. n < 0x110000) s \<Longrightarrow> ?thesis"
    by (induction s) (simp_all add: utf8_bytes_def h)
qed

lemma length_utf8_cp_values:
  "length (utf8_cp_values n) = (if n < 0x80 then 1 else if n < 0x800 then 2 else if n < 0x10000 then 3 else 4)"
  by (simp add: utf8_cp_values_def)

lemma length_utf8_bytes: "length (utf8_bytes s) = sum_list (map (\<lambda>n. length (utf8_cp_values n)) s)"
  by (induction s) (simp_all add: utf8_bytes_def)

lemma utf8_size_bounds:
  "length s \<le> length (utf8_bytes s) \<and> length (utf8_bytes s) \<le> 4 * length s \<and>
   (length (utf8_bytes s) = length s \<longleftrightarrow> list_all is_ascii s)"
proof (induction s)
  case (Cons n s)
  have "1 \<le> length (utf8_cp_values n)" "length (utf8_cp_values n) \<le> 4"
    "length (utf8_cp_values n) = 1 \<longleftrightarrow> is_ascii n"
    by (simp_all add: length_utf8_cp_values is_ascii_def)
  with Cons show ?case by (auto simp add: length_utf8_bytes)
qed (simp add: utf8_bytes_def)

end
