(* ===== verification/Artifacts.thy ===== *)
theory Artifacts
  imports Csv Timestamp Utf8 "HOL-Library.Sublist"
begin

text \<open>
  The artifact helpers of \<open>src/artifact_utils.py\<close> (lines 11-170) over an interface of
  the ADK context they are given. The context is the record \<open>artifact_ctx\<close> of its three
  calls over a store of type \<open>'s\<close>: \<open>list_artifacts()\<close>, \<open>load_artifact(name,
  version)\<close> returning a Python value (\<open>None\<close> when there is nothing), and
  \<open>save_artifact(name, bytes, mime_type)\<close> returning the new store; each may raise
  (\<open>Inl\<close>). \<open>datetime.now()\<close> is a clock \<open>clk\<close>: \<open>clk i\<close> is the reading of the
  \<open>i\<close>-th call the helper makes. The helpers return the dicts of the source as
  \<open>pyval\<close>s (\<open>PDict\<close> in the source's key order, \<open>PNone\<close> for \<open>None\<close>); every
  \<open>except\<close> of the source is a branch on \<open>Inl\<close>. The \<open>print\<close>s are not modelled.
  \<open>mem_ctx\<close> is an in-process store as ADK's \<open>InMemoryArtifactService\<close> keeps it:
  for each name the list of its versions, listed by sorted name.
\<close>

record 's artifact_ctx =
  ctx_list_artifacts :: "'s \<Rightarrow> py_error + string list"
  ctx_load_artifact :: "'s \<Rightarrow> string \<Rightarrow> int option \<Rightarrow> py_error + pyval"
  ctx_save_artifact :: "'s \<Rightarrow> string \<Rightarrow> 8 word list \<Rightarrow> string \<Rightarrow> py_error + 's"

type_synonym clock = "nat \<Rightarrow> timestamp"

definition list_available_artifacts :: "'s artifact_ctx \<Rightarrow> 's \<Rightarrow> string list" where
  "list_available_artifacts ctx st =
     (case ctx_list_artifacts ctx st of Inl _ \<Rightarrow> [] | Inr artifacts \<Rightarrow> artifacts)"

definition default_pattern :: string where
  "default_pattern = ''dialogflow_cx_training_phrases''"

text \<open>\<open>filename_pattern in art and art.endswith('.csv')\<close>.\<close>

definition csv_match :: "string \<Rightarrow> string \<Rightarrow> bool" where
  "csv_match pat art = (sublist pat art \<and> suffix ''.csv'' art)"

definition get_latest_csv_artifact ::
  "'s artifact_ctx \<Rightarrow> 's \<Rightarrow> clock \<Rightarrow> string \<Rightarrow> pyval" where
  "get_latest_csv_artifact ctx st clk filename_pattern =
     (case ctx_list_artifacts ctx st of
        Inl _ \<Rightarrow> PNone
      | Inr artifacts \<Rightarrow>
          (let csv_artifacts = filter (csv_match filename_pattern) artifacts
           in if csv_artifacts = [] then PNone
              else
                let latest_artifact = last csv_artifacts
                in case ctx_load_artifact ctx st latest_artifact None of
                     Inl _ \<Rightarrow> PNone
                   | Inr artifact_data \<Rightarrow>
                       PDict [(''filename'', PStr latest_artifact), (''data'', artifact_data),
                              (''loaded_at'', PStr (isoformat (clk 0)))]))"

definition get_csv_artifact_by_version ::
  "'s artifact_ctx \<Rightarrow> 's \<Rightarrow> clock \<Rightarrow> string \<Rightarrow> int \<Rightarrow> pyval" where
  "get_csv_artifact_by_version ctx st clk filename version =
     (case ctx_load_artifact ctx st filename (Some version) of
        Inl _ \<Rightarrow> PNone
      | Inr artifact_data \<Rightarrow>
          PDict [(''filename'', PStr filename), (''version'', PInt version),
                 (''data'', artifact_data), (''loaded_at'', PStr (isoformat (clk 0)))])"

text \<open>The name \<open>save_csv_artifact\<close> generates from a reading of the clock.\<close>

definition csv_artifact_name :: "timestamp \<Rightarrow> string" where
  "csv_artifact_name t = ''dialogflow_cx_training_phrases_'' @ strftime_stamp t @ ''.csv''"

text \<open>\<open>if not filename\<close>: a missing or empty name is generated from the first
  reading of the clock. The result pairs the name with the index of the reading that
  \<open>saved_at\<close> takes afterwards.\<close>

definition artifact_target :: "clock \<Rightarrow> string option \<Rightarrow> string \<times> nat" where
  "artifact_target clk filename =
     (case filename of
        Some f \<Rightarrow> if f = [] then (csv_artifact_name (clk 0), 1) else (f, 0)
      | None \<Rightarrow> (csv_artifact_name (clk 0), 1))"

text \<open>The content, a Python \<open>str\<close>, is encoded once (the source encodes it twice, with
  the same result); the first encoding is an argument of \<open>ctx.save_artifact\<close>, so a
  \<open>UnicodeEncodeError\<close> is raised before the context is called and caught by the
  same \<open>except\<close>.\<close>

definition save_csv_artifact ::
  "'s artifact_ctx \<Rightarrow> 's \<Rightarrow> clock \<Rightarrow> pystr \<Rightarrow> string option \<Rightarrow> pyval \<times> 's" where
  "save_csv_artifact ctx st clk csv_content filename =
     (let (name, i) = artifact_target clk filename;
          err = (\<lambda>e. PDict [(''status'', PStr ''error''), (''error'', PStr (exc_str e)),
                             (''saved_at'', PStr (isoformat (clk i)))])
      in case str_encode_utf8 csv_content of
           Inl e \<Rightarrow> (err e, st)
         | Inr bs \<Rightarrow>
             (case ctx_save_artifact ctx st name bs ''text/csv'' of
                Inl e \<Rightarrow> (err e, st)
              | Inr st' \<Rightarrow>
                  (PDict [(''status'', PStr ''success''), (''filename'', PStr name),
                          (''saved_at'', PStr (isoformat (clk i))), (''size'', PInt (int (length bs))),
                          (''mime_type'', PStr ''text/csv'')], st')))"

text \<open>\<open>len(artifact_data) if artifact_data else 0\<close> inside a bare \<open>except\<close>: a failed
  load or a value without \<open>len\<close> gives 0.\<close>

definition artifact_size :: "py_error + pyval \<Rightarrow> nat" where
  "artifact_size r =
     (case r of
        Inl _ \<Rightarrow> 0
      | Inr artifact_data \<Rightarrow>
          if truthy artifact_data then (case py_len artifact_data of Inl _ \<Rightarrow> 0 | Inr n \<Rightarrow> n) else 0)"

definition get_artifact_metadata ::
  "'s artifact_ctx \<Rightarrow> 's \<Rightarrow> clock \<Rightarrow> string \<Rightarrow> pyval" where
  "get_artifact_metadata ctx st clk filename =
     (case ctx_list_artifacts ctx st of
        Inl e \<Rightarrow>
          PDict [(''status'', PStr ''error''), (''filename'', PStr filename),
                 (''error'', PStr (exc_str e)), (''checked_at'', PStr (isoformat (clk 0)))]
      | Inr artifacts \<Rightarrow>
          if filename \<notin> set artifacts then
            PDict [(''status'', PStr ''not_found''), (''filename'', PStr filename),
                   (''message'', PStr ''Artifact not found'')]
          else
            PDict [(''status'', PStr ''found''), (''filename'', PStr filename),
                   (''size'', PInt (int (artifact_size (ctx_load_artifact ctx st filename None)))),
                   (''type'', PStr (if suffix ''.csv'' filename then ''csv'' else ''unknown'')),
                   (''checked_at'', PStr (isoformat (clk 0)))])"

text \<open>The lookup the spec describes (section 4.5): the lexicographically last name that
  contains the pattern and ends in \<open>.csv\<close>.\<close>

definition latest_match :: "string \<Rightarrow> string list \<Rightarrow> string option" where
  "latest_match pat names =
     (let ms = filter (csv_match pat) names in if ms = [] then None else Some (Max (set ms)))"

subsection \<open>An in-process store\<close>

text \<open>Each name with its versions, oldest first. Saving appends a version (a new name goes
  to the end); loading without a version gives the newest; a missing name or version loads
  \<open>None\<close>; listing gives the sorted names.\<close>

type_synonym mem_store = "(string \<times> pyval list) list"

fun mem_put :: "string \<Rightarrow> pyval \<Rightarrow> mem_store \<Rightarrow> mem_store" where
  "mem_put k v [] = [(k, [v])]"
| "mem_put k v ((k', vs) # st) = (if k = k' then (k', vs @ [v]) # st else (k', vs) # mem_put k v st)"

definition mem_load :: "mem_store \<Rightarrow> string \<Rightarrow> int option \<Rightarrow> py_error + pyval" where
  "mem_load st name version =
     Inr (case map_of st name of
            None \<Rightarrow> PNone
          | Some vs \<Rightarrow>
              (case version of
                 None \<Rightarrow> if vs = [] then PNone else last vs
               | Some i \<Rightarrow> if 0 \<le> i \<and> nat i < length vs then vs ! nat i else PNone))"

definition mem_ctx :: "mem_store artifact_ctx" where
  "mem_ctx =
     \<lparr>ctx_list_artifacts = (\<lambda>st. Inr (sort (map fst st))),
      ctx_load_artifact = mem_load,
      ctx_save_artifact = (\<lambda>st name bs mime. Inr (mem_put name (PBytes bs) st))\<rparr>"


text \<open>Two readings of the clock, a day apart, used by the examples below.\<close>

definition ts_morning :: timestamp where
  "ts_morning = \<lparr>ts_year = 2025, ts_month = 1, ts_day = 9, ts_hour = 7, ts_minute = 5, ts_second = 3,
                  ts_microsecond = 0\<rparr>"

definition ts_next_day :: timestamp where
  "ts_next_day = \<lparr>ts_year = 2025, ts_month = 1, ts_day = 10, ts_hour = 0, ts_minute = 0, ts_second = 0,
                   ts_microsecond = 250000\<rparr>"

section \<open>Lemmas\<close>

lemma save_csv_artifact_eq:
  "artifact_target clk fn = (name, i) \<Longrightarrow> list_all py_scalar content \<Longrightarrow>
   save_csv_artifact ctx st clk content fn =
     (case ctx_save_artifact ctx st name (utf8_bytes content) ''text/csv'' of
        Inl e \<Rightarrow> (PDict [(''status'', PStr ''error''), (''error'', PStr (exc_str e)),
                       (''saved_at'', PStr (isoformat (clk i)))], st)
      | Inr st' \<Rightarrow>
          (PDict [(''status'', PStr ''success''), (''filename'', PStr name),
                  (''saved_at'', PStr (isoformat (clk i))), (''size'', PInt (int (length (utf8_bytes content)))),
                  (''mime_type'', PStr ''text/csv'')], st'))"
  by (simp add: save_csv_artifact_def str_encode_utf8_ok)

lemma strftime_stamp_less_iff:
  "ts_valid t1 \<Longrightarrow> ts_valid t2 \<Longrightarrow> strftime_stamp t1 < strftime_stamp t2 \<longleftrightarrow> ts_fields t1 < ts_fields t2"
  by (simp add: strftime_stamp_def ts_valid_def ts_fields_def less_append_same_length zpad_less_iff zpad_eq_iff)

lemma length_strftime_stamp [simp]: "length (strftime_stamp t) = 15"
  by (simp add: strftime_stamp_def)

lemma csv_artifact_name_less_iff:
  "ts_valid t1 \<Longrightarrow> ts_valid t2 \<Longrightarrow>
   csv_artifact_name t1 < csv_artifact_name t2 \<longleftrightarrow> ts_fields t1 < ts_fields t2"
  by (simp add: csv_artifact_name_def less_append_same_length strftime_stamp_less_iff)

lemma csv_artifact_name_match: "csv_match default_pattern (csv_artifact_name t)"
proof -
  have split: "csv_artifact_name t = ''dialogflow_cx_training_phrases'' @ (''_'' @ strftime_stamp t @ ''.csv'')"
    by (simp add: csv_artifact_name_def)
  have "sublist default_pattern (csv_artifact_name t)"
    unfolding split default_pattern_def by (rule sublist_append_rightI)
  moreover have "suffix ''.csv'' (csv_artifact_name t)"
    unfolding suffix_def csv_artifact_name_def
    by (rule exI [of _ "''dialogflow_cx_training_phrases_'' @ strftime_stamp t"]) simp
  ultimately show ?thesis by (simp add: csv_match_def)
qed

lemma strftime_stamp_eq_iff:
  "ts_valid t1 \<Longrightarrow> ts_valid t2 \<Longrightarrow> strftime_stamp t1 = strftime_stamp t2 \<longleftrightarrow> ts_fields t1 = ts_fields t2"
  by (simp add: strftime_stamp_def ts_valid_def ts_fields_def append_eq_append_conv zpad_eq_iff)

lemma csv_artifact_name_eq_iff:
  "ts_valid t1 \<Longrightarrow> ts_valid t2 \<Longrightarrow>
   csv_artifact_name t1 = csv_artifact_name t2 \<longleftrightarrow> ts_fields t1 = ts_fields t2"
  by (simp add: csv_artifact_name_def append_eq_append_conv strftime_stamp_eq_iff)

lemma map_of_mem_put_same:
  "map_of (mem_put k v st) k = Some (case map_of st k of None \<Rightarrow> [v] | Some vs \<Rightarrow> vs @ [v])"
  by (induction k v st rule: mem_put.induct) auto

lemma map_of_mem_put_other: "k' \<noteq> k \<Longrightarrow> map_of (mem_put k v st) k' = map_of st k'"
  by (induction k v st rule: mem_put.induct) auto

lemma keys_mem_put: "fst ` set (mem_put k v st) = insert k (fst ` set st)"
  by (induction k v st rule: mem_put.induct) auto

lemma mem_load_put_newest: "mem_load (mem_put k v st) k None = Inr v"
  by (simp add: mem_load_def map_of_mem_put_same split: option.splits)

lemma sorted_last_Max: "sorted xs \<Longrightarrow> xs \<noteq> [] \<Longrightarrow> last xs = Max (set xs)"
proof (induction xs rule: rev_induct)
  case (snoc x ys)
  then have "\<forall>y \<in> set ys. y \<le> x" by (simp add: sorted_append)
  then show ?case by (simp add: Max_insert2)
qed simp

lemma save_csv_artifact_mem:
  "artifact_target clk fn = (name, i) \<Longrightarrow> list_all py_scalar content \<Longrightarrow>
   snd (save_csv_artifact mem_ctx st clk content fn) = mem_put name (PBytes (utf8_bytes content)) st"
  by (simp add: save_csv_artifact_eq mem_ctx_def)

lemma save_csv_artifact_encode_fails:
  "artifact_target clk fn = (name, i) \<Longrightarrow> \<not> list_all py_scalar content \<Longrightarrow>
   save_csv_artifact ctx st clk content fn =
     (PDict [(''status'', PStr ''error''),
             (''error'', PStr (encode_error_msg content (length (takeWhile (\<lambda>n. \<not> is_surrogate n) content)))),
             (''saved_at'', PStr (isoformat (clk i)))], st)"
  by (simp add: save_csv_artifact_def str_encode_utf8_error)

lemma latest_in_sorted:
  assumes "x \<in> set xs" "P x" "\<forall>y \<in> set xs. P y \<longrightarrow> y \<noteq> x \<longrightarrow> y < x"
  shows "last (filter P (sort xs)) = x" "filter P (sort xs) \<noteq> []"
proof -
  have ne: "filter P (sort xs) \<noteq> []" using assms(1,2) by (auto simp add: filter_empty_conv)
  have "Max (set (filter P (sort xs))) = x"
    using assms by (intro Max_eqI) (auto simp add: less_le)
  then show "last (filter P (sort xs)) = x"
    using sorted_last_Max [OF sorted_filter [of id, simplified] ne] by (simp add: sorted_sort)
  show "filter P (sort xs) \<noteq> []" by (rule ne)
qed


lemma artifact_size_bytes [simp]: "artifact_size (Inr (PBytes bs)) = length bs"
  by (simp add: artifact_size_def)

section \<open>Properties\<close>

text \<open>C14: Saving without a name (or with the empty name) stores the UTF-8 bytes of the content
  under the name generated from the first clock reading, and reports success with that name,
  the second reading as \<open>saved_at\<close>, the byte length as \<open>size\<close> and the type
  \<open>text/csv\<close>; the store becomes the one the context's \<open>save_artifact\<close> returned.\<close>

theorem save_csv_artifact_generated:
  assumes "fn = None \<or> fn = Some []" and "list_all py_scalar content"
    and "ctx_save_artifact ctx st (csv_artifact_name (clk 0)) (utf8_bytes content) ''text/csv'' = Inr st'"
  shows "save_csv_artifact ctx st clk content fn =
           (PDict [(''status'', PStr ''success''), (''filename'', PStr (csv_artifact_name (clk 0))),
                   (''saved_at'', PStr (isoformat (clk 1))),
                   (''size'', PInt (int (length (utf8_bytes content)))),
                   (''mime_type'', PStr ''text/csv'')], st')"
proof -
  have "artifact_target clk fn = (csv_artifact_name (clk 0), 1)"
    using assms(1) by (auto simp add: artifact_target_def)
  then show ?thesis using assms(2,3) by (simp add: save_csv_artifact_eq)
qed

theorem save_csv_artifact_generated_witness:
  "save_csv_artifact mem_ctx [] (\<lambda>i. if i = 0 then ts_morning else ts_next_day) [97, 44, 98, 10, 49, 44, 50, 10] None =
     (PDict [(''status'', PStr ''success''),
             (''filename'', PStr ''dialogflow_cx_training_phrases_20250109_070503.csv''),
             (''saved_at'', PStr ''2025-01-10T00:00:00.250000''), (''size'', PInt 8),
             (''mime_type'', PStr ''text/csv'')],
      [(''dialogflow_cx_training_phrases_20250109_070503.csv'', [PBytes [97, 44, 98, 10, 49, 44, 50, 10]])])"
proof -
  let ?clk = "\<lambda>i::nat. if i = 0 then ts_morning else ts_next_day"
  have name: "csv_artifact_name ts_morning = ''dialogflow_cx_training_phrases_20250109_070503.csv''"
    by (simp add: csv_artifact_name_def ts_morning_def ts_format_eval)
  have iso: "isoformat ts_next_day = ''2025-01-10T00:00:00.250000''"
    by (simp add: ts_next_day_def ts_format_eval)
  have bytes: "utf8_bytes [97, 44, 98, 10, 49, 44, 50, 10] = [97, 44, 98, 10, 49, 44, 50, 10]"
    by (simp add: utf8_bytes_def utf8_cp_values_def)
  have scalar: "list_all py_scalar [97, 44, 98, 10, 49, 44, 50, 10 :: nat]" by (simp add: py_scalar_def is_surrogate_def)
  show ?thesis
    using save_csv_artifact_generated [of None "[97, 44, 98, 10, 49, 44, 50, 10]" mem_ctx "[]" ?clk] scalar
    by (simp add: name iso bytes mem_ctx_def)
qed

text \<open>C15: A generated name is the fixed prefix, eight digits (\<open>%Y%m%d\<close>), an underscore,
  six digits (\<open>%H%M%S\<close>) and \<open>.csv\<close>, for every reading of the clock.\<close>

theorem csv_artifact_name_shape:
  "\<exists>d1 d2. csv_artifact_name t = ''dialogflow_cx_training_phrases_'' @ d1 @ ''_'' @ d2 @ ''.csv'' \<and>
     length d1 = 8 \<and> length d2 = 6 \<and> (\<forall>c \<in> set (d1 @ d2). is_digit c)"
proof (intro exI conjI)
  let ?d1 = "zpad 4 (ts_year t) @ zpad 2 (ts_month t) @ zpad 2 (ts_day t)"
  let ?d2 = "zpad 2 (ts_hour t) @ zpad 2 (ts_minute t) @ zpad 2 (ts_second t)"
  show "csv_artifact_name t = ''dialogflow_cx_training_phrases_'' @ ?d1 @ ''_'' @ ?d2 @ ''.csv''"
    by (simp add: csv_artifact_name_def strftime_stamp_def)
  show "length ?d1 = 8" "length ?d2 = 6" by simp_all
  show "\<forall>c \<in> set (?d1 @ ?d2). is_digit c" using zpad_digits by auto
qed

theorem csv_artifact_name_shape_witness:
  "\<exists>d1 d2. csv_artifact_name ts_morning = ''dialogflow_cx_training_phrases_'' @ d1 @ ''_'' @ d2 @ ''.csv'' \<and>
     length d1 = 8 \<and> length d2 = 6 \<and> (\<forall>c \<in> set (d1 @ d2). is_digit c)"
  using csv_artifact_name_shape [of ts_morning] by blast

text \<open>C16: The size \<open>save_csv_artifact\<close> reports is the length of the UTF-8 encoding of
  the content: at least its length in code points (Python's \<open>len\<close>), at most four times
  it, and equal to it exactly when every code point is ASCII.\<close>

theorem save_csv_artifact_size:
  assumes "save_csv_artifact ctx st clk content fn = (PDict ps, st')"
    and "map_of ps ''size'' = Some (PInt n)"
  shows "int (length content) \<le> n \<and> n \<le> 4 * int (length content) \<and>
         (n = int (length content) \<longleftrightarrow> list_all is_ascii content)"
proof -
  obtain name i where t: "artifact_target clk fn = (name, i)" by fastforce
  have scalar: "list_all py_scalar content"
  proof (rule ccontr)
    assume c: "\<not> list_all py_scalar content"
    from save_csv_artifact_encode_fails [OF t c, of ctx st] assms show False by simp
  qed
  have n: "n = int (length (utf8_bytes content))"
  proof (cases "ctx_save_artifact ctx st name (utf8_bytes content) ''text/csv''")
    case (Inl e)
    then show ?thesis using assms save_csv_artifact_eq [OF t scalar, of ctx st] by auto
  next
    case (Inr st'')
    then show ?thesis using assms save_csv_artifact_eq [OF t scalar, of ctx st] by auto
  qed
  have "length content \<le> length (utf8_bytes content)" "length (utf8_bytes content) \<le> 4 * length content"
    "length (utf8_bytes content) = length content \<longleftrightarrow> list_all is_ascii content"
    using utf8_size_bounds [of content] by simp_all
  then show ?thesis by (simp add: n)
qed

theorem save_csv_artifact_size_witness:
  "int (length [97, 0x65E5, 0x672C :: nat]) \<le> 7 \<and> (7::int) \<le> 4 * int (length [97, 0x65E5, 0x672C :: nat]) \<and>
   \<not> list_all is_ascii [97, 0x65E5, 0x672C :: nat]"
proof -
  let ?r = "save_csv_artifact mem_ctx [] (\<lambda>_. ts_morning) [97, 0x65E5, 0x672C] (Some ''x.csv'')"
  have r: "?r = (PDict [(''status'', PStr ''success''), (''filename'', PStr ''x.csv''),
                        (''saved_at'', PStr ''2025-01-09T07:05:03''), (''size'', PInt 7),
                        (''mime_type'', PStr ''text/csv'')],
                 [(''x.csv'', [PBytes [97, 0xE6, 0x97, 0xA5, 0xE6, 0x9C, 0xAC]])])"
  proof -
    have t: "artifact_target (\<lambda>_. ts_morning) (Some ''x.csv'') = (''x.csv'', 0)"
      by (simp add: artifact_target_def)
    have sc: "list_all py_scalar [97, 0x65E5, 0x672C :: nat]" by (simp add: py_scalar_def is_surrogate_def)
    have b: "utf8_bytes [97, 0x65E5, 0x672C] = [97, 0xE6, 0x97, 0xA5, 0xE6, 0x9C, 0xAC]"
      by (simp add: utf8_bytes_def utf8_cp_values_def)
    have iso: "isoformat ts_morning = ''2025-01-09T07:05:03''" by (simp add: ts_morning_def ts_format_eval)
    show ?thesis by (simp add: save_csv_artifact_eq [OF t sc] b iso mem_ctx_def)
  qed
  show ?thesis using save_csv_artifact_size [OF r] by simp
qed

text \<open>C17: When the context's \<open>save_artifact\<close> raises, \<open>save_csv_artifact\<close> does not: it
  returns the error dict with \<open>str(e)\<close> and the reading after the name's, and the store
  is unchanged.\<close>

theorem save_csv_artifact_error:
  assumes "artifact_target clk fn = (name, i)" and "list_all py_scalar content"
    and "ctx_save_artifact ctx st name (utf8_bytes content) ''text/csv'' = Inl e"
  shows "save_csv_artifact ctx st clk content fn =
           (PDict [(''status'', PStr ''error''), (''error'', PStr (exc_str e)),
                   (''saved_at'', PStr (isoformat (clk i)))], st)"
  using assms by (simp add: save_csv_artifact_eq)

theorem save_csv_artifact_error_witness:
  "save_csv_artifact
     \<lparr>ctx_list_artifacts = (\<lambda>_. Inr []), ctx_load_artifact = (\<lambda>_ _ _. Inr PNone),
      ctx_save_artifact = (\<lambda>_ _ _ _. Inl (ServiceError ''bucket not found''))\<rparr>
     (0::nat) (\<lambda>_. ts_morning) [97] (Some ''x.csv'') =
   (PDict [(''status'', PStr ''error''), (''error'', PStr ''bucket not found''),
           (''saved_at'', PStr (isoformat ts_morning))], 0)"
  using save_csv_artifact_error [of "\<lambda>_. ts_morning" "Some ''x.csv''" "''x.csv''" 0 "[97]"
      "\<lparr>ctx_list_artifacts = (\<lambda>_. Inr []), ctx_load_artifact = (\<lambda>_ _ _. Inr PNone),
        ctx_save_artifact = (\<lambda>_ _ _ _. Inl (ServiceError ''bucket not found''))\<rparr>" "0::nat"
      "ServiceError ''bucket not found''"]
  by (simp add: artifact_target_def py_scalar_def is_surrogate_def)

text \<open>C32: A content that UTF-8 cannot encode (a Python \<open>str\<close> holding a lone surrogate)
  makes \<open>save_csv_artifact\<close> return the error dict with CPython's \<open>UnicodeEncodeError\<close>
  message, naming the first surrogate and its position, and the reading after the name's;
  the context's \<open>save_artifact\<close> is never called and the store is unchanged.\<close>

theorem save_csv_artifact_encode_error:
  assumes "artifact_target clk fn = (name, i)" and "\<not> list_all py_scalar content"
  shows "save_csv_artifact ctx st clk content fn =
           (PDict [(''status'', PStr ''error''),
                   (''error'', PStr (encode_error_msg content (length (takeWhile (\<lambda>n. \<not> is_surrogate n) content)))),
                   (''saved_at'', PStr (isoformat (clk i)))], st)"
  using assms by (rule save_csv_artifact_encode_fails)

theorem save_csv_artifact_encode_error_witness:
  "save_csv_artifact mem_ctx [] (\<lambda>_. ts_morning) [97, 0xD800] (Some ''x.csv'') =
     (PDict [(''status'', PStr ''error''),
             (''error'', PStr ([CHR 0x27] @ ''utf-8'' @ [CHR 0x27] @ '' codec can'' @ [CHR 0x27] @
                              ''t encode character '' @ [CHR 0x27, CHR 0x5C] @ ''ud800'' @ [CHR 0x27] @
                              '' in position 1: surrogates not allowed'')),
             (''saved_at'', PStr (isoformat ts_morning))], [])"
proof -
  have c: "\<not> list_all py_scalar [97, 0xD800 :: nat]" by (simp add: py_scalar_def is_surrogate_def)
  have p: "length (takeWhile (\<lambda>n. \<not> is_surrogate n) [97, 0xD800 :: nat]) = 1"
    by (simp add: is_surrogate_def)
  have msg: "encode_error_msg [97, 0xD800] 1 =
               [CHR 0x27] @ ''utf-8'' @ [CHR 0x27] @ '' codec can'' @ [CHR 0x27] @
               ''t encode character '' @ [CHR 0x27, CHR 0x5C] @ ''ud800'' @ [CHR 0x27] @
               '' in position 1: surrogates not allowed''"
    by (simp add: encode_error_msg_def is_surrogate_def hex_digit_def) code_simp
  show ?thesis
    using save_csv_artifact_encode_error [of "\<lambda>_. ts_morning" "Some ''x.csv''" "''x.csv''" 0 "[97, 0xD800]" mem_ctx "[]",
        unfolded p msg] c
    by (simp add: artifact_target_def)
qed

text \<open>C18: On valid readings, generated names compare as strings exactly as the readings
  compare in time, to the second, and two readings within the same second give the same
  name.\<close>

theorem csv_artifact_name_chronological:
  assumes "ts_valid t1" "ts_valid t2"
  shows "(csv_artifact_name t1 < csv_artifact_name t2 \<longleftrightarrow> ts_fields t1 < ts_fields t2) \<and>
         (csv_artifact_name t1 = csv_artifact_name t2 \<longleftrightarrow> ts_fields t1 = ts_fields t2)"
  using assms by (simp add: csv_artifact_name_less_iff csv_artifact_name_eq_iff)

theorem csv_artifact_name_chronological_witness:
  "csv_artifact_name ts_morning < csv_artifact_name ts_next_day"
  using csv_artifact_name_chronological [of ts_morning ts_next_day]
  by (simp add: ts_valid_def ts_fields_def ts_morning_def ts_next_day_def)

text \<open>C19: \<open>get_latest_csv_artifact\<close> returns the last name of the listing, in the
  listing's order, that contains the pattern and ends in \<open>.csv\<close>, with what the context
  loads for it, and \<open>None\<close> when no name matches.\<close>

theorem get_latest_csv_artifact_last:
  assumes "ctx_list_artifacts ctx st = Inr artifacts"
    and "\<forall>a \<in> set artifacts. ctx_load_artifact ctx st a None = Inr (data a)"
  shows "get_latest_csv_artifact ctx st clk pat =
           (case filter (csv_match pat) artifacts of
              [] \<Rightarrow> PNone
            | cs \<Rightarrow> PDict [(''filename'', PStr (last cs)), (''data'', data (last cs)),
                            (''loaded_at'', PStr (isoformat (clk 0)))])"
proof (cases "filter (csv_match pat) artifacts")
  case Nil
  then show ?thesis using assms(1) by (simp add: get_latest_csv_artifact_def)
next
  case (Cons c cs)
  then have "last (c # cs) \<in> set artifacts"
    by (metis filter_is_subset last_in_set list.distinct(1) subsetD)
  then show ?thesis using assms Cons by (simp add: get_latest_csv_artifact_def Let_def)
qed

theorem get_latest_csv_artifact_last_witness:
  "get_latest_csv_artifact mem_ctx
     [(''foo.csv'', [PInt 0]), (''training_phrases_1.csv'', [PInt 1]), (''training_phrases_2.csv'', [PInt 2])]
     (\<lambda>_. ts_morning) ''training_phrases'' =
   PDict [(''filename'', PStr ''training_phrases_2.csv''), (''data'', PInt 2),
          (''loaded_at'', PStr (isoformat ts_morning))]"
proof -
  let ?st = "[(''foo.csv'', [PInt 0]), (''training_phrases_1.csv'', [PInt 1]),
              (''training_phrases_2.csv'', [PInt 2])]"
  have l: "ctx_list_artifacts mem_ctx ?st = Inr [''foo.csv'', ''training_phrases_1.csv'', ''training_phrases_2.csv'']"
    by code_simp
  have f: "filter (csv_match ''training_phrases'') [''foo.csv'', ''training_phrases_1.csv'', ''training_phrases_2.csv''] =
           [''training_phrases_1.csv'', ''training_phrases_2.csv'']"
    by code_simp
  have d: "\<forall>a \<in> set [''foo.csv'', ''training_phrases_1.csv'', ''training_phrases_2.csv''].
             ctx_load_artifact mem_ctx ?st a None = Inr (case map_of ?st a of Some vs \<Rightarrow> last vs | None \<Rightarrow> PNone)"
    by (simp add: mem_ctx_def mem_load_def)
  show ?thesis
    using get_latest_csv_artifact_last [OF l d, of "\<lambda>_. ts_morning" "''training_phrases''", unfolded f]
    by simp
qed

text \<open>C20: Saving to the in-process store without a name, at a reading later than those of
  every generated name already stored, makes that save the one \<open>get_latest_csv_artifact\<close>
  finds with the default pattern: it returns the new name and the saved bytes.\<close>

theorem mem_save_then_latest:
  assumes valid: "ts_valid (clk 0)" and scalar: "list_all py_scalar content"
    and older: "\<forall>k \<in> fst ` set st. csv_match default_pattern k \<longrightarrow>
                  (\<exists>t. ts_valid t \<and> k = csv_artifact_name t \<and> ts_fields t < ts_fields (clk 0))"
  shows "get_latest_csv_artifact mem_ctx (snd (save_csv_artifact mem_ctx st clk content None)) clk'
           default_pattern =
         PDict [(''filename'', PStr (csv_artifact_name (clk 0))), (''data'', PBytes (utf8_bytes content)),
                (''loaded_at'', PStr (isoformat (clk' 0)))]"
proof -
  let ?name = "csv_artifact_name (clk 0)"
  let ?st' = "mem_put ?name (PBytes (utf8_bytes content)) st"
  have st': "snd (save_csv_artifact mem_ctx st clk content None) = ?st'"
    by (rule save_csv_artifact_mem [OF _ scalar]) (simp add: artifact_target_def)
  have "\<forall>k \<in> set (map fst ?st'). csv_match default_pattern k \<longrightarrow> k \<noteq> ?name \<longrightarrow> k < ?name"
    using older valid by (auto simp add: keys_mem_put csv_artifact_name_less_iff)
  then have "last (filter (csv_match default_pattern) (sort (map fst ?st'))) = ?name"
    "filter (csv_match default_pattern) (sort (map fst ?st')) \<noteq> []"
    using latest_in_sorted [of ?name "map fst ?st'" "csv_match default_pattern"]
    by (simp_all add: keys_mem_put csv_artifact_name_match)
  then show ?thesis
    unfolding st' by (simp add: get_latest_csv_artifact_def mem_ctx_def mem_load_put_newest Let_def)
qed


theorem mem_save_then_latest_witness:
  "get_latest_csv_artifact mem_ctx
     (snd (save_csv_artifact mem_ctx [(csv_artifact_name ts_morning, [PBytes []]), (''notes.txt'', [PNone])]
             (\<lambda>_. ts_next_day) [97, 44, 98] None)) (\<lambda>_. ts_next_day) default_pattern =
   PDict [(''filename'', PStr (csv_artifact_name ts_next_day)), (''data'', PBytes (utf8_bytes [97, 44, 98])),
          (''loaded_at'', PStr (isoformat ts_next_day))]"
proof -
  have v: "ts_valid ts_morning" "ts_valid ts_next_day" "ts_fields ts_morning < ts_fields ts_next_day"
    by (simp_all add: ts_valid_def ts_fields_def ts_morning_def ts_next_day_def)
  have other: "\<not> csv_match default_pattern ''notes.txt''" by code_simp
  have scalar: "list_all py_scalar [97, 44, 98]" by (simp add: py_scalar_def is_surrogate_def)
  show ?thesis
    using mem_save_then_latest [of "\<lambda>_. ts_next_day" "[97, 44, 98]"
        "[(csv_artifact_name ts_morning, [PBytes []]), (''notes.txt'', [PNone])]"]
      v other scalar by auto
qed

text \<open>C21: After a save to the in-process store, \<open>get_artifact_metadata\<close> of the saved
  name finds it and reports as its size the byte length \<open>save_csv_artifact\<close> reported.\<close>

theorem mem_save_then_metadata:
  assumes "artifact_target clk fn = (name, i)" and "list_all py_scalar content"
  shows "get_artifact_metadata mem_ctx (snd (save_csv_artifact mem_ctx st clk content fn)) clk' name =
           PDict [(''status'', PStr ''found''), (''filename'', PStr name),
                  (''size'', PInt (int (length (utf8_bytes content)))),
                  (''type'', PStr (if suffix ''.csv'' name then ''csv'' else ''unknown'')),
                  (''checked_at'', PStr (isoformat (clk' 0)))]"
  unfolding save_csv_artifact_mem [OF assms]
  by (simp add: get_artifact_metadata_def mem_ctx_def keys_mem_put mem_load_put_newest)

theorem mem_save_then_metadata_witness:
  "get_artifact_metadata mem_ctx (snd (save_csv_artifact mem_ctx [] (\<lambda>_. ts_morning) [97, 44, 98] (Some ''x.csv'')))
     (\<lambda>_. ts_morning) ''x.csv'' =
   PDict [(''status'', PStr ''found''), (''filename'', PStr ''x.csv''), (''size'', PInt 3),
          (''type'', PStr ''csv''), (''checked_at'', PStr (isoformat ts_morning))]"
proof -
  have b: "length (utf8_bytes [97, 44, 98]) = 3" by (simp add: utf8_bytes_def utf8_cp_values_def)
  have s: "suffix ''.csv'' ''x.csv''" by code_simp
  have scalar: "list_all py_scalar [97, 44, 98]" by (simp add: py_scalar_def is_surrogate_def)
  show ?thesis
    using mem_save_then_metadata [of "\<lambda>_. ts_morning" "Some ''x.csv''" "''x.csv''" 0 "[97, 44, 98]" "[]"
        "\<lambda>_. ts_morning"] scalar
    by (simp add: artifact_target_def b s)
qed

text \<open>C25: On a listing in sorted order, \<open>get_latest_csv_artifact\<close> is the spec's lookup
  (section 4.5): it returns the lexicographically greatest name that matches, with its data,
  and \<open>None\<close> when none matches.\<close>

theorem get_latest_csv_artifact_sorted:
  assumes "ctx_list_artifacts ctx st = Inr artifacts" "sorted artifacts"
    and "\<forall>a \<in> set artifacts. ctx_load_artifact ctx st a None = Inr (data a)"
  shows "get_latest_csv_artifact ctx st clk pat =
           (case latest_match pat artifacts of
              None \<Rightarrow> PNone
            | Some n \<Rightarrow> PDict [(''filename'', PStr n), (''data'', data n),
                              (''loaded_at'', PStr (isoformat (clk 0)))])"
proof (cases "filter (csv_match pat) artifacts = []")
  case True
  then show ?thesis using assms(1) by (simp add: get_latest_csv_artifact_def latest_match_def)
next
  case False
  have "sorted (filter (csv_match pat) artifacts)"
    using sorted_filter [of id artifacts] assms(2) by simp
  then have last: "last (filter (csv_match pat) artifacts) = Max (set (filter (csv_match pat) artifacts))"
    using False by (rule sorted_last_Max)
  have "last (filter (csv_match pat) artifacts) \<in> set artifacts"
    using False by (metis filter_is_subset last_in_set subsetD)
  then show ?thesis
    using assms(1,3) False last by (simp add: get_latest_csv_artifact_def latest_match_def Let_def)
qed

theorem get_latest_csv_artifact_sorted_witness:
  "get_latest_csv_artifact mem_ctx
     [(''training_phrases_2.csv'', [PInt 2]), (''foo.csv'', [PInt 0]), (''training_phrases_1.csv'', [PInt 1])]
     (\<lambda>_. ts_morning) ''training_phrases'' =
   PDict [(''filename'', PStr ''training_phrases_2.csv''), (''data'', PInt 2),
          (''loaded_at'', PStr (isoformat ts_morning))]"
proof -
  let ?st = "[(''training_phrases_2.csv'', [PInt 2]), (''foo.csv'', [PInt 0]),
              (''training_phrases_1.csv'', [PInt 1])]"
  let ?names = "[''foo.csv'', ''training_phrases_1.csv'', ''training_phrases_2.csv'']"
  have l: "ctx_list_artifacts mem_ctx ?st = Inr ?names" by code_simp
  have s: "sorted ?names" by code_simp
  have d: "\<forall>a \<in> set ?names.
             ctx_load_artifact mem_ctx ?st a None = Inr (case map_of ?st a of Some vs \<Rightarrow> last vs | None \<Rightarrow> PNone)"
    by (simp add: mem_ctx_def mem_load_def)
  have m: "latest_match ''training_phrases'' ?names = Some ''training_phrases_2.csv''" by code_simp
  show ?thesis
    using get_latest_csv_artifact_sorted [OF l s d, of "\<lambda>_. ts_morning" "''training_phrases''", unfolded m]
    by simp
qed

end
