(* ===== verification/Typing.thy ===== *)
theory Typing
  imports Orchestrator Init
begin

text \<open>
  The types of the values the session state holds, as the spec describes the state (section
  3: connection parameters that are strings, the metadata as a list of records, and the
  workflow keys as strings), and the conformance of a state to that schema. A type is a
  Python type with the element type of lists and the value type of dicts; \<open>TAny\<close> admits
  every value. \<open>state_typed\<close> requires every key of the schema to be present with a value
  of one of its types. The lemmas show that \<open>initialize_state_var\<close> produces a typed state
  and that an agent writing a string to a workflow key keeps it typed.
\<close>

datatype pytype = TAny | TStr | TNone | TInt | TBool | TBytes | TList pytype | TDict pytype

fun has_type :: "pyval \<Rightarrow> pytype \<Rightarrow> bool" where
  "has_type v TAny = True"
| "has_type (PStr s) TStr = True"
| "has_type PNone TNone = True"
| "has_type (PInt i) TInt = True"
| "has_type (PBool b) TBool = True"
| "has_type (PBytes bs) TBytes = True"
| "has_type (PList xs) (TList t) = (\<forall>x \<in> set xs. has_type x t)"
| "has_type (PDict d) (TDict t) = (\<forall>kv \<in> set d. has_type (snd kv) t)"
| "has_type _ _ = False"

definition env_types :: "pytype list" where
  "env_types = [TStr, TNone]"

definition state_schema :: "(string \<times> pytype list) list" where
  "state_schema =
     map (\<lambda>k. (k, env_types)) [''PROJECT'', ''BQ_LOCATION'', ''DATASET'', ''GCS_BUCKET_NAME''] @
     [(''bigquery_metadata'', [TList (TDict TAny)])] @
     map (\<lambda>k. (k, [TStr])) workflow_keys"

definition state_typed :: "sstate \<Rightarrow> bool" where
  "state_typed st =
     list_all (\<lambda>(k, ts). case st k of None \<Rightarrow> False | Some v \<Rightarrow> list_ex (has_type v) ts) state_schema"

section \<open>Lemmas\<close>

lemma state_typed_upd:
  assumes "state_typed st"
    and "\<forall>ts. (k, ts) \<in> set state_schema \<longrightarrow> list_ex (has_type v) ts"
  shows "state_typed (st(k \<mapsto> v))"
  using assms by (fastforce simp add: state_typed_def list_all_iff split: option.splits if_splits)

lemma state_typed_workflow_str:
  "state_typed st \<Longrightarrow> k \<in> set workflow_keys \<Longrightarrow> state_typed (st(k \<mapsto> PStr s))"
  by (rule state_typed_upd) (auto simp add: state_schema_def workflow_keys_def env_types_def)

lemma run_llm_agent_typed:
  "state_typed st \<Longrightarrow> output_key cfg \<in> set workflow_keys \<Longrightarrow> state_typed (snd (run_llm_agent cfg m st))"
  by (simp add: run_llm_agent_state state_typed_workflow_str split: option.splits)

lemma rows_to_dicts_typed: "\<forall>x \<in> set (rows_to_dicts rows). has_type x (TDict TAny)"
  by (simp add: rows_to_dicts_def)

lemma initialize_state_var_typed: "state_typed (initialize_state_var client environ st)"
proof -
  have env: "list_ex (has_type (opt_val v)) env_types" for v
    by (cases v) (simp_all add: opt_val_def env_types_def)
  have meta: "has_type (case bigquery_metdata_extraction_tool client p l d of
                          Inl _ \<Rightarrow> PList [] | Inr rows \<Rightarrow> PList rows) (TList (TDict TAny))" for p l d
    by (auto simp add: bigquery_metdata_extraction_tool_def rows_to_dicts_def split: sum.splits)
  show ?thesis
    using env meta
    by (simp add: state_typed_def state_schema_def workflow_keys_def initialize_state_var_env_key
        initialize_state_var_metadata initialize_state_var_workflow_key)
qed

end
