(* ===== verification/Deployment.thy ===== *)
theory Deployment
  imports Orchestrator
begin

text \<open>
  \<open>src/agent.py\<close> as data: the class \<open>NoMatchAnalysisAgent\<close> (lines 20--36) and its
  instance \<open>no_match_analysis_orchestrator\<close> (\<open>root_agent\<close>, lines 104--113). The
  instance is a pydantic model: its name, the description \<open>__init__\<close> passes to
  \<open>BaseAgent\<close>, and the four declared \<open>LlmAgent\<close> fields, each holding one of the
  configurations of theory \<open>SubAgents\<close>. \<open>__init__\<close> also installs
  \<open>initialize_state_var\<close> as the \<open>before_agent_callback\<close>; that part is the root theory's
  \<open>run_async\<close>. \<open>getattr_agent\<close> is \<open>getattr(agent, name)\<close> on the declared fields
  (\<open>None\<close> for a name the class does not declare: \<open>hasattr\<close> is false), and
  \<open>bind_agents\<close> runs every field under its language model, giving the \<open>'ev agents\<close>
  that \<open>_run_async_impl\<close> works on.
\<close>

record orchestrator_cfg =
  orch_name :: string
  orch_description :: string
  orch_conversation_data_retrieval_agent :: llm_agent_cfg
  orch_no_match_analysis_agent :: llm_agent_cfg
  orch_dialogflow_cx_parser_agent :: llm_agent_cfg
  orch_csv_generation_agent :: llm_agent_cfg

definition NoMatchAnalysisAgent ::
  "string \<Rightarrow> llm_agent_cfg \<Rightarrow> llm_agent_cfg \<Rightarrow> llm_agent_cfg \<Rightarrow> llm_agent_cfg \<Rightarrow> orchestrator_cfg" where
  "NoMatchAnalysisAgent name a1 a2 a3 a4 =
     \<lparr>orch_name = name,
      orch_description = ''Dedicated agent for no-match analysis and bot optimization with GCS artifact storage'',
      orch_conversation_data_retrieval_agent = a1, orch_no_match_analysis_agent = a2,
      orch_dialogflow_cx_parser_agent = a3, orch_csv_generation_agent = a4\<rparr>"

definition root_agent_cfg :: orchestrator_cfg where
  "root_agent_cfg =
     NoMatchAnalysisAgent ''no_match_analysis_orchestrator''
       conversation_data_retrieval_agent_cfg no_match_analysis_agent_cfg
       dialogflow_cx_parser_agent_cfg csv_generation_agent_cfg"

definition getattr_agent :: "orchestrator_cfg \<Rightarrow> string \<Rightarrow> llm_agent_cfg option" where
  "getattr_agent a n =
     (if n = ''conversation_data_retrieval_agent'' then Some (orch_conversation_data_retrieval_agent a)
      else if n = ''no_match_analysis_agent'' then Some (orch_no_match_analysis_agent a)
      else if n = ''dialogflow_cx_parser_agent'' then Some (orch_dialogflow_cx_parser_agent a)
      else if n = ''csv_generation_agent'' then Some (orch_csv_generation_agent a)
      else None)"

definition bind_agents ::
  "orchestrator_cfg \<Rightarrow> 'ev llm \<Rightarrow> 'ev llm \<Rightarrow> 'ev llm \<Rightarrow> 'ev llm \<Rightarrow> 'ev agents" where
  "bind_agents a m1 m2 m3 m4 =
     \<lparr>conversation_data_retrieval_agent = run_llm_agent (orch_conversation_data_retrieval_agent a) m1,
      no_match_analysis_agent = run_llm_agent (orch_no_match_analysis_agent a) m2,
      dialogflow_cx_parser_agent = run_llm_agent (orch_dialogflow_cx_parser_agent a) m3,
      csv_generation_agent = run_llm_agent (orch_csv_generation_agent a) m4\<rparr>"

section \<open>Lemmas\<close>

lemma root_agent_fields [simp]:
  "orch_name root_agent_cfg = ''no_match_analysis_orchestrator''"
  "orch_conversation_data_retrieval_agent root_agent_cfg = conversation_data_retrieval_agent_cfg"
  "orch_no_match_analysis_agent root_agent_cfg = no_match_analysis_agent_cfg"
  "orch_dialogflow_cx_parser_agent root_agent_cfg = dialogflow_cx_parser_agent_cfg"
  "orch_csv_generation_agent root_agent_cfg = csv_generation_agent_cfg"
  by (simp_all add: root_agent_cfg_def NoMatchAnalysisAgent_def)

lemma getattr_agent_Some_iff:
  "getattr_agent a n \<noteq> None \<longleftrightarrow>
   n \<in> {''conversation_data_retrieval_agent'', ''no_match_analysis_agent'', ''dialogflow_cx_parser_agent'',
         ''csv_generation_agent''}"
  by (simp add: getattr_agent_def)

lemma getattr_root_agent_names:
  "map (map_option agent_name \<circ> getattr_agent root_agent_cfg)
     [''conversation_data_retrieval_agent'', ''no_match_analysis_agent'', ''dialogflow_cx_parser_agent'',
      ''csv_generation_agent''] = map Some
     [''conversation_data_retrieval_agent'', ''no_match_analysis_agent'', ''dialogflow_cx_parser_agent'',
      ''csv_generation_agent'']"
  by (simp add: getattr_agent_def agent_cfg_defs)

end
