(* ===== verification/Scripts.thy ===== *)
theory Scripts
  imports Deployment Config Csv
begin

text \<open>
  The two scripts of the repository. \<open>src/verify_implementation.py\<close> runs six checks
  of the implementation and exits with status 1 unless all pass; \<open>src/run_agent.py\<close>
  builds an ADK \<open>Runner\<close> for the orchestrator, configures its artifact service and
  starts the web interface. An import \<open>from m import ...\<close> is the parameter
  \<open>imp\<close>: \<open>imp m\<close> is the exception importing module \<open>m\<close> raises, \<open>None\<close> when it
  succeeds; an imported name is the object the modelled module defines
  (\<open>root_agent_cfg\<close>, \<open>csv_generation_agent_cfg\<close>, \<open>CSV_GENERATION_INSTRUCTION_STR\<close>, the
  CSV functions of theory \<open>Csv\<close>). \<open>os.path.exists\<close> is the predicate \<open>exists\<close> on
  paths. The \<open>print\<close>s of the verification script are not modelled; a check is its
  boolean result. \<open>x in s\<close> on strings is \<open>sublist x s\<close>.
\<close>

section \<open>The verification script\<close>

definition py_import :: "(string \<Rightarrow> py_error option) \<Rightarrow> string \<Rightarrow> py_error + unit" where
  "py_import imp m = (case imp m of None \<Rightarrow> Inr () | Some e \<Rightarrow> Inl e)"

definition verify_sample_data :: "rowdict list" where
  "verify_sample_data = [[(''test'', PStr ''data''), (''value'', PStr ''example'')]]"

text \<open>\<open>verify_adk_artifact_compliance\<close>. Its call of \<open>get_artifact_service()\<close> cannot
  raise (the constructor's exception is caught there, theory \<open>Config\<close>) and its result
  is only printed, so it does not appear.\<close>

definition verify_adk_artifact_compliance :: "(string \<Rightarrow> py_error option) \<Rightarrow> bool" where
  "verify_adk_artifact_compliance imp =
     except_false
      (py_bind (py_import imp ''artifact_config'') (\<lambda>_.
       py_bind (py_import imp ''artifact_utils'') (\<lambda>_.
       py_bind (create_csv_content_from_data verify_sample_data) (\<lambda>csv_content.
       py_bind (py_assert (sublist ''test'' csv_content) ''CSV generation failed'') (\<lambda>_.
       py_bind (py_assert (sublist ''data'' csv_content) ''CSV generation failed'') (\<lambda>_.
       py_bind generate_sample_csv (\<lambda>sample_csv.
       py_bind (py_assert (sublist ''Intent Name'' sample_csv) ''Sample CSV generation failed'') (\<lambda>_.
       py_assert (sublist ''AccountSuspensionIntent'' sample_csv) ''Sample CSV missing expected content''))))))))"

definition required_agents :: "string list" where
  "required_agents =
     [''conversation_data_retrieval_agent'', ''no_match_analysis_agent'', ''dialogflow_cx_parser_agent'',
      ''csv_generation_agent'']"

text \<open>\<open>verify_agent_structure\<close>, on the imported orchestrator \<open>a\<close>. The tests
  \<open>hasattr(x, 'name')\<close> hold of every agent (a declared field of \<open>BaseAgent\<close>) and do
  not appear.\<close>

definition verify_agent_structure :: "(string \<Rightarrow> py_error option) \<Rightarrow> orchestrator_cfg \<Rightarrow> bool" where
  "verify_agent_structure imp a =
     except_false
      (py_bind (py_import imp ''agent'') (\<lambda>_.
       py_bind (py_assert (orch_name a = ''no_match_analysis_orchestrator'') ''Incorrect agent name'') (\<lambda>_.
       py_for (\<lambda>agent_name. py_assert (getattr_agent a agent_name \<noteq> None) (''Missing '' @ agent_name))
         required_agents)))"

text \<open>\<open>verify_csv_generation_agent\<close>, on the imported \<open>csv_generation_agent\<close>.\<close>

definition verify_csv_generation_agent :: "(string \<Rightarrow> py_error option) \<Rightarrow> llm_agent_cfg \<Rightarrow> bool" where
  "verify_csv_generation_agent imp cfg =
     except_false
      (py_bind (py_import imp ''sub_agents.csv_generation_agent.agent'') (\<lambda>_.
       py_bind (py_assert (agent_name cfg = ''csv_generation_agent'') ''Incorrect CSV agent name'') (\<lambda>_.
       py_bind (py_assert (agent_model cfg = ''gemini-2.5-flash'') ''Incorrect model'') (\<lambda>_.
       py_assert (output_key cfg = ''csv_generation_output'') ''Incorrect output key''))))"

text \<open>\<open>verify_prompt_instructions\<close>, on the imported \<open>CSV_GENERATION_INSTRUCTION_STR\<close>.\<close>

definition verify_prompt_instructions :: "(string \<Rightarrow> py_error option) \<Rightarrow> string \<Rightarrow> bool" where
  "verify_prompt_instructions imp instr =
     except_false
      (py_bind (py_import imp ''sub_agents.csv_generation_agent.prompts'') (\<lambda>_.
       py_bind (py_assert (sublist ''ctx.save_artifact'' instr) ''Missing ctx.save_artifact instruction'') (\<lambda>_.
       py_bind (py_assert (sublist (''mime_type='' @ [CHR 0x22] @ ''text/csv'' @ [CHR 0x22]) instr)
                  ''Missing MIME type instruction'') (\<lambda>_.
       py_bind (py_assert (sublist ''ADK context'' instr) ''Missing ADK context reference'') (\<lambda>_.
       py_assert (\<not> sublist ''gcs_csv_artifact_tool'' instr) ''Should not reference old tool'')))))"

definition required_files :: "string list" where
  "required_files =
     [''agent.py'', ''artifact_config.py'', ''artifact_utils.py'', ''run_agent.py'', ''test_agent.py'',
      ''test_integration.py'', ''requirements.txt'', ''README.md'', ''QUICKSTART.md'', ''FINAL_SETUP.md'',
      ''sub_agents/csv_generation_agent/agent.py'', ''sub_agents/csv_generation_agent/prompts.py'',
      ''tools/bigquery_tools.py'', ''tools/initialize_state.py'']"

definition incorrect_file :: string where
  "incorrect_file = ''tools/gcs_csv_artifact_tool.py''"

definition verify_file_structure :: "(string \<Rightarrow> bool) \<Rightarrow> bool" where
  "verify_file_structure exists =
     (let missing_files = filter (\<lambda>file_path. \<not> exists file_path) required_files
      in if exists incorrect_file then False
         else if missing_files \<noteq> [] then False
         else True)"

definition imported_modules :: "string list" where
  "imported_modules =
     [''agent'', ''sub_agents.conversation_data_retrieval_agent.agent'', ''sub_agents.no_match_analysis_agent.agent'',
      ''sub_agents.dialogflow_cx_parser_agent.agent'', ''sub_agents.csv_generation_agent.agent'',
      ''tools.bigquery_tools'', ''tools.initialize_state'', ''artifact_config'', ''artifact_utils'']"

definition verify_imports :: "(string \<Rightarrow> py_error option) \<Rightarrow> bool" where
  "verify_imports imp = except_false (py_for (py_import imp) imported_modules)"

text \<open>\<open>main\<close>: every check runs, in the list's order; the result is the number passed, the
  number of checks and the exit status (\<open>sys.exit(1)\<close> unless all passed).\<close>

definition verifications :: "(string \<Rightarrow> py_error option) \<Rightarrow> (string \<Rightarrow> bool) \<Rightarrow> bool list" where
  "verifications imp exists =
     [verify_file_structure exists, verify_imports imp, verify_agent_structure imp root_agent_cfg,
      verify_csv_generation_agent imp csv_generation_agent_cfg,
      verify_prompt_instructions imp CSV_GENERATION_INSTRUCTION_STR, verify_adk_artifact_compliance imp]"

definition verify_main :: "(string \<Rightarrow> py_error option) \<Rightarrow> (string \<Rightarrow> bool) \<Rightarrow> nat \<times> nat \<times> nat" where
  "verify_main imp exists =
     (let results = verifications imp exists;
          passed = length (filter id results);
          total = length results
      in (passed, total, if passed = total then 0 else 1))"

section \<open>The runner script\<close>

text \<open>\<open>src/run_agent.py\<close>. Python's \<open>KeyboardInterrupt\<close> is not an \<open>Exception\<close>, so
  the two \<open>except\<close> clauses of \<open>main\<close> catch different things: \<open>base_exc\<close> is a
  \<open>BaseException\<close>, either the interrupt or an ordinary exception. The ADK \<open>Runner\<close>
  constructor (\<open>Runner(agent=...)\<close>) and \<open>runner.web()\<close> are the parameters
  \<open>Runner\<close> and \<open>web\<close>; \<open>web\<close> returns \<open>None\<close> when the server returns. The
  messages printed are the datatype \<open>run_msg\<close>, in order; \<open>MsgError\<close> carries the
  \<open>str(e)\<close> that \<open>main\<close> prints. A failed import at the top of the script is not
  caught: Python prints the traceback and exits with status 1. The result is the list of
  messages and the exit status.\<close>

datatype base_exc = KeyboardInterrupt | Exc py_error

datatype run_msg =
    MsgStarting | MsgConfigured | MsgStartingWeb | MsgStopHint | MsgStopped
  | MsgError string | MsgTraceback string

definition run_agent_imports :: "string list" where
  "run_agent_imports = [''google.adk'', ''agent'', ''artifact_config'']"

definition run_agent_main ::
  "(string \<Rightarrow> py_error option) \<Rightarrow> env \<Rightarrow> gcs_ctor \<Rightarrow> (orchestrator_cfg \<Rightarrow> base_exc + 'a runner_scheme) \<Rightarrow>
   ('a runner_scheme \<Rightarrow> base_exc option) \<Rightarrow> run_msg list \<times> nat" where
  "run_agent_main imp environ gcs Runner web =
     (case py_for (py_import imp) run_agent_imports of
        Inl e \<Rightarrow> ([MsgTraceback (exc_str e)], 1)
      | Inr _ \<Rightarrow>
          (case Runner root_agent_cfg of
             Inl KeyboardInterrupt \<Rightarrow> ([MsgStarting, MsgStopped], 0)
           | Inl (Exc e) \<Rightarrow> ([MsgStarting, MsgError (exc_str e)], 1)
           | Inr runner \<Rightarrow>
               (let runner = configure_artifact_service_for_runner environ gcs runner;
                    msgs = [MsgStarting, MsgConfigured, MsgStartingWeb, MsgStopHint]
                in case web runner of
                     None \<Rightarrow> (msgs, 0)
                   | Some KeyboardInterrupt \<Rightarrow> (msgs @ [MsgStopped], 0)
                   | Some (Exc e) \<Rightarrow> (msgs @ [MsgError (exc_str e)], 1))))"

section \<open>Lemmas\<close>

lemma py_import_Inr_iff [py_return_iff]: "py_import imp m = Inr u \<longleftrightarrow> imp m = None"
  by (simp add: py_import_def split: option.splits)

lemma verify_csv_content:
  "create_csv_content_from_data verify_sample_data = Inr (''test,value'' @ crlf @ ''data,example'' @ crlf)"
  by (simp add: verify_sample_data_def create_csv_content_from_data_def dict_writeheader_def
      dict_writerow_def dict_to_list_def csv_writerow_def csv_field_def csv_special_def csv_str_def
      comma_def quote_def crlf_def)

lemma verify_sample_csv_checks:
  "py_bind generate_sample_csv (\<lambda>sample_csv.
     py_bind (py_assert (sublist ''Intent Name'' sample_csv) ''Sample CSV generation failed'') (\<lambda>_.
     py_assert (sublist ''AccountSuspensionIntent'' sample_csv) ''Sample CSV missing expected content'')) = Inr ()"
  unfolding generate_sample_csv_def sample_data_def by code_simp

lemma verify_adk_artifact_compliance_iff:
  "verify_adk_artifact_compliance imp \<longleftrightarrow> imp ''artifact_config'' = None \<and> imp ''artifact_utils'' = None"
  unfolding verify_adk_artifact_compliance_def verify_csv_content
  by (simp add: except_false_iff py_import_def verify_sample_csv_checks sublist_code crlf_def
      split: option.splits)

lemma verify_agent_structure_iff: "verify_agent_structure imp root_agent_cfg \<longleftrightarrow> imp ''agent'' = None"
  by (simp add: verify_agent_structure_def py_return_iff getattr_agent_def required_agents_def)

lemma verify_csv_generation_agent_iff:
  "verify_csv_generation_agent imp csv_generation_agent_cfg \<longleftrightarrow> imp ''sub_agents.csv_generation_agent.agent'' = None"
  by (simp add: verify_csv_generation_agent_def py_return_iff csv_generation_agent_cfg_def)

lemma csv_instruction_checks:
  "sublist ''ctx.save_artifact'' CSV_GENERATION_INSTRUCTION_STR"
  "sublist (''mime_type='' @ [CHR 0x22] @ ''text/csv'' @ [CHR 0x22]) CSV_GENERATION_INSTRUCTION_STR"
  "sublist ''ADK context'' CSV_GENERATION_INSTRUCTION_STR"
  "\<not> sublist ''gcs_csv_artifact_tool'' CSV_GENERATION_INSTRUCTION_STR"
  unfolding CSV_GENERATION_INSTRUCTION_STR_def
    apply (rule sublist_concat_member [OF csv_save_artifact_line], simp add: sublist_code)
   apply (rule sublist_concat_member [OF csv_save_artifact_line], simp add: sublist_code)
  apply (rule sublist_concat_member [OF csv_adk_context_line], simp add: sublist_code)
  apply (subst sublist_concat_lines [OF _ _ csv_instruction_newlines];
         simp add: CSV_GENERATION_INSTRUCTION_STR_LINES_def sublist_code)
  done

lemma verify_prompt_instructions_iff:
  "verify_prompt_instructions imp CSV_GENERATION_INSTRUCTION_STR \<longleftrightarrow> imp ''sub_agents.csv_generation_agent.prompts'' = None"
  by (simp add: verify_prompt_instructions_def py_return_iff csv_instruction_checks [simplified])

lemma verify_imports_iff: "verify_imports imp \<longleftrightarrow> (\<forall>m \<in> set imported_modules. imp m = None)"
  by (simp add: verify_imports_def py_return_iff)

lemma verify_file_structure_iff:
  "verify_file_structure exists \<longleftrightarrow> list_all exists required_files \<and> \<not> exists incorrect_file"
  by (auto simp add: verify_file_structure_def Let_def filter_empty_conv list_all_iff)

lemmas verify_checks_iff =
  verify_file_structure_iff verify_imports_iff verify_agent_structure_iff verify_csv_generation_agent_iff
  verify_prompt_instructions_iff verify_adk_artifact_compliance_iff

lemma length_filter_id_eq: "length (filter id xs) = length xs \<longleftrightarrow> (\<forall>x \<in> set xs. x)"
proof
  assume "length (filter id xs) = length xs"
  then show "\<forall>x \<in> set xs. x" using length_filter_less [of _ xs id] by fastforce
qed (simp add: filter_True)

lemma verify_main_results:
  "verify_main imp exists = (let passed = length (filter id (verifications imp exists)) in (passed, 6, if passed = 6 then 0 else 1))"
  by (simp add: verify_main_def verifications_def Let_def)

lemma configure_runner_eq:
  "artifact_service r' = Some (get_artifact_service environ gcs) \<Longrightarrow> runner.more r' = runner.more r \<Longrightarrow>
   r' = configure_artifact_service_for_runner environ gcs r"
  by (cases r') (simp add: configure_artifact_service_for_runner_def)

section \<open>Properties of the scripts\<close>

text \<open>C27: Run on the repository's code, the verification script reports six checks and
  exits with status 0 exactly when the fourteen required files exist, the old tool file
  \<open>tools/gcs_csv_artifact_tool.py\<close> does not, and every module it imports imports:
  every assertion the script makes about the agents, the CSV instruction and the CSV
  helpers holds of the modelled code.\<close>

theorem verify_main_exit_iff:
  "fst (snd (verify_main imp exists)) = 6 \<and>
   (snd (snd (verify_main imp exists)) = 0 \<longleftrightarrow>
      list_all exists required_files \<and> \<not> exists incorrect_file \<and>
      (\<forall>m \<in> set (''sub_agents.csv_generation_agent.prompts'' # imported_modules). imp m = None))"
  by (auto simp: verify_main_results verifications_def verify_checks_iff length_filter_id_eq
      imported_modules_def)

theorem verify_main_exit_iff_witness:
  "snd (snd (verify_main (\<lambda>m. None) (\<lambda>p. p \<in> set required_files))) = 0"
  using verify_main_exit_iff [of "\<lambda>m. None" "\<lambda>p. p \<in> set required_files"]
  by (simp add: list_all_iff incorrect_file_def required_files_def)

text \<open>C28: When the module \<open>agent\<close> fails to import, two checks fail (the import check
  and the agent-structure check): at most four of six pass and the script exits with
  status 1.\<close>

theorem verify_main_agent_import_error:
  assumes "imp ''agent'' = Some e"
  shows "fst (verify_main imp exists) \<le> 4 \<and> snd (snd (verify_main imp exists)) = 1"
proof -
  have "\<not> verify_imports imp" "\<not> verify_agent_structure imp root_agent_cfg"
    using assms by (simp_all add: verify_imports_iff verify_agent_structure_iff imported_modules_def)
  then show ?thesis
    by (simp add: verify_main_results verifications_def Let_def)
qed

theorem verify_main_agent_import_error_witness:
  "fst (verify_main (\<lambda>m. if m = ''agent'' then Some (ImportError ''No module named google'') else None)
        (\<lambda>p. True)) \<le> 4"
  using verify_main_agent_import_error
    [of "\<lambda>m. if m = ''agent'' then Some (ImportError ''No module named google'') else None"]
  by simp

text \<open>C29: \<open>verify_csv_generation_agent\<close> checks the agent's name, model and output key
  and nothing else: its result does not depend on the agent's tools, instruction or
  description, although its comment and its message say that it checks the agent has no
  tools.\<close>

theorem verify_csv_agent_ignores_tools:
  "verify_csv_generation_agent imp (cfg\<lparr>agent_tools := ts, instruction := i, agent_description := d\<rparr>) =
   verify_csv_generation_agent imp cfg"
  by (simp add: verify_csv_generation_agent_def)

text \<open>C30: \<open>run_agent.py\<close> exits with status 1 exactly when an import at its top fails,
  the \<open>Runner\<close> constructor raises an exception, or the web server raises one; a
  \<open>KeyboardInterrupt\<close> at either point ends it with status 0.\<close>

theorem run_agent_main_exit_status:
  "snd (run_agent_main imp environ gcs Runner web) = 1 \<longleftrightarrow>
   (\<exists>m \<in> set run_agent_imports. imp m \<noteq> None) \<or> (\<exists>e. Runner root_agent_cfg = Inl (Exc e)) \<or>
   (\<exists>r e. Runner root_agent_cfg = Inr r \<and>
           web (configure_artifact_service_for_runner environ gcs r) = Some (Exc e))"
  by (auto simp: run_agent_main_def run_agent_imports_def py_import_def Let_def
      split: option.splits sum.splits base_exc.splits)

theorem run_agent_main_exit_status_witness:
  "run_agent_main (\<lambda>m. None) Map.empty (\<lambda>b. None)
     (\<lambda>a. Inl (Exc (TypeError ''missing required argument: session_service'')) :: base_exc + runner)
     (\<lambda>r. None) =
   ([MsgStarting, MsgError ''missing required argument: session_service''], 1)"
  using run_agent_main_exit_status [of "\<lambda>m. None" Map.empty "\<lambda>b. None"
      "\<lambda>a. Inl (Exc (TypeError ''missing required argument: session_service'')) :: base_exc + runner"
      "\<lambda>r. None"]
  by (simp add: run_agent_main_def run_agent_imports_def py_import_def)

text \<open>C31: The web server is started only on the configured runner: once the runner is
  built, the script's outcome depends on \<open>runner.web()\<close> only at the runner whose
  artifact service is the one \<open>get_artifact_service\<close> chooses, and which is otherwise
  the runner built.\<close>

theorem run_agent_web_configured:
  assumes "Runner root_agent_cfg = Inr r"
    and "\<forall>r'. artifact_service r' = Some (get_artifact_service environ gcs) \<and> runner.more r' = runner.more r
              \<longrightarrow> web r' = web' r'"
  shows "run_agent_main imp environ gcs Runner web = run_agent_main imp environ gcs Runner web'"
proof -
  have "web (configure_artifact_service_for_runner environ gcs r) =
        web' (configure_artifact_service_for_runner environ gcs r)"
    using assms(2) configure_artifact_service_for_runner_sets [of environ gcs r] by blast
  with assms(1) show ?thesis by (simp add: run_agent_main_def Let_def split: sum.splits)
qed

theorem run_agent_web_configured_witness:
  "run_agent_main (\<lambda>m. None) Map.empty (\<lambda>b. None) (\<lambda>a. Inr \<lparr>artifact_service = None\<rparr>)
     (\<lambda>r. if artifact_service r = Some InMemoryArtifactService then None
          else Some (Exc (ValueError ''no artifact service''))) =
   run_agent_main (\<lambda>m. None) Map.empty (\<lambda>b. None) (\<lambda>a. Inr \<lparr>artifact_service = None\<rparr>) (\<lambda>r. None)"
  using run_agent_web_configured [of "\<lambda>a. Inr \<lparr>artifact_service = None\<rparr>" "\<lparr>artifact_service = None\<rparr>"
      Map.empty "\<lambda>b. None"
      "\<lambda>r. if artifact_service r = Some InMemoryArtifactService then None
           else Some (Exc (ValueError ''no artifact service''))" "\<lambda>r. None" "\<lambda>m. None"]
  by (simp add: get_artifact_service_unset)

end
