(* ===== verification/Spec2Isabelle.thy ===== *)
theory Spec2Isabelle
  imports Workflow Config Csv Artifacts Typing Scripts
begin

text \<open>
  \<^bold>\<open>A verification library for the no-match analysis agent.\<close>

  \<^emph>\<open>The program.\<close> The repository is a Google ADK agent. Its orchestrator
  \<open>NoMatchAnalysisAgent\<close> (\<open>src/agent.py\<close>) runs four LLM sub-agents in sequence
  (conversation-data retrieval, no-match analysis, an optional Dialogflow CX parser, CSV
  generation, \<open>src/sub_agents/*/agent.py\<close>), relays every event they yield, and after
  each one reads the agent's output key from the shared session state and stops early
  when it is empty. Each sub-agent's instruction (\<open>src/sub_agents/*/prompts.py\<close>) names
  state keys in braces, which ADK replaces by their values before every model call.
  Before the run, the callback \<open>initialize_state_var\<close> (\<open>src/tools/initialize_state.py\<close>)
  copies the environment into the state, seeds the BigQuery metadata through
  \<open>src/tools/bigquery_tools.py\<close> and resets the workflow keys.
  \<open>src/artifact_config.py\<close> chooses the artifact store and \<open>src/artifact_utils.py\<close>
  holds the CSV writer and the artifact helpers. The components interact only through
  the session state (a dict of string keys) and through the events relayed upwards.

  \<^emph>\<open>The theories.\<close>
  \<^item> \<open>Prelude\<close>: Python values (\<open>pyval\<close>, bytes as \<open>8 word\<close> lists), \<open>truthy\<close>,
    \<open>len\<close> (\<open>py_len\<close>, a \<open>TypeError\<close> on values without length), exceptions
    (\<open>py_error\<close>), the session state \<open>sstate = string \<rightharpoonup> pyval\<close> read by
    \<open>state_get\<close> (\<open>dict.get\<close>), dicts built from items (\<open>py_dict\<close>), decimal digits.
  \<^item> \<open>PyRepr\<close>: \<open>repr\<close> and \<open>str\<close> of these values and of exceptions, as CPython prints them.
  \<^item> \<open>Instructions\<close>: the four instructions, character for character, as the lists of
    their lines, and ADK's \<open>inject_session_state\<close> (the \<open>{+[^{}]*}+\<close> substitution,
    \<open>KeyError\<close> for a missing non-optional key). \<open>placeholders\<close> and
    \<open>instruction_reads\<close> give what an instruction reads; \<open>inject_Inr_iff\<close> shows that
    injection succeeds exactly when those keys are defined; \<open>scan_closed\<close> lines let
    scanning go line by line (\<open>inject_concat\<close>), which is how the long texts are evaluated.
  \<^item> \<open>SubAgents\<close>: an agent is \<open>sstate \<Rightarrow> 'ev list \<times> sstate\<close>; the language
    model is a free parameter \<open>'ev llm\<close>; \<open>run_llm_agent\<close> is ADK's \<open>output_key\<close>
    behaviour and \<open>run_instructed_agent\<close> the same run behind the state injection; the
    four configurations are the four \<open>LlmAgent\<close> declarations. The interface predicates
    \<open>writes_only\<close> (here) and \<open>preserves_strs\<close> (in \<open>Orchestrator\<close>) are what the
    orchestrator's lemmas assume of an agent and what \<open>run_llm_agent\<close> discharges.
  \<^item> \<open>Orchestrator\<close>: \<open>run_async_impl\<close> is \<open>_run_async_impl\<close> line by line, as a
    function to the trace of \<open>'ev obs\<close> (yield, logger call, exception) and the final
    state; \<open>step_and_read\<close> is one "run agent, relay, read key, log length" block;
    \<open>run_async_impl_invariant\<close> carries any state property the agents preserve;
    \<open>probes\<close> replaces each agent by one that yields its own name, which makes the
    calls \<open>_run_async_impl\<close> makes visible.
  \<^item> \<open>Workflow\<close>: the specification's phase machine (spec section 4.1) as the
    inductive relation \<open>orch_step\<close>, its step function \<open>orch_next\<close>, a fuelled run
    \<open>orch_run\<close>, determinism, the machine's bound of five transitions and the
    refinement of the machine by the code.
  \<^item> \<open>BigQuery\<close>, \<open>Init\<close>: the SQL text of the metadata query, both tools over an
    abstract client \<open>bq_client\<close>, and the callback \<open>initialize_state_var\<close>.
  \<^item> \<open>Typing\<close>: the types of Python values and the schema of the state of spec
    section 3, with \<open>state_typed\<close> and its preservation.
  \<^item> \<open>Config\<close>: \<open>get_artifact_service\<close> and \<open>configure_artifact_service_for_runner\<close>.
  \<^item> \<open>Csv\<close>: \<open>csv.DictWriter\<close> (excel dialect, minimal quoting, CRLF) and
    \<open>create_csv_content_from_data\<close>, with a reference reader for the round trip.
  \<^item> \<open>Timestamp\<close>, \<open>Utf8\<close>, \<open>Artifacts\<close>: \<open>datetime\<close> readings with
    \<open>strftime\<close>/\<open>isoformat\<close>; \<open>str.encode('utf-8')\<close> of a Python \<open>str\<close> given as its
    code points (\<open>pystr\<close>, surrogates included) to \<open>8 word\<close> bytes; the five
    artifact helpers over the record \<open>artifact_ctx\<close> of the context's
    list/load/save calls (each may raise), \<open>datetime.now()\<close> as a clock of readings,
    and \<open>mem_ctx\<close>, an in-process store, for the round trips.
  \<^item> \<open>Deployment\<close>: the class \<open>NoMatchAnalysisAgent\<close> and its instance as data
    (\<open>root_agent_cfg\<close>: name, description and the four \<open>LlmAgent\<close> fields), attribute
    access by name (\<open>getattr_agent\<close>) and \<open>bind_agents\<close>, which runs each field
    under its model; \<open>deployed_agents_root_agent\<close> (here) identifies the result with
    the agents \<open>_run_async_impl\<close> is given.
  \<^item> \<open>Scripts\<close>: \<open>src/verify_implementation.py\<close> (its six checks and \<open>main\<close>, over
    a parameter \<open>imp\<close> for imports and a predicate \<open>exists\<close> for
    \<open>os.path.exists\<close>) and \<open>src/run_agent.py\<close> (\<open>main\<close>, over the \<open>Runner\<close>
    constructor and \<open>runner.web()\<close> as parameters that may raise an exception or a
    \<open>KeyboardInterrupt\<close>). Blocks of statements that may raise are composed with the
    prelude's \<open>py_bind\<close>, \<open>py_assert\<close>, \<open>py_for\<close> and \<open>except_false\<close>.
  \<^item> this theory: the deployed instance \<open>no_match_analysis_orchestrator\<close> and
    \<open>run_async\<close> (callback, then \<open>_run_async_impl\<close>), and the properties that span
    components.

  \<^emph>\<open>What the lemmas show.\<close>
  \<^item> Orchestration: the generator yields exactly the sub-agents' events, in order, and
    refines the spec's machine (C1); it stops at the first empty output (C3, C4); the
    step-3 branch follows the bot-configuration key (C5, C6); it calls each agent at most
    once, in the code's order (C7); and if the agents answer, every run completes (C24).
  \<^item> The deployed workflow: the callback's reset of \<open>dialogflow_bot_json\<close> makes the
    parser step irrelevant (C2), so the CSV agent is always shown an empty bot structure
    (C23); the run never raises (C8); every final state conforms to the spec's schema
    (C26); the metadata query's failure is absorbed (C9); state injection never raises for
    a deployed agent (C22).
  \<^item> Artifact store selection (C10, C11); the CSV writer's round trip, error condition
    and empty output (C12, C13).
  \<^item> Artifacts: the generated name and success dict (C14, C15), the reported size's
    bounds (C16), the error dicts of a failed save and of an unencodable content (C17,
    C32), names ordered as time (C18), the latest lookup (C19) and its equivalence with the
    spec's lexicographic lookup on sorted listings (C25), and the save-then-read round
    trips on the in-process store (C20, C21).
  \<^item> Scripts: the verification script exits with status 0 exactly when its files are
    present and its imports succeed, since every assertion it makes holds of the modelled
    code (C27); a failed import of \<open>agent\<close> fails two checks (C28); the CSV-agent check
    never looks at the tools (C29); the runner script's exit status (C30), and the web
    server runs only on the configured runner (C31).

  \<^emph>\<open>Bounds and fuel.\<close> \<open>orch_run\<close> takes fuel 5: \<open>phase_rank\<close> decreases with every
  transition and is 5 at INIT, so 5 reaches a terminal phase (\<open>orch_run_terminal\<close>).
  The CSV reader, \<open>inject_session_state\<close> and \<open>placeholders\<close> are functions with a
  length measure. Timestamps are valid \<open>datetime\<close>s with years 1000 to 9999, so every
  field fits its fixed width. For code points below 0x110000 every byte value the UTF-8
  encoder computes is below 256, so no \<open>8 word\<close> wraps (\<open>unat_utf8_bytes\<close>).

  \<^emph>\<open>Not modelled.\<close> The language model (an arbitrary function of the state and the
  injected instruction); ADK's runtime beyond \<open>output_key\<close>, state injection and an
  in-process artifact store, which are modelled from ADK's documented behaviour; the
  BigQuery and Cloud Storage clients (parameters); \<open>print\<close> and logging output (the
  runner script's messages excepted); Python's import machinery (the parameter
  \<open>imp\<close>: a module's import is not tied to the imports of the modules it imports); and
  the test scripts \<open>src/test_agent.py\<close> and \<open>src/test_integration.py\<close>, which import
  the modules and print what they find; their CSV assertions are the examples of theory
  \<open>Csv\<close>.
\<close>

section \<open>The deployed orchestrator\<close>

text \<open>\<open>src/agent.py\<close> lines 104--113: the orchestrator instance \<open>root_agent\<close>, whose
  four fields are the LLM agents of \<open>src/sub_agents\<close>, each bound to its output key.\<close>

definition no_match_analysis_orchestrator :: "'ev llm \<Rightarrow> 'ev llm \<Rightarrow> 'ev llm \<Rightarrow> 'ev llm \<Rightarrow> 'ev agents" where
  "no_match_analysis_orchestrator m1 m2 m3 m4 =
     \<lparr>conversation_data_retrieval_agent = run_llm_agent conversation_data_retrieval_agent_cfg m1,
      no_match_analysis_agent = run_llm_agent no_match_analysis_agent_cfg m2,
      dialogflow_cx_parser_agent = run_llm_agent dialogflow_cx_parser_agent_cfg m3,
      csv_generation_agent = run_llm_agent csv_generation_agent_cfg m4\<rparr>"

text \<open>\<open>BaseAgent.run_async\<close> of the orchestrator: the \<open>before_agent_callback\<close> the
  constructor installs (\<open>initialize_state_var\<close>, \<open>src/agent.py\<close> lines 30--36) runs
  first and returns \<open>None\<close>, so \<open>_run_async_impl\<close> follows on the initialised state.\<close>

definition run_async :: "bq_client \<Rightarrow> env \<Rightarrow> 'ev agents \<Rightarrow> sstate \<Rightarrow> 'ev obs list \<times> sstate" where
  "run_async client environ A st = run_async_impl A (initialize_state_var client environ st)"

section \<open>Lemmas\<close>

lemma run_llm_agent_preserves_strs: "preserves_strs ks (run_llm_agent cfg m)"
  by (auto simp: preserves_strs_def str_keys_def run_llm_agent_state split: option.splits)

lemma deployed_preserves_strs:
  "preserves_strs ks (conversation_data_retrieval_agent (no_match_analysis_orchestrator m1 m2 m3 m4))"
  "preserves_strs ks (no_match_analysis_agent (no_match_analysis_orchestrator m1 m2 m3 m4))"
  "preserves_strs ks (dialogflow_cx_parser_agent (no_match_analysis_orchestrator m1 m2 m3 m4))"
  "preserves_strs ks (csv_generation_agent (no_match_analysis_orchestrator m1 m2 m3 m4))"
  by (simp_all add: no_match_analysis_orchestrator_def run_llm_agent_preserves_strs)

lemma deployed_writes_only:
  "writes_only conv_key (conversation_data_retrieval_agent (no_match_analysis_orchestrator m1 m2 m3 m4))"
  "writes_only analysis_key (no_match_analysis_agent (no_match_analysis_orchestrator m1 m2 m3 m4))"
  using run_llm_agent_writes_only [of conversation_data_retrieval_agent_cfg m1]
    run_llm_agent_writes_only [of no_match_analysis_agent_cfg m2]
  by (simp_all add: no_match_analysis_orchestrator_def agent_cfg_defs)

lemma initialize_state_var_str_keys: "str_keys out_keys (initialize_state_var client environ st)"
  by (auto simp: str_keys_def out_keys_def initialize_state_var_workflow_key workflow_keys_def)

lemma deployed_agents_root_agent:
  "no_match_analysis_orchestrator m1 m2 m3 m4 = bind_agents root_agent_cfg m1 m2 m3 m4"
  by (simp add: no_match_analysis_orchestrator_def bind_agents_def)

lemma deployed_parser_update:
  "no_match_analysis_orchestrator m1 m2 m3' m4 =
     (no_match_analysis_orchestrator m1 m2 m3 m4)
       \<lparr>dialogflow_cx_parser_agent := run_llm_agent dialogflow_cx_parser_agent_cfg m3'\<rparr>"
  by (simp add: no_match_analysis_orchestrator_def)

section \<open>Properties of the deployed workflow\<close>

text \<open>C2: In the deployed workflow the Dialogflow CX parser never influences anything:
  \<open>initialize_state_var\<close> resets \<open>dialogflow_bot_json\<close> to the empty string before
  \<open>_run_async_impl\<close> starts, and neither the retrieval nor the analysis agent writes that
  key, so the branch of step 3 is never taken. The whole run, trace and final state, is
  the same whatever model the parser agent uses.\<close>

theorem deployed_parser_irrelevant:
  "run_async client environ (no_match_analysis_orchestrator m1 m2 m3' m4) st =
   run_async client environ (no_match_analysis_orchestrator m1 m2 m3 m4) st"
proof -
  let ?A = "no_match_analysis_orchestrator m1 m2 m3 m4"
  let ?ini = "initialize_state_var client environ st"
  obtain evs1 st1 where 1: "conversation_data_retrieval_agent ?A ?ini = (evs1, st1)" by fastforce
  obtain evs2 st2 where 2: "no_match_analysis_agent ?A st1 = (evs2, st2)" by fastforce
  have "snd (conversation_data_retrieval_agent ?A ?ini) bot_json_key = ?ini bot_json_key"
    by (rule writes_onlyD [OF deployed_writes_only(1)]) simp
  with 1 have "st1 bot_json_key = Some empty_str" by simp
  have "snd (no_match_analysis_agent ?A st1) bot_json_key = st1 bot_json_key"
    by (rule writes_onlyD [OF deployed_writes_only(2)]) simp
  with 2 \<open>st1 bot_json_key = Some empty_str\<close> have "st2 bot_json_key = Some empty_str" by simp
  then have "\<not> truthy (state_get st2 bot_json_key empty_str)" by (simp add: state_get_def)
  from run_async_impl_parser_irrelevant [OF 1 2 this]
  show ?thesis by (simp add: run_async_def deployed_parser_update [of m1 m2 m3' m4 m3])
qed

text \<open>Sample language models for the examples: every call yields one event and answers
  with a fixed text; and a BigQuery client that is offline.\<close>

definition demo_llm :: "string \<Rightarrow> nat llm" where
  "demo_llm txt st = ([length txt], Some txt)"

definition offline_client :: bq_client where
  "offline_client p q = Inl (ServiceError ''503 Service Unavailable'')"

theorem deployed_parser_irrelevant_witness:
  "run_async offline_client Map.empty
     (no_match_analysis_orchestrator (demo_llm ''rows'') (demo_llm ''gaps'') (demo_llm ''flows'') (demo_llm ''csv''))
     Map.empty =
   run_async offline_client Map.empty
     (no_match_analysis_orchestrator (demo_llm ''rows'') (demo_llm ''gaps'') (demo_llm []) (demo_llm ''csv''))
     Map.empty"
  by (rule deployed_parser_irrelevant)

text \<open>C8: The deployed workflow never raises: after \<open>initialize_state_var\<close> every
  output key holds a string, every LLM agent writes a string or nothing, so each
  \<open>len(...)\<close> of \<open>_run_async_impl\<close> succeeds; the four output keys still hold strings
  when the run ends.\<close>

theorem deployed_run_no_raise:
  "(\<forall>e. Raise e \<notin> set (fst (run_async client environ (no_match_analysis_orchestrator m1 m2 m3 m4) st))) \<and>
   str_keys out_keys (snd (run_async client environ (no_match_analysis_orchestrator m1 m2 m3 m4) st))"
  unfolding run_async_def
  by (rule run_async_impl_strs [OF deployed_preserves_strs initialize_state_var_str_keys])

theorem deployed_run_no_raise_witness:
  "str_keys out_keys (snd (run_async offline_client Map.empty
     (no_match_analysis_orchestrator (demo_llm ''rows'') (demo_llm []) (demo_llm []) (demo_llm [])) Map.empty)) \<and>
   snd (run_async offline_client Map.empty
     (no_match_analysis_orchestrator (demo_llm ''rows'') (demo_llm []) (demo_llm []) (demo_llm [])) Map.empty)
     analysis_key = Some empty_str"
proof -
  let ?A = "no_match_analysis_orchestrator (demo_llm ''rows'') (demo_llm []) (demo_llm []) (demo_llm [])"
  have "snd (run_async offline_client Map.empty ?A Map.empty) analysis_key = Some empty_str"
    by (simp add: run_async_def run_async_impl_def step_and_read_def no_match_analysis_orchestrator_def
        run_llm_agent_def demo_llm_def agent_cfg_defs initialize_state_var_def Let_def)
  with deployed_run_no_raise [of offline_client Map.empty "demo_llm ''rows''" "demo_llm []"
      "demo_llm []" "demo_llm []" Map.empty]
  show ?thesis by simp
qed

section \<open>The instructions in the deployed workflow\<close>

lemma deployed_instruction_ok:
  assumes "cfg \<in> {conversation_data_retrieval_agent_cfg, no_match_analysis_agent_cfg,
                   dialogflow_cx_parser_agent_cfg, csv_generation_agent_cfg}"
  shows "list_all (\<lambda>m. \<not> is_artifact_ref m) (placeholders (instruction cfg)) \<and>
         set (instruction_reads (instruction cfg)) \<subseteq> dom (initialize_state_var client environ st0)"
  using assms
  by (auto simp add: agent_cfg_defs instruction_facts workflow_keys_def intro!: initialize_state_var_dom)

text \<open>C22: ADK's state injection never raises for a deployed agent on a state that defines
  at least the keys \<open>initialize_state_var\<close> defines (every state of a deployed run does,
  as agents only add keys): the agent runs as \<open>run_llm_agent\<close> with the model given the
  injected instruction, which is how the orchestrator model runs it.\<close>

theorem deployed_agents_inject:
  assumes "dom (initialize_state_var client environ st0) \<subseteq> dom st"
    and "cfg \<in> {conversation_data_retrieval_agent_cfg, no_match_analysis_agent_cfg,
                 dialogflow_cx_parser_agent_cfg, csv_generation_agent_cfg}"
  shows "\<exists>p. run_instructed_agent cfg M artifact_ref st = Inr (run_llm_agent cfg (M p) st)"
proof -
  have "list_all (\<lambda>m. \<not> is_artifact_ref m) (placeholders (instruction cfg))"
    "set (instruction_reads (instruction cfg)) \<subseteq> dom st"
    using deployed_instruction_ok [OF assms(2), of client environ st0] assms(1) by blast+
  then obtain p where "inject_session_state artifact_ref st (instruction cfg) = Inr p"
    using inject_Inr_iff by blast
  then show ?thesis by (auto simp add: run_instructed_agent_def)
qed

theorem deployed_agents_inject_witness:
  "\<exists>p. run_instructed_agent csv_generation_agent_cfg (\<lambda>p _. ([] :: nat list, Some p)) (\<lambda>_. Inr [])
         (initialize_state_var offline_client Map.empty Map.empty) =
       Inr (run_llm_agent csv_generation_agent_cfg (\<lambda>_. ([], Some p))
              (initialize_state_var offline_client Map.empty Map.empty))"
  using deployed_agents_inject [of offline_client Map.empty Map.empty
      "initialize_state_var offline_client Map.empty Map.empty" csv_generation_agent_cfg
      "\<lambda>p _. ([] :: nat list, Some p)" "\<lambda>_. Inr []"]
  by simp

text \<open>C23: In every deployed run the CSV generation agent is told that the bot structure is
  empty: its injected instruction contains the line \<open>- Dialogflow CX bot structure: \<close>
  with nothing after it, whatever the retrieval and analysis agents produced.\<close>

theorem deployed_csv_prompt_empty_bot_structure:
  "\<exists>p. inject_session_state artifact_ref
          (snd (run_llm_agent no_match_analysis_agent_cfg m2
                 (snd (run_llm_agent conversation_data_retrieval_agent_cfg m1
                        (initialize_state_var client environ st0)))))
          CSV_GENERATION_INSTRUCTION_STR = Inr p \<and>
       sublist ''    - Dialogflow CX bot structure: \<newline>'' p"
proof -
  let ?ini = "initialize_state_var client environ st0"
  let ?st = "snd (run_llm_agent no_match_analysis_agent_cfg m2
               (snd (run_llm_agent conversation_data_retrieval_agent_cfg m1 ?ini)))"
  have dom: "dom ?ini \<subseteq> dom ?st"
    by (rule order_trans [OF run_llm_agent_dom run_llm_agent_dom])
  have bot: "?st ''dialogflow_analysis_output'' = Some (PStr [])"
    by (simp add: run_llm_agent_other_key agent_cfg_defs initialize_state_var_workflow_key workflow_keys_def)
  have ok: "list_all (\<lambda>m. \<not> is_artifact_ref m) (placeholders CSV_GENERATION_INSTRUCTION_STR) \<and>
        set (instruction_reads CSV_GENERATION_INSTRUCTION_STR) \<subseteq> dom ?ini"
    using deployed_instruction_ok [of csv_generation_agent_cfg client environ st0]
    by (simp add: agent_instructions)
  then have "set (instruction_reads CSV_GENERATION_INSTRUCTION_STR) \<subseteq> dom ?st"
    using dom by blast
  then obtain p where p: "inject_session_state artifact_ref ?st CSV_GENERATION_INSTRUCTION_STR = Inr p"
    using inject_Inr_iff ok by blast
  then have "inject_lines artifact_ref ?st CSV_GENERATION_INSTRUCTION_STR_LINES = Inr p"
    unfolding CSV_GENERATION_INSTRUCTION_STR_def inject_concat [OF csv_instruction_lines] .
  moreover have "inject_session_state artifact_ref ?st
      ''    - Dialogflow CX bot structure: {dialogflow_analysis_output}\<newline>'' =
      Inr (''    - Dialogflow CX bot structure: '' @ py_str (PStr []) @ ''\<newline>'')"
    by (rule inject_csv_bot_structure_line) (rule bot)
  ultimately have "sublist (''    - Dialogflow CX bot structure: '' @ py_str (PStr []) @ ''\<newline>'') p"
    by (rule inject_lines_sublist [OF _ csv_bot_structure_line])
  with p show ?thesis by auto
qed

section \<open>Typing of the session state\<close>

lemma deployed_output_keys:
  "output_key conversation_data_retrieval_agent_cfg \<in> set workflow_keys"
  "output_key no_match_analysis_agent_cfg \<in> set workflow_keys"
  "output_key dialogflow_cx_parser_agent_cfg \<in> set workflow_keys"
  "output_key csv_generation_agent_cfg \<in> set workflow_keys"
  by (simp_all add: agent_cfg_defs workflow_keys_def)

text \<open>C26: Every deployed run, from any session state, with any client, environment and
  language models, ends in a state that conforms to the schema of the spec's section 3:
  every key of the schema is present, the connection parameters are strings or
  \<open>None\<close>, the metadata is a list of dicts, and every workflow key holds a string.\<close>

theorem deployed_run_typed:
  "state_typed (snd (run_async client environ (no_match_analysis_orchestrator m1 m2 m3 m4) st))"
  unfolding run_async_def
  by (rule run_async_impl_invariant)
     (simp_all add: no_match_analysis_orchestrator_def run_llm_agent_typed deployed_output_keys
      initialize_state_var_typed)

end
